theory Spec2Isabelle
  imports Complex_Main "HOL-Library.AList"
begin

chapter \<open>The admin dashboard: data-access layer, pagination hook and utilities\<close>

text \<open>
  The dashboard is a TypeScript front end over a remote relational store. This theory
  embeds the data-access functions (\<open>services/*.ts\<close>), the pagination hook
  (\<open>hooks/usePagination.ts\<close>), the retry helper (\<open>utils/errorHandler.ts\<close>), the slug
  generator (\<open>services/legalPageService.ts\<close>) and the status types (\<open>types/*.ts\<close>).

  Conventions of the embedding:
  \<^item> an \<open>async\<close> function is a function of the backend and the store state that returns its
    resolved value together with the new store state; a rejected promise or a thrown value
    is a value of type \<open>thrown\<close>;
  \<^item> \<open>null\<close> and \<open>undefined\<close> are \<open>None\<close> (or \<open>JNull\<close> inside JSON data);
  \<^item> JavaScript numbers that hold counts, page numbers and delays are integers; where a
    division by zero would leave the integers (\<open>Infinity\<close>, \<open>NaN\<close>) the result is \<open>None\<close>;
  \<^item> a JavaScript string is a list of code units, restricted to the range U+0000..U+00FF,
    one \<open>char\<close> per code unit.
\<close>

section \<open>Definitions\<close>

subsection \<open>Slug generation (\<open>generateSlug\<close>)\<close>

text \<open>
  The character classes of the regular expressions used by \<open>generateSlug\<close>, by code unit:
  \<open>\w\<close> is \<open>[A-Za-z0-9_]\<close>; \<open>\s\<close> and \<open>trim\<close> share one set of white space, which below
  U+0100 is TAB, LF, VT, FF, CR, SPACE and NBSP.
\<close>

definition isUpperAscii :: "char \<Rightarrow> bool" where
  "isUpperAscii c = (65 \<le> (of_char c :: nat) \<and> (of_char c :: nat) \<le> 90)"

definition isLowerAscii :: "char \<Rightarrow> bool" where
  "isLowerAscii c = (97 \<le> (of_char c :: nat) \<and> (of_char c :: nat) \<le> 122)"

definition isDigit :: "char \<Rightarrow> bool" where
  "isDigit c = (48 \<le> (of_char c :: nat) \<and> (of_char c :: nat) \<le> 57)"

definition isWordChar :: "char \<Rightarrow> bool" where
  "isWordChar c = (isUpperAscii c \<or> isLowerAscii c \<or> isDigit c \<or> c = CHR ''_'')"

definition isWhiteSpace :: "char \<Rightarrow> bool" where
  "isWhiteSpace c = ((of_char c :: nat) \<in> {9, 10, 11, 12, 13, 32, 160})"

text \<open>
  \<open>String.prototype.toLowerCase\<close> below U+0100: the letters A..Z and the Latin-1 capitals
  U+00C0..U+00DE (without the multiplication sign U+00D7) move up by 32; every other code
  unit is kept.
\<close>

definition isUpperLatin1 :: "char \<Rightarrow> bool" where
  "isUpperLatin1 c =
     (192 \<le> (of_char c :: nat) \<and> (of_char c :: nat) \<le> 222 \<and> (of_char c :: nat) \<noteq> 215)"

definition toLowerChar :: "char \<Rightarrow> char" where
  "toLowerChar c =
     (if isUpperAscii c \<or> isUpperLatin1 c then char_of ((of_char c :: nat) + 32) else c)"

definition toLowerCase :: "string \<Rightarrow> string" where
  "toLowerCase s = map toLowerChar s"

definition trim :: "string \<Rightarrow> string" where
  "trim s = rev (dropWhile isWhiteSpace (rev (dropWhile isWhiteSpace s)))"

text \<open>
  \<open>s.replace(/X+/g, r)\<close> for a character class \<open>X\<close>: every maximal run of characters of
  the class is replaced by \<open>r\<close>. \<open>s.replace(/[^...]/g, '')\<close> is a \<open>filter\<close>.
\<close>

function replaceRuns :: "(char \<Rightarrow> bool) \<Rightarrow> string \<Rightarrow> string \<Rightarrow> string" where
  "replaceRuns P r [] = []"
| "replaceRuns P r (c # cs) =
     (if P c then r @ replaceRuns P r (dropWhile P cs) else c # replaceRuns P r cs)"
  by pat_completeness auto
termination
  by (relation "measure (\<lambda>(P, r, cs). length cs)")
     (auto simp: less_Suc_eq_le length_dropWhile_le)

definition generateSlug :: "string \<Rightarrow> string" where
  "generateSlug title =
     replaceRuns (\<lambda>c. c = CHR ''-'') ''-''
       (replaceRuns isWhiteSpace ''-''
          (filter (\<lambda>c. isWordChar c \<or> isWhiteSpace c \<or> c = CHR ''-'')
             (trim (toLowerCase title))))"

text \<open>The shape of a normalized slug.\<close>

definition isSlugChar :: "char \<Rightarrow> bool" where
  "isSlugChar c = (isLowerAscii c \<or> isDigit c \<or> c = CHR ''_'' \<or> c = CHR ''-'')"

fun hasConsecutiveHyphens :: "string \<Rightarrow> bool" where
  "hasConsecutiveHyphens (a # b # cs) =
     ((a = CHR ''-'' \<and> b = CHR ''-'') \<or> hasConsecutiveHyphens (b # cs))"
| "hasConsecutiveHyphens _ = False"

subsection \<open>Pagination hook (\<open>usePagination\<close>)\<close>

text \<open>
  \<open>Math.ceil(a / b)\<close> on integers. With \<open>b = 0\<close> JavaScript yields \<open>Infinity\<close>,
  \<open>-Infinity\<close> or \<open>NaN\<close>; that is \<open>None\<close> here, and every operation that would compute
  with such a value is \<open>None\<close> as well.
\<close>

definition Math_ceil_div :: "int \<Rightarrow> int \<Rightarrow> int option" where
  "Math_ceil_div a b = (if b = 0 then None else Some (- ((- a) div b)))"

text \<open>
  The hook keeps \<open>page\<close>, \<open>pageSize\<close> and \<open>total\<close> in React state; \<open>initialPage\<close> and
  \<open>initialPageSize\<close> come from its options.
\<close>

record usePaginationState =
  page :: int
  pageSize :: int
  total :: int
  initialPage :: int
  initialPageSize :: int

definition DEFAULT_PAGE :: int where "DEFAULT_PAGE = 1"
definition DEFAULT_PAGE_SIZE :: int where "DEFAULT_PAGE_SIZE = 10"

definition usePagination :: "int option \<Rightarrow> int option \<Rightarrow> int option \<Rightarrow> usePaginationState" where
  "usePagination optInitialPage optInitialPageSize optTotal =
     (let ip = (case optInitialPage of None \<Rightarrow> DEFAULT_PAGE | Some p \<Rightarrow> p);
          ips = (case optInitialPageSize of None \<Rightarrow> DEFAULT_PAGE_SIZE | Some n \<Rightarrow> n);
          it = (case optTotal of None \<Rightarrow> 0 | Some t \<Rightarrow> t)
      in \<lparr>page = ip, pageSize = ips, total = it, initialPage = ip, initialPageSize = ips\<rparr>)"

definition totalPages :: "usePaginationState \<Rightarrow> int option" where
  "totalPages s = map_option (max 1) (Math_ceil_div (total s) (pageSize s))"

definition offset :: "usePaginationState \<Rightarrow> int" where
  "offset s = (page s - 1) * pageSize s"

definition canGoNext :: "usePaginationState \<Rightarrow> bool option" where
  "canGoNext s = map_option (\<lambda>tp. page s < tp) (totalPages s)"

definition canGoPrev :: "usePaginationState \<Rightarrow> bool" where
  "canGoPrev s = (page s > 1)"

definition maxVisiblePages :: int where "maxVisiblePages = 5"

definition pageNumbers :: "usePaginationState \<Rightarrow> int list option" where
  "pageNumbers s =
     map_option (\<lambda>tp.
       if tp \<le> maxVisiblePages then [1..tp]
       else
         (let start = max 1 (page s - maxVisiblePages div 2);
              end' = min tp (start + maxVisiblePages - 1);
              start' = (if end' - start < maxVisiblePages - 1
                        then max 1 (end' - maxVisiblePages + 1) else start)
          in [start'..end'])) (totalPages s)"

text \<open>
  A render of the hook reads the state \<open>r\<close> and builds the operations as closures over the
  values of that render: \<open>totalPages\<close> in \<open>setPage\<close> and \<open>lastPage\<close>, \<open>page\<close> and \<open>pageSize\<close> in
  \<open>setTotal\<close>, \<open>canGoNext\<close> in \<open>nextPage\<close>, \<open>canGoPrev\<close> in \<open>prevPage\<close>, the options in
  \<open>resetPagination\<close>. A call queues state updates, which React applies to the latest state
  \<open>s\<close>: a value (\<open>setPageState(boundedPage)\<close>) replaces the field, an updater
  (\<open>setPageState(prev => prev + 1)\<close>) is applied to the field of \<open>s\<close>. The first call of an
  operation after the render that built it has \<open>s = r\<close>.
\<close>

definition setPage :: "usePaginationState \<Rightarrow> usePaginationState \<Rightarrow> int \<Rightarrow> usePaginationState option" where
  "setPage r s newPage =
     map_option (\<lambda>tp. s\<lparr>page := max 1 (min newPage tp)\<rparr>) (totalPages r)"

definition setPageSize :: "usePaginationState \<Rightarrow> int \<Rightarrow> usePaginationState" where
  "setPageSize s newPageSize = s\<lparr>pageSize := newPageSize, page := 1\<rparr>"

definition setTotal :: "usePaginationState \<Rightarrow> usePaginationState \<Rightarrow> int \<Rightarrow> usePaginationState option" where
  "setTotal r s newTotal =
     map_option (\<lambda>c.
       (let newTotalPages = max 1 c
        in if page r > newTotalPages then s\<lparr>total := newTotal, page := newTotalPages\<rparr>
           else s\<lparr>total := newTotal\<rparr>)) (Math_ceil_div newTotal (pageSize r))"

definition nextPage :: "usePaginationState \<Rightarrow> usePaginationState \<Rightarrow> usePaginationState option" where
  "nextPage r s = map_option (\<lambda>b. if b then s\<lparr>page := page s + 1\<rparr> else s) (canGoNext r)"

definition prevPage :: "usePaginationState \<Rightarrow> usePaginationState \<Rightarrow> usePaginationState" where
  "prevPage r s = (if canGoPrev r then s\<lparr>page := page s - 1\<rparr> else s)"

definition firstPage :: "usePaginationState \<Rightarrow> usePaginationState" where
  "firstPage s = s\<lparr>page := 1\<rparr>"

definition lastPage :: "usePaginationState \<Rightarrow> usePaginationState \<Rightarrow> usePaginationState option" where
  "lastPage r s = map_option (\<lambda>tp. s\<lparr>page := tp\<rparr>) (totalPages r)"

definition resetPagination :: "usePaginationState \<Rightarrow> usePaginationState \<Rightarrow> usePaginationState" where
  "resetPagination r s = s\<lparr>page := initialPage r, pageSize := initialPageSize r\<rparr>"

text \<open>
  The operations the hook returns; \<open>applyOp r s op\<close> is one call of the operation built by
  render \<open>r\<close>, on the latest state \<open>s\<close>. \<open>calls r s ops\<close> is a sequence of calls of operations
  of the same render, with no render in between.
\<close>

datatype paginationOp =
  SetPage int | SetPageSize int | SetTotal int | NextPage | PrevPage | FirstPage | LastPage
  | ResetPagination

fun applyOp :: "usePaginationState \<Rightarrow> usePaginationState \<Rightarrow> paginationOp \<Rightarrow> usePaginationState option" where
  "applyOp r s (SetPage n) = setPage r s n"
| "applyOp r s (SetPageSize n) = Some (setPageSize s n)"
| "applyOp r s (SetTotal t) = setTotal r s t"
| "applyOp r s NextPage = nextPage r s"
| "applyOp r s PrevPage = Some (prevPage r s)"
| "applyOp r s FirstPage = Some (firstPage s)"
| "applyOp r s LastPage = lastPage r s"
| "applyOp r s ResetPagination = Some (resetPagination r s)"

fun calls :: "usePaginationState \<Rightarrow> usePaginationState \<Rightarrow> paginationOp list \<Rightarrow> usePaginationState option" where
  "calls r s [] = Some s"
| "calls r s (op # ops) = (case applyOp r s op of None \<Rightarrow> None | Some s' \<Rightarrow> calls r s' ops)"

text \<open>The invariant on the state of the hook.\<close>

definition pageInBounds :: "usePaginationState \<Rightarrow> bool" where
  "pageInBounds s =
     (1 \<le> pageSize s \<and>
      (case totalPages s of None \<Rightarrow> False | Some tp \<Rightarrow> 1 \<le> page s \<and> page s \<le> tp))"

text \<open>
  Arguments the preservation theorem needs: a new page size of at least 1; for
  \<open>resetPagination\<close>, initial values that are themselves in bounds for the current total.
\<close>

fun admissible :: "usePaginationState \<Rightarrow> paginationOp \<Rightarrow> bool" where
  "admissible s (SetPageSize n) = (1 \<le> n)"
| "admissible s ResetPagination =
     (1 \<le> initialPageSize s \<and> 1 \<le> initialPage s \<and>
      (case Math_ceil_div (total s) (initialPageSize s) of
         None \<Rightarrow> False | Some c \<Rightarrow> initialPage s \<le> max 1 c))"
| "admissible s _ = True"
subsection \<open>Retry helper (\<open>retryOperation\<close>)\<close>

text \<open>
  What a \<open>catch\<close> clause can receive: an instance of \<open>Error\<close> with its message, any
  other value, or \<open>undefined\<close>.
\<close>

datatype thrown = ErrorInstance string | OtherValue string | Undefined

text \<open>
  One run of \<open>retryOperation\<close>: what the returned promise settles to, how often
  \<open>operation\<close> was invoked, and the durations passed to \<open>setTimeout\<close>, in order.
  \<open>operation k\<close> is the outcome of the invocation that follows \<open>k\<close> earlier ones.
\<close>

record 'a retryRun =
  outcome :: "thrown + 'a"
  invocations :: nat
  waits :: "int list"

text \<open>\<open>error instanceof Error ? error : new Error('Unknown error')\<close>\<close>

definition asError :: "thrown \<Rightarrow> thrown" where
  "asError error = (case error of ErrorInstance m \<Rightarrow> error | _ \<Rightarrow> ErrorInstance ''Unknown error'')"

definition waitTime :: "int \<Rightarrow> bool \<Rightarrow> nat \<Rightarrow> int" where
  "waitTime delay backoff attempt = (if backoff then delay * 2 ^ attempt else delay)"

function retryLoop ::
  "(nat \<Rightarrow> thrown + 'a) \<Rightarrow> int \<Rightarrow> int \<Rightarrow> bool \<Rightarrow> nat \<Rightarrow> thrown \<Rightarrow> int list \<Rightarrow> 'a retryRun"
where
  "retryLoop operation maxRetries delay backoff attempt lastError ws =
     (if int attempt \<le> maxRetries then
        (case operation attempt of
           Inr v \<Rightarrow> \<lparr>outcome = Inr v, invocations = attempt + 1, waits = ws\<rparr>
         | Inl error \<Rightarrow>
             (if int attempt = maxRetries
              then \<lparr>outcome = Inl (asError error), invocations = attempt + 1, waits = ws\<rparr>
              else retryLoop operation maxRetries delay backoff (attempt + 1) (asError error)
                     (ws @ [waitTime delay backoff attempt])))
      else \<lparr>outcome = Inl lastError, invocations = attempt, waits = ws\<rparr>)"
  by pat_completeness auto
termination
  by (relation "measure (\<lambda>(operation, maxRetries, delay, backoff, attempt, lastError, ws).
        nat (maxRetries + 1 - int attempt))") auto

definition retryOperation ::
  "(nat \<Rightarrow> thrown + 'a) \<Rightarrow> int \<Rightarrow> int \<Rightarrow> bool \<Rightarrow> 'a retryRun" where
  "retryOperation operation maxRetries delay backoff =
     retryLoop operation maxRetries delay backoff 0 Undefined []"

text \<open>Two operations used as concrete inputs below.\<close>

definition failsTwice :: "nat \<Rightarrow> thrown + int" where
  "failsTwice k = (if k < 2 then Inl (ErrorInstance ''network'') else Inr 7)"

definition rejectsWithString :: "nat \<Rightarrow> thrown + int" where
  "rejectsWithString k = Inl (OtherValue ''boom'')"

subsection \<open>Status types (\<open>types/*.ts\<close>)\<close>

text \<open>
  A TypeScript union of string literals is, at run time, a string; the type is the list of
  its literals in the order of the declaration.
\<close>

definition BusinessStatus :: "string list" where
  "BusinessStatus =
     [''pending'', ''active'', ''rejected'', ''suspended'', ''removed'', ''deleted'']"

definition ServiceStatus :: "string list" where
  "ServiceStatus =
     [''pending'', ''active'', ''rejected'', ''suspended'', ''deleted'', ''requestDeletion'']"

definition TransactionStatus :: "string list" where
  "TransactionStatus =
     [''pending'', ''completed'', ''failed'', ''refunded'', ''cancelled'', ''processing'']"

definition CompanyStatus :: "string list" where
  "CompanyStatus = [''pending'', ''approved'', ''rejected'', ''suspended'']"

definition UserType :: "string list" where
  "UserType = [''customer'', ''provider'', ''admin'']"

subsection \<open>The remote store as seen by the services\<close>

text \<open>
  JSON values and objects. A row, an update payload and the data of a response are JSON
  objects: lists of column names with their values.
\<close>

datatype jsvalue = JNull | JBool bool | JNum int | JStr string

type_synonym row = "(string \<times> jsvalue) list"

text \<open>
  What the query builder of the store client accumulates before the request is sent: the
  table, the verb, the argument of \<open>select\<close> with its options \<open>count: 'exact'\<close> and
  \<open>head: true\<close>, the filters in the order of the calls, \<open>order\<close>, \<open>range\<close> and \<open>single\<close>.
\<close>

datatype filter =
  Eq string jsvalue | Neq string jsvalue | Gte string jsvalue | Lte string jsvalue | Or string

datatype verb = Select | Insert row | Update row | Delete

record query =
  table :: string
  verb :: verb
  columns :: "string option"
  countExact :: bool
  headOnly :: bool
  filters :: "filter list"
  ordering :: "(string \<times> bool) option"
  rowRange :: "(int \<times> int) option"
  singleRow :: bool

definition fromTable :: "string \<Rightarrow> query" where
  "fromTable t =
     \<lparr>table = t, verb = Select, columns = None, countExact = False, headOnly = False,
      filters = [], ordering = None, rowRange = None, singleRow = False\<rparr>"

definition select :: "string \<Rightarrow> query \<Rightarrow> query" where
  "select cols q = q\<lparr>columns := Some cols\<rparr>"

definition selectCount :: "string \<Rightarrow> bool \<Rightarrow> query \<Rightarrow> query" where
  "selectCount cols head q = q\<lparr>columns := Some cols, countExact := True, headOnly := head\<rparr>"

definition updateRows :: "row \<Rightarrow> query \<Rightarrow> query" where
  "updateRows payload q = q\<lparr>verb := Update payload\<rparr>"

definition insertRow :: "row \<Rightarrow> query \<Rightarrow> query" where
  "insertRow payload q = q\<lparr>verb := Insert payload\<rparr>"


definition addFilter :: "filter \<Rightarrow> query \<Rightarrow> query" where
  "addFilter f q = q\<lparr>filters := filters q @ [f]\<rparr>"

definition orderBy :: "string \<Rightarrow> bool \<Rightarrow> query \<Rightarrow> query" where
  "orderBy col ascending q = q\<lparr>ordering := Some (col, ascending)\<rparr>"

definition rangeRows :: "int \<Rightarrow> int \<Rightarrow> query \<Rightarrow> query" where
  "rangeRows lo hi q = q\<lparr>rowRange := Some (lo, hi)\<rparr>"

definition single :: "query \<Rightarrow> query" where
  "single q = q\<lparr>singleRow := True\<rparr>"

text \<open>
  \<open>if (x) query = query.eq(col, x)\<close> for an optional string \<open>x\<close>: \<open>undefined\<close> and the
  empty string are falsy. \<open>if (b !== undefined) query = query.eq(col, b)\<close> for an optional
  boolean. \<open>chain q [f, g]\<close> is \<open>q.f().g()\<close>.
\<close>

definition truthy :: "string option \<Rightarrow> bool" where
  "truthy x = (case x of None \<Rightarrow> False | Some s \<Rightarrow> s \<noteq> [])"

definition whenTruthy :: "string option \<Rightarrow> (string \<Rightarrow> filter) \<Rightarrow> query \<Rightarrow> query" where
  "whenTruthy x f q = (case x of None \<Rightarrow> q | Some s \<Rightarrow> if s \<noteq> [] then addFilter (f s) q else q)"

definition whenDefined :: "bool option \<Rightarrow> (bool \<Rightarrow> filter) \<Rightarrow> query \<Rightarrow> query" where
  "whenDefined x f q = (case x of None \<Rightarrow> q | Some b \<Rightarrow> addFilter (f b) q)"

definition chain :: "query \<Rightarrow> (query \<Rightarrow> query) list \<Rightarrow> query" where
  "chain q steps = fold (\<lambda>f q'. f q') steps q"

text \<open>
  Requests: a query on a table, or a call of the authentication client (\<open>signUp\<close> with
  email, password and the metadata object). A response carries \<open>data\<close>, \<open>error\<close> and
  \<open>count\<close>; the data of the authentication client is a user object and a session, either
  of which may be null. Awaiting a request either yields a response or throws; every awaited
  request is taken to settle.
\<close>

record authSession =
  as_access_token :: string
  as_refresh_token :: string
  as_expires_at :: "int option"

datatype request =
  Rest query
  | SignInWithPassword string string
  | SignUp string string row
  | SignOut

record storeError =
  e_message :: string
  e_code :: "string option"
  e_status :: "int option"

datatype jsdata = DNull | DRow row | DRows "row list" | DAuth "row option" "authSession option"

record response =
  r_data :: jsdata
  r_error :: "storeError option"
  r_count :: "int option"

datatype settled = Rejected thrown | Resolved response

type_synonym 's backend = "request \<Rightarrow> 's \<Rightarrow> settled \<times> 's"

text \<open>
  The body of an \<open>async\<close> function: from the store state to a returned value or a thrown
  one, with the new state. \<open>await\<close> sends a request and continues with the response;
  \<open>tryCatch\<close> is \<open>try { body } catch (err) { return handler(err) }\<close>.
\<close>

type_synonym ('a, 's) async = "'s \<Rightarrow> (thrown + 'a) \<times> 's"

definition returnA :: "'a \<Rightarrow> ('a, 's) async" where
  "returnA x = (\<lambda>s. (Inr x, s))"

definition throwA :: "thrown \<Rightarrow> ('a, 's) async" where
  "throwA err = (\<lambda>s. (Inl err, s))"

definition await :: "'s backend \<Rightarrow> request \<Rightarrow> (response \<Rightarrow> ('a, 's) async) \<Rightarrow> ('a, 's) async" where
  "await supabase req k =
     (\<lambda>s. case supabase req s of
             (Rejected err, s') \<Rightarrow> (Inl err, s')
           | (Resolved r, s') \<Rightarrow> k r s')"

definition tryCatch :: "('a, 's) async \<Rightarrow> (thrown \<Rightarrow> 'a) \<Rightarrow> 's \<Rightarrow> 'a \<times> 's" where
  "tryCatch body handler =
     (\<lambda>s. case body s of
             (Inl err, s') \<Rightarrow> (handler err, s')
           | (Inr v, s') \<Rightarrow> (v, s'))"

text \<open>
  The flat error shape \<open>ApiError\<close> and the result of a service function. The payload field
  is called \<open>data\<close>, \<open>business\<close>, \<open>service\<close>, \<open>company\<close>, \<open>user\<close>, \<open>legalPage\<close>,
  \<open>legalPages\<close>, \<open>transaction\<close> or \<open>stats\<close> in the source; \<open>null\<close> is \<open>None\<close>.
  A delete function returns an object with the \<open>error\<close> field alone.
\<close>

record ApiError =
  message :: string
  code :: "string option"
  status :: "int option"

record 'a serviceResponse =
  payload :: "'a option"
  error :: "ApiError option"

record deleteResponse =
  deleteError :: "ApiError option"

record PaginatedResponse =
  pr_data :: jsdata
  pr_total :: int
  pr_page :: int
  pr_pageSize :: int
  pr_totalPages :: "int option"

text \<open>\<open>{ message: error.message, code: error.code }\<close>\<close>

definition fromStoreError :: "storeError \<Rightarrow> ApiError" where
  "fromStoreError e = \<lparr>message = e_message e, code = e_code e, status = None\<rparr>"

text \<open>\<open>{ message: err instanceof Error ? err.message : fallback }\<close>\<close>

definition caught :: "string \<Rightarrow> thrown \<Rightarrow> ApiError" where
  "caught fallback err =
     \<lparr>message = (case err of ErrorInstance m \<Rightarrow> m | _ \<Rightarrow> fallback),
      code = None, status = None\<rparr>"

text \<open>\<open>data as T\<close> where the field is typed \<open>T | null\<close>.\<close>

definition nullable :: "jsdata \<Rightarrow> jsdata option" where
  "nullable d = (if d = DNull then None else Some d)"

text \<open>
  The three shapes every service function ends in, after \<open>const { data, error, count } =
  await query\<close>: a paginated list, a single row (or the rows as they are), and a delete.
\<close>

definition listResult :: "int \<Rightarrow> int \<Rightarrow> response \<Rightarrow> PaginatedResponse serviceResponse" where
  "listResult page' pageSize' r =
     (case r_error r of
        Some e \<Rightarrow> \<lparr>payload = None, error = Some (fromStoreError e)\<rparr>
      | None \<Rightarrow>
          (let total' = (case r_count r of None \<Rightarrow> 0 | Some c \<Rightarrow> c);
               totalPages' = Math_ceil_div total' pageSize'
           in \<lparr>payload = Some \<lparr>pr_data = r_data r, pr_total = total', pr_page = page',
                                 pr_pageSize = pageSize', pr_totalPages = totalPages'\<rparr>,
               error = None\<rparr>))"

definition dataResult :: "response \<Rightarrow> jsdata serviceResponse" where
  "dataResult r =
     (case r_error r of
        Some e \<Rightarrow> \<lparr>payload = None, error = Some (fromStoreError e)\<rparr>
      | None \<Rightarrow> \<lparr>payload = nullable (r_data r), error = None\<rparr>)"


definition failed :: "string \<Rightarrow> thrown \<Rightarrow> 'a serviceResponse" where
  "failed fallback err = \<lparr>payload = None, error = Some (caught fallback err)\<rparr>"


text \<open>
  One step of a stats function: a count query on a table with the given filters; on an
  error the function returns it with null stats, otherwise it goes on with the count.
\<close>

type_synonym stats = "(string \<times> int) list"

definition countQuery :: "string \<Rightarrow> filter list \<Rightarrow> query" where
  "countQuery t fs = chain (fromTable t) (selectCount ''*'' True # map addFilter fs)"

definition counting ::
  "'s backend \<Rightarrow> string \<Rightarrow> filter list \<Rightarrow> (int option \<Rightarrow> (stats serviceResponse, 's) async)
     \<Rightarrow> (stats serviceResponse, 's) async" where
  "counting supabase t fs k =
     await supabase (Rest (countQuery t fs))
       (\<lambda>r. case r_error r of
               Some e \<Rightarrow> returnA \<lparr>payload = None, error = Some (fromStoreError e)\<rparr>
             | None \<Rightarrow> k (r_count r))"

definition orZero :: "int option \<Rightarrow> int" where
  "orZero c = (case c of None \<Rightarrow> 0 | Some n \<Rightarrow> n)"

subsection \<open>Business service (\<open>services/businessService.ts\<close>)\<close>

text \<open>
  Query parameters. The interfaces of the source share the field names \<open>page\<close>,
  \<open>pageSize\<close>, \<open>sortBy\<close>, \<open>sortOrder\<close>, \<open>status\<close>, \<open>search\<close> and so on; here every record
  has its own prefix. Template strings that span several lines are written on one line.
  \<open>new Date().toISOString()\<close> is the argument \<open>now\<close>.
\<close>

record BusinessQueryParams =
  b_page :: "int option"
  b_pageSize :: "int option"
  b_sortBy :: "string option"
  b_sortOrder :: "string option"
  b_status :: "string option"
  b_categoryId :: "string option"
  b_companyId :: "string option"
  b_search :: "string option"

definition orDefault :: "'a option \<Rightarrow> 'a \<Rightarrow> 'a" where
  "orDefault x d = (case x of None \<Rightarrow> d | Some v \<Rightarrow> v)"

definition businessColumns :: string where
  "businessColumns =
     ''*, company:companies!company_id(*), category:categories!category_id(*), subcategory:subcategories!subcategory_id(*)''"

definition getBusinessesQuery :: "BusinessQueryParams \<Rightarrow> query" where
  "getBusinessesQuery params =
     (let page' = orDefault (b_page params) 1;
          pageSize' = orDefault (b_pageSize params) DEFAULT_PAGE_SIZE;
          sortBy = orDefault (b_sortBy params) ''created_at'';
          sortOrder = orDefault (b_sortOrder params) ''desc'';
          offset' = (page' - 1) * pageSize'
      in chain (fromTable ''businesses'')
           [selectCount businessColumns False,
            whenTruthy (b_status params) (\<lambda>s. Eq ''status'' (JStr s)),
            whenTruthy (b_categoryId params) (\<lambda>s. Eq ''category_id'' (JStr s)),
            whenTruthy (b_companyId params) (\<lambda>s. Eq ''company_id'' (JStr s)),
            whenTruthy (b_search params)
              (\<lambda>s. Or (''name.ilike.%'' @ s @ ''%,address.ilike.%'' @ s
                        @ ''%,contact_email.ilike.%'' @ s @ ''%'')),
            orderBy sortBy (sortOrder = ''asc''),
            rangeRows offset' (offset' + pageSize' - 1)])"

definition getBusinesses ::
  "'s backend \<Rightarrow> BusinessQueryParams \<Rightarrow> 's \<Rightarrow> PaginatedResponse serviceResponse \<times> 's" where
  "getBusinesses supabase params =
     tryCatch
       (await supabase (Rest (getBusinessesQuery params))
          (\<lambda>r. returnA (listResult (orDefault (b_page params) 1)
                           (orDefault (b_pageSize params) DEFAULT_PAGE_SIZE) r)))
       (failed ''Failed to fetch businesses'')"


definition updateBusinessStatusPayload :: "string \<Rightarrow> string \<Rightarrow> row" where
  "updateBusinessStatusPayload status' now = [(''status'', JStr status'), (''updated_at'', JStr now)]"

definition updateBusinessStatus ::
  "'s backend \<Rightarrow> string \<Rightarrow> string \<Rightarrow> string \<Rightarrow> 's \<Rightarrow> jsdata serviceResponse \<times> 's" where
  "updateBusinessStatus supabase id' status' now =
     tryCatch
       (await supabase
          (Rest (chain (fromTable ''businesses'')
                   [updateRows (updateBusinessStatusPayload status' now),
                    addFilter (Eq ''id'' (JStr id')), select businessColumns, single]))
          (\<lambda>r. returnA (dataResult r)))
       (failed ''Failed to update business status'')"


definition getBusinessStats :: "'s backend \<Rightarrow> 's \<Rightarrow> stats serviceResponse \<times> 's" where
  "getBusinessStats supabase =
     tryCatch
       (counting supabase ''businesses'' [] (\<lambda>total'.
        counting supabase ''businesses'' [Eq ''status'' (JStr ''active'')] (\<lambda>active.
        counting supabase ''businesses'' [Eq ''status'' (JStr ''pending'')] (\<lambda>pending.
        counting supabase ''businesses'' [Eq ''status'' (JStr ''suspended'')] (\<lambda>suspended.
        counting supabase ''businesses'' [Eq ''status'' (JStr ''rejected'')] (\<lambda>rejected.
        returnA \<lparr>payload = Some [(''total'', orZero total'), (''active'', orZero active),
                                  (''pending'', orZero pending), (''suspended'', orZero suspended),
                                  (''rejected'', orZero rejected)],
                 error = None\<rparr>))))))
       (failed ''Failed to fetch business stats'')"

subsection \<open>Service service (\<open>services/serviceService.ts\<close>)\<close>

record ServiceQueryParams =
  s_page :: "int option"
  s_pageSize :: "int option"
  s_sortBy :: "string option"
  s_sortOrder :: "string option"
  s_status :: "string option"
  s_categoryId :: "string option"
  s_businessId :: "string option"
  s_search :: "string option"

definition serviceColumns :: string where
  "serviceColumns =
     ''*, business:businesses!business_id(*), category:categories!category_id(*), provider:users!provider_id(*)''"

definition getServicesQuery :: "ServiceQueryParams \<Rightarrow> query" where
  "getServicesQuery params =
     (let page' = orDefault (s_page params) 1;
          pageSize' = orDefault (s_pageSize params) DEFAULT_PAGE_SIZE;
          sortBy = orDefault (s_sortBy params) ''created_at'';
          sortOrder = orDefault (s_sortOrder params) ''desc'';
          offset' = (page' - 1) * pageSize'
      in chain (fromTable ''services'')
           [selectCount serviceColumns False,
            whenTruthy (s_status params) (\<lambda>s. Eq ''status'' (JStr s)),
            whenTruthy (s_categoryId params) (\<lambda>s. Eq ''category_id'' (JStr s)),
            whenTruthy (s_businessId params) (\<lambda>s. Eq ''business_id'' (JStr s)),
            whenTruthy (s_search params)
              (\<lambda>s. Or (''title.ilike.%'' @ s @ ''%,description.ilike.%'' @ s @ ''%'')),
            orderBy sortBy (sortOrder = ''asc''),
            rangeRows offset' (offset' + pageSize' - 1)])"

definition getServices ::
  "'s backend \<Rightarrow> ServiceQueryParams \<Rightarrow> 's \<Rightarrow> PaginatedResponse serviceResponse \<times> 's" where
  "getServices supabase params =
     tryCatch
       (await supabase (Rest (getServicesQuery params))
          (\<lambda>r. returnA (listResult (orDefault (s_page params) 1)
                           (orDefault (s_pageSize params) DEFAULT_PAGE_SIZE) r)))
       (failed ''Failed to fetch services'')"


definition updateServiceStatusPayload :: "string \<Rightarrow> string \<Rightarrow> row" where
  "updateServiceStatusPayload status' now =
     [(''status'', JStr status'), (''updated_at'', JStr now)]
     @ (if status' = ''active'' then [(''is_active'', JBool True)]
        else if status' = ''suspended'' \<or> status' = ''rejected'' \<or> status' = ''deleted''
        then [(''is_active'', JBool False)]
        else [])"

definition updateServiceStatus ::
  "'s backend \<Rightarrow> string \<Rightarrow> string \<Rightarrow> string \<Rightarrow> 's \<Rightarrow> jsdata serviceResponse \<times> 's" where
  "updateServiceStatus supabase id' status' now =
     tryCatch
       (await supabase
          (Rest (chain (fromTable ''services'')
                   [updateRows (updateServiceStatusPayload status' now),
                    addFilter (Eq ''id'' (JStr id')), select serviceColumns, single]))
          (\<lambda>r. returnA (dataResult r)))
       (failed ''Failed to update service status'')"


definition getServiceStats :: "'s backend \<Rightarrow> 's \<Rightarrow> stats serviceResponse \<times> 's" where
  "getServiceStats supabase =
     tryCatch
       (counting supabase ''services'' [] (\<lambda>total'.
        counting supabase ''services'' [Eq ''status'' (JStr ''active'')] (\<lambda>active.
        counting supabase ''services'' [Eq ''status'' (JStr ''pending'')] (\<lambda>pending.
        counting supabase ''services'' [Eq ''status'' (JStr ''suspended'')] (\<lambda>suspended.
        counting supabase ''services'' [Eq ''status'' (JStr ''rejected'')] (\<lambda>rejected.
        counting supabase ''services'' [Eq ''status'' (JStr ''requestDeletion'')] (\<lambda>requestDeletion.
        returnA \<lparr>payload = Some [(''total'', orZero total'), (''active'', orZero active),
                                  (''pending'', orZero pending), (''suspended'', orZero suspended),
                                  (''rejected'', orZero rejected),
                                  (''requestDeletion'', orZero requestDeletion)],
                 error = None\<rparr>)))))))
       (failed ''Failed to fetch service stats'')"

subsection \<open>Company service (\<open>services/companyService.ts\<close>)\<close>

record CompanyQueryParams =
  c_page :: "int option"
  c_pageSize :: "int option"
  c_sortBy :: "string option"
  c_sortOrder :: "string option"
  c_status :: "string option"
  c_categoryId :: "string option"
  c_search :: "string option"

definition companyColumns :: string where
  "companyColumns = ''*, owner:users!owner_id(*), category:categories!category_id(*)''"

definition getCompaniesQuery :: "CompanyQueryParams \<Rightarrow> query" where
  "getCompaniesQuery params =
     (let page' = orDefault (c_page params) 1;
          pageSize' = orDefault (c_pageSize params) DEFAULT_PAGE_SIZE;
          sortBy = orDefault (c_sortBy params) ''created_at'';
          sortOrder = orDefault (c_sortOrder params) ''desc'';
          offset' = (page' - 1) * pageSize'
      in chain (fromTable ''companies'')
           [selectCount companyColumns False,
            whenTruthy (c_status params) (\<lambda>s. Eq ''status'' (JStr s)),
            whenTruthy (c_categoryId params) (\<lambda>s. Eq ''category_id'' (JStr s)),
            whenTruthy (c_search params)
              (\<lambda>s. Or (''name.ilike.%'' @ s @ ''%,registration_number.ilike.%'' @ s
                        @ ''%,email.ilike.%'' @ s @ ''%'')),
            orderBy sortBy (sortOrder = ''asc''),
            rangeRows offset' (offset' + pageSize' - 1)])"

definition getCompanies ::
  "'s backend \<Rightarrow> CompanyQueryParams \<Rightarrow> 's \<Rightarrow> PaginatedResponse serviceResponse \<times> 's" where
  "getCompanies supabase params =
     tryCatch
       (await supabase (Rest (getCompaniesQuery params))
          (\<lambda>r. returnA (listResult (orDefault (c_page params) 1)
                           (orDefault (c_pageSize params) DEFAULT_PAGE_SIZE) r)))
       (failed ''Failed to fetch companies'')"


text \<open>
  \<open>updateCompanyStatus\<close> reads the clock a second time for \<open>approved_at\<close>; that reading is
  \<open>now2\<close>. Assigning \<open>updateData.is_verified\<close> adds the key or overwrites it.
\<close>

definition updateCompanyStatusPayload :: "string \<Rightarrow> string \<Rightarrow> string \<Rightarrow> row" where
  "updateCompanyStatusPayload status' now now2 =
     (let updateData = [(''status'', JStr status'), (''updated_at'', JStr now)];
          updateData = (if status' = ''approved''
                        then AList.update ''is_verified'' (JBool True)
                               (AList.update ''approved_at'' (JStr now2) updateData)
                        else updateData);
          updateData = (if status' = ''rejected'' \<or> status' = ''suspended''
                        then AList.update ''is_verified'' (JBool False) updateData
                        else updateData)
      in updateData)"

definition updateCompanyStatus ::
  "'s backend \<Rightarrow> string \<Rightarrow> string \<Rightarrow> string \<Rightarrow> string \<Rightarrow> 's \<Rightarrow> jsdata serviceResponse \<times> 's"
where
  "updateCompanyStatus supabase id' status' now now2 =
     tryCatch
       (await supabase
          (Rest (chain (fromTable ''companies'')
                   [updateRows (updateCompanyStatusPayload status' now now2),
                    addFilter (Eq ''id'' (JStr id')), select companyColumns, single]))
          (\<lambda>r. returnA (dataResult r)))
       (failed ''Failed to update company status'')"


definition getCompanyStats :: "'s backend \<Rightarrow> 's \<Rightarrow> stats serviceResponse \<times> 's" where
  "getCompanyStats supabase =
     tryCatch
       (counting supabase ''companies'' [] (\<lambda>total'.
        counting supabase ''companies'' [Eq ''status'' (JStr ''pending'')] (\<lambda>pending.
        counting supabase ''companies'' [Eq ''status'' (JStr ''approved'')] (\<lambda>approved.
        counting supabase ''companies'' [Eq ''status'' (JStr ''rejected'')] (\<lambda>rejected.
        counting supabase ''companies'' [Eq ''status'' (JStr ''suspended'')] (\<lambda>suspended.
        returnA \<lparr>payload = Some [(''total'', orZero total'), (''pending'', orZero pending),
                                  (''approved'', orZero approved), (''rejected'', orZero rejected),
                                  (''suspended'', orZero suspended)],
                 error = None\<rparr>))))))
       (failed ''Failed to fetch company stats'')"

subsection \<open>User service (\<open>services/userService.ts\<close>)\<close>

record UserQueryParams =
  u_page :: "int option"
  u_pageSize :: "int option"
  u_sortBy :: "string option"
  u_sortOrder :: "string option"
  u_userType :: "string option"
  u_isActive :: "bool option"
  u_search :: "string option"

definition getUsersQuery :: "UserQueryParams \<Rightarrow> query" where
  "getUsersQuery params =
     (let page' = orDefault (u_page params) 1;
          pageSize' = orDefault (u_pageSize params) DEFAULT_PAGE_SIZE;
          sortBy = orDefault (u_sortBy params) ''created_at'';
          sortOrder = orDefault (u_sortOrder params) ''desc'';
          offset' = (page' - 1) * pageSize'
      in chain (fromTable ''users'')
           [selectCount ''*'' False,
            whenTruthy (u_userType params) (\<lambda>s. Eq ''user_type'' (JStr s)),
            whenDefined (u_isActive params) (\<lambda>b. Eq ''is_active'' (JBool b)),
            whenTruthy (u_search params)
              (\<lambda>s. Or (''full_name.ilike.%'' @ s @ ''%,email.ilike.%'' @ s @ ''%'')),
            orderBy sortBy (sortOrder = ''asc''),
            rangeRows offset' (offset' + pageSize' - 1)])"

definition getUsers ::
  "'s backend \<Rightarrow> UserQueryParams \<Rightarrow> 's \<Rightarrow> PaginatedResponse serviceResponse \<times> 's" where
  "getUsers supabase params =
     tryCatch
       (await supabase (Rest (getUsersQuery params))
          (\<lambda>r. returnA (listResult (orDefault (u_page params) 1)
                           (orDefault (u_pageSize params) DEFAULT_PAGE_SIZE) r)))
       (failed ''Failed to fetch users'')"





definition getUserStats :: "'s backend \<Rightarrow> 's \<Rightarrow> stats serviceResponse \<times> 's" where
  "getUserStats supabase =
     tryCatch
       (counting supabase ''users'' [] (\<lambda>total'.
        counting supabase ''users'' [Eq ''is_active'' (JBool True)] (\<lambda>active.
        counting supabase ''users'' [Eq ''user_type'' (JStr ''customer'')] (\<lambda>customers.
        counting supabase ''users'' [Eq ''user_type'' (JStr ''provider'')] (\<lambda>providers.
        counting supabase ''users'' [Eq ''user_type'' (JStr ''admin'')] (\<lambda>admins.
        returnA \<lparr>payload = Some [(''total'', orZero total'), (''active'', orZero active),
                                  (''inactive'', orZero total' - orZero active),
                                  (''customers'', orZero customers),
                                  (''providers'', orZero providers), (''admins'', orZero admins)],
                 error = None\<rparr>))))))
       (failed ''Failed to fetch user stats'')"

subsection \<open>Transaction service (\<open>services/transactionService.ts\<close>)\<close>

record TransactionQueryParams =
  t_page :: "int option"
  t_pageSize :: "int option"
  t_sortBy :: "string option"
  t_sortOrder :: "string option"
  t_status :: "string option"
  t_paymentProvider :: "string option"
  t_dateFrom :: "string option"
  t_dateTo :: "string option"
  t_search :: "string option"

definition transactionColumns :: string where
  "transactionColumns =
     ''*, customer:users!customer_id(*), business:businesses!business_id(*), order:orders!order_id(*)''"

definition getTransactionsQuery :: "TransactionQueryParams \<Rightarrow> query" where
  "getTransactionsQuery params =
     (let page' = orDefault (t_page params) 1;
          pageSize' = orDefault (t_pageSize params) DEFAULT_PAGE_SIZE;
          sortBy = orDefault (t_sortBy params) ''created_at'';
          sortOrder = orDefault (t_sortOrder params) ''desc'';
          offset' = (page' - 1) * pageSize'
      in chain (fromTable ''payments'')
           [selectCount transactionColumns False,
            whenTruthy (t_status params) (\<lambda>s. Eq ''status'' (JStr s)),
            whenTruthy (t_paymentProvider params) (\<lambda>s. Eq ''payment_provider'' (JStr s)),
            whenTruthy (t_dateFrom params) (\<lambda>s. Gte ''created_at'' (JStr s)),
            whenTruthy (t_dateTo params) (\<lambda>s. Lte ''created_at'' (JStr s)),
            whenTruthy (t_search params)
              (\<lambda>s. Or (''order_id.ilike.%'' @ s @ ''%,description.ilike.%'' @ s
                        @ ''%,provider_payment_id.ilike.%'' @ s @ ''%'')),
            orderBy sortBy (sortOrder = ''asc''),
            rangeRows offset' (offset' + pageSize' - 1)])"

definition getTransactions ::
  "'s backend \<Rightarrow> TransactionQueryParams \<Rightarrow> 's \<Rightarrow> PaginatedResponse serviceResponse \<times> 's" where
  "getTransactions supabase params =
     tryCatch
       (await supabase (Rest (getTransactionsQuery params))
          (\<lambda>r. returnA (listResult (orDefault (t_page params) 1)
                           (orDefault (t_pageSize params) DEFAULT_PAGE_SIZE) r)))
       (failed ''Failed to fetch transactions'')"


text \<open>
  \<open>revenueData?.reduce((sum, t) => sum + (t.amount || 0), 0) ?? 0\<close>, with \<open>t.amount\<close> a
  number or null as the callback declares it; amounts are integers here. Null data gives 0;
  data that is not an array has no \<open>reduce\<close>, which is a \<open>TypeError\<close>.
\<close>

definition amountOrZero :: "row \<Rightarrow> int" where
  "amountOrZero t = (case map_of t ''amount'' of Some (JNum n) \<Rightarrow> n | _ \<Rightarrow> 0)"

definition totalRevenue :: "jsdata \<Rightarrow> thrown + int" where
  "totalRevenue revenueData =
     (case revenueData of
        DNull \<Rightarrow> Inr 0
      | DRows ts \<Rightarrow> Inr (fold (\<lambda>t sum'. sum' + amountOrZero t) ts 0)
      | _ \<Rightarrow> Inl (ErrorInstance ''revenueData.reduce is not a function''))"

definition getTransactionStats :: "'s backend \<Rightarrow> 's \<Rightarrow> stats serviceResponse \<times> 's" where
  "getTransactionStats supabase =
     tryCatch
       (counting supabase ''payments'' [] (\<lambda>total'.
        counting supabase ''payments'' [Eq ''status'' (JStr ''pending'')] (\<lambda>pending.
        counting supabase ''payments'' [Eq ''status'' (JStr ''completed'')] (\<lambda>completed.
        counting supabase ''payments'' [Eq ''status'' (JStr ''failed'')] (\<lambda>failed'.
        counting supabase ''payments'' [Eq ''status'' (JStr ''refunded'')] (\<lambda>refunded.
        await supabase
          (Rest (chain (fromTable ''payments'')
                   [select ''amount'', addFilter (Eq ''status'' (JStr ''completed''))]))
          (\<lambda>r. case r_error r of
                  Some e \<Rightarrow> returnA \<lparr>payload = None, error = Some (fromStoreError e)\<rparr>
                | None \<Rightarrow>
                    (case totalRevenue (r_data r) of
                       Inl err \<Rightarrow> throwA err
                     | Inr revenue \<Rightarrow>
                         returnA \<lparr>payload = Some [(''total'', orZero total'),
                                                   (''totalRevenue'', revenue),
                                                   (''pending'', orZero pending),
                                                   (''completed'', orZero completed),
                                                   (''failed'', orZero failed'),
                                                   (''refunded'', orZero refunded)],
                                  error = None\<rparr>))))))))
       (failed ''Failed to fetch transaction stats'')"


subsection \<open>Legal page service (\<open>services/legalPageService.ts\<close>)\<close>


record CreateLegalPageInput =
  new_title :: string
  new_slug :: string
  new_page_type :: string
  new_content :: string

record UpdateLegalPageInput =
  upd_title :: "string option"
  upd_slug :: "string option"
  upd_content :: "string option"
  upd_is_active :: "bool option"




definition slugTaken :: ApiError where
  "slugTaken =
     \<lparr>message = ''A legal page with this slug already exists'', code = None, status = None\<rparr>"

text \<open>
  \<open>createLegalPage\<close> looks the slug up first and reads only \<open>data\<close> of that response
  (\<open>const { data: existing } = ...\<close>); \<open>if (existing)\<close> holds for any non-null data.
\<close>

definition createLegalPagePayload :: "CreateLegalPageInput \<Rightarrow> row" where
  "createLegalPagePayload input =
     [(''title'', JStr (new_title input)), (''slug'', JStr (new_slug input)),
      (''page_type'', JStr (new_page_type input)), (''content'', JStr (new_content input)),
      (''is_active'', JBool True)]"

definition createLegalPage ::
  "'s backend \<Rightarrow> CreateLegalPageInput \<Rightarrow> 's \<Rightarrow> jsdata serviceResponse \<times> 's" where
  "createLegalPage supabase input =
     tryCatch
       (await supabase
          (Rest (chain (fromTable ''legal_pages'')
                   [select ''id'', addFilter (Eq ''slug'' (JStr (new_slug input))), single]))
          (\<lambda>existing.
             if r_data existing \<noteq> DNull
             then returnA \<lparr>payload = None, error = Some slugTaken\<rparr>
             else await supabase
                    (Rest (chain (fromTable ''legal_pages'')
                             [insertRow (createLegalPagePayload input), select ''*'', single]))
                    (\<lambda>r. returnA (dataResult r))))
       (failed ''Failed to create legal page'')"

text \<open>
  \<open>{ ...input, updated_at: now }\<close>: the fields of the input that are defined, then
  \<open>updated_at\<close>.
\<close>

definition updateLegalPagePayload :: "UpdateLegalPageInput \<Rightarrow> string \<Rightarrow> row" where
  "updateLegalPagePayload input now =
     (case upd_title input of None \<Rightarrow> [] | Some v \<Rightarrow> [(''title'', JStr v)])
     @ (case upd_slug input of None \<Rightarrow> [] | Some v \<Rightarrow> [(''slug'', JStr v)])
     @ (case upd_content input of None \<Rightarrow> [] | Some v \<Rightarrow> [(''content'', JStr v)])
     @ (case upd_is_active input of None \<Rightarrow> [] | Some v \<Rightarrow> [(''is_active'', JBool v)])
     @ [(''updated_at'', JStr now)]"

definition updateLegalPageWrite ::
  "'s backend \<Rightarrow> string \<Rightarrow> UpdateLegalPageInput \<Rightarrow> string \<Rightarrow> (jsdata serviceResponse, 's) async"
where
  "updateLegalPageWrite supabase id' input now =
     await supabase
       (Rest (chain (fromTable ''legal_pages'')
                [updateRows (updateLegalPagePayload input now),
                 addFilter (Eq ''id'' (JStr id')), select ''*'', single]))
       (\<lambda>r. returnA (dataResult r))"

definition updateLegalPage ::
  "'s backend \<Rightarrow> string \<Rightarrow> UpdateLegalPageInput \<Rightarrow> string \<Rightarrow> 's \<Rightarrow> jsdata serviceResponse \<times> 's"
where
  "updateLegalPage supabase id' input now =
     tryCatch
       (if truthy (upd_slug input)
        then await supabase
               (Rest (chain (fromTable ''legal_pages'')
                        [select ''id'',
                         addFilter (Eq ''slug'' (JStr (orDefault (upd_slug input) ''''))),
                         addFilter (Neq ''id'' (JStr id')), single]))
               (\<lambda>existing.
                  if r_data existing \<noteq> DNull
                  then returnA \<lparr>payload = None, error = Some slugTaken\<rparr>
                  else updateLegalPageWrite supabase id' input now)
        else updateLegalPageWrite supabase id' input now)
       (failed ''Failed to update legal page'')"


subsection \<open>Authentication service (\<open>services/authService.ts\<close>)\<close>

record tokens =
  access_token :: string
  refresh_token :: string
  expires_at :: int

record sessionResponse =
  session :: "tokens option"
  user :: "jsdata option"
  sessionError :: "ApiError option"

record CreateUserInput =
  email :: string
  password :: string
  full_name :: string
  user_type :: string

text \<open>\<open>{ message: authError.message, code: authError.code, status: authError.status }\<close>\<close>

definition fromAuthError :: "storeError \<Rightarrow> ApiError" where
  "fromAuthError e = \<lparr>message = e_message e, code = e_code e, status = e_status e\<rparr>"

definition noSession :: "ApiError \<Rightarrow> sessionResponse" where
  "noSession e = \<lparr>session = None, user = None, sessionError = Some e\<rparr>"

definition plainError :: "string \<Rightarrow> ApiError" where
  "plainError m = \<lparr>message = m, code = None, status = None\<rparr>"

text \<open>
  Reading \<open>authData.user\<close> or \<open>userData.user_type\<close> when the data is null is a
  \<open>TypeError\<close>; a key that an object does not have reads as \<open>undefined\<close>.
\<close>

definition field :: "row \<Rightarrow> string \<Rightarrow> jsvalue" where
  "field r k = (case map_of r k of None \<Rightarrow> JNull | Some v \<Rightarrow> v)"

definition typeError :: "string \<Rightarrow> thrown" where
  "typeError prop = ErrorInstance (''Cannot read properties of null (reading '' @ prop @ '')'')"

definition toTokens :: "authSession \<Rightarrow> tokens" where
  "toTokens a =
     \<lparr>access_token = as_access_token a, refresh_token = as_refresh_token a,
      expires_at = (case as_expires_at a of None \<Rightarrow> 0 | Some t \<Rightarrow> t)\<rparr>"

text \<open>
  The data of an authentication call is an object with \<open>user\<close> and \<open>session\<close>; data of
  another shape has neither property. The profile is the row returned by \<open>single()\<close>.
\<close>

definition authDataOf :: "jsdata \<Rightarrow> thrown + (row option \<times> authSession option)" where
  "authDataOf d =
     (case d of
        DNull \<Rightarrow> Inl (typeError ''user'')
      | DAuth authUser authSession \<Rightarrow> Inr (authUser, authSession)
      | _ \<Rightarrow> Inr (None, None))"

definition userTypeOf :: "jsdata \<Rightarrow> thrown + jsvalue" where
  "userTypeOf d =
     (case d of
        DNull \<Rightarrow> Inl (typeError ''user_type'')
      | DRow userData \<Rightarrow> Inr (field userData ''user_type'')
      | _ \<Rightarrow> Inr JNull)"

definition login :: "'s backend \<Rightarrow> string \<Rightarrow> string \<Rightarrow> 's \<Rightarrow> sessionResponse \<times> 's" where
  "login supabase email' password' =
     tryCatch
       (await supabase (SignInWithPassword email' password')
          (\<lambda>auth.
             case r_error auth of
               Some authError \<Rightarrow> returnA (noSession (fromAuthError authError))
             | None \<Rightarrow>
                 (case authDataOf (r_data auth) of
                    Inl err \<Rightarrow> throwA err
                  | Inr (None, authSession) \<Rightarrow>
                      returnA (noSession (plainError ''Authentication failed. Please try again.''))
                  | Inr (Some authUser, authSession) \<Rightarrow>
                      await supabase
                        (Rest (chain (fromTable ''users'')
                                 [select ''*'', addFilter (Eq ''id'' (field authUser ''id'')), single]))
                        (\<lambda>profile.
                           case r_error profile of
                             Some userError \<Rightarrow>
                               await supabase SignOut
                                 (\<lambda>_. returnA (noSession
                                        \<lparr>message = ''Failed to verify user profile.'',
                                         code = e_code userError, status = None\<rparr>))
                           | None \<Rightarrow>
                               (case userTypeOf (r_data profile) of
                                  Inl err \<Rightarrow> throwA err
                                | Inr userType \<Rightarrow>
                                    if userType \<noteq> JStr ''admin''
                                    then await supabase SignOut
                                           (\<lambda>_. returnA (noSession (plainError
                                                  ''Access denied. Admin privileges required.'')))
                                    else returnA
                                           \<lparr>session = map_option toTokens authSession,
                                            user = Some (r_data profile),
                                            sessionError = None\<rparr>)))))
       (\<lambda>err. noSession (caught ''An unexpected error occurred'' err))"

definition registerProfile :: "jsvalue \<Rightarrow> CreateUserInput \<Rightarrow> row" where
  "registerProfile id' input =
     [(''id'', id'), (''email'', JStr (email input)), (''full_name'', JStr (full_name input)),
      (''user_type'', JStr (user_type input)), (''is_active'', JBool True),
      (''is_email_verified'', JBool False), (''is_phone_verified'', JBool False)]"

definition register :: "'s backend \<Rightarrow> CreateUserInput \<Rightarrow> 's \<Rightarrow> jsdata serviceResponse \<times> 's" where
  "register supabase input =
     tryCatch
       (await supabase
          (SignUp (email input) (password input)
             [(''full_name'', JStr (full_name input)), (''user_type'', JStr (user_type input))])
          (\<lambda>auth.
             case r_error auth of
               Some authError \<Rightarrow> returnA \<lparr>payload = None, error = Some (fromAuthError authError)\<rparr>
             | None \<Rightarrow>
                 (case authDataOf (r_data auth) of
                    Inl err \<Rightarrow> throwA err
                  | Inr (None, authSession) \<Rightarrow>
                      returnA \<lparr>payload = None,
                               error = Some (plainError ''Registration failed. Please try again.'')\<rparr>
                  | Inr (Some authUser, authSession) \<Rightarrow>
                      await supabase
                        (Rest (chain (fromTable ''users'')
                                 [insertRow (registerProfile (field authUser ''id'') input),
                                  select ''*'', single]))
                        (\<lambda>r. returnA (dataResult r)))))
       (failed ''Registration failed'')"

subsection \<open>Two concrete backends\<close>

text \<open>
  \<open>scripted\<close> answers the requests with a given list of answers, one after the other, and
  records every request; once the list is used up, a request fails like a network call
  does. Quantifying over the list covers every way a store can answer a sequence of
  requests.
\<close>

record script =
  answers :: "settled list"
  sent :: "request list"

definition scripted :: "script backend" where
  "scripted req st =
     (case answers st of
        [] \<Rightarrow> (Rejected (ErrorInstance ''Failed to fetch''), st\<lparr>sent := sent st @ [req]\<rparr>)
      | a # as \<Rightarrow> (a, \<lparr>answers = as, sent = sent st @ [req]\<rparr>))"

definition ok :: "jsdata \<Rightarrow> int option \<Rightarrow> settled" where
  "ok d c = Resolved \<lparr>r_data = d, r_error = None, r_count = c\<rparr>"

definition refused :: "string \<Rightarrow> string \<Rightarrow> settled" where
  "refused m c =
     Resolved \<lparr>r_data = DNull, r_error = Some \<lparr>e_message = m, e_code = Some c, e_status = None\<rparr>,
               r_count = None\<rparr>"

text \<open>
  Modelled from the spec: the remote relational store behind the query API (filter, update
  by id, delete by id, count), which is not part of the repository. \<open>memory\<close> keeps the
  tables in the state and answers the part of the query language the theorems about stored
  rows need: \<open>select\<close>, \<open>insert\<close>, \<open>update\<close> and \<open>delete\<close> with \<open>eq\<close> and \<open>neq\<close> filters,
  \<open>count\<close>, \<open>head\<close> and \<open>single\<close>. An update overwrites or adds the columns of its payload
  in every row that passes the filters and leaves the other columns and rows as they are.
  With \<open>single\<close>, anything but exactly one row is an error, and a write is not applied.
  Embedded resources of a \<open>select\<close> list and column defaults of an insert are left out; a
  query with another filter, with \<open>order\<close> or with \<open>range\<close>, and a call of the
  authentication client, are refused.
\<close>

type_synonym db = "(string \<times> row list) list"

definition tableRows :: "db \<Rightarrow> string \<Rightarrow> row list" where
  "tableRows d t = (case map_of d t of None \<Rightarrow> [] | Some rs \<Rightarrow> rs)"

fun holds :: "filter \<Rightarrow> row \<Rightarrow> bool" where
  "holds (Eq c v) r = (map_of r c = Some v)"
| "holds (Neq c v) r = (case map_of r c of None \<Rightarrow> False | Some w \<Rightarrow> w \<noteq> JNull \<and> w \<noteq> v)"
| "holds _ r = False"

fun supportedFilter :: "filter \<Rightarrow> bool" where
  "supportedFilter (Eq c v) = True"
| "supportedFilter (Neq c v) = True"
| "supportedFilter _ = False"

definition supported :: "query \<Rightarrow> bool" where
  "supported q = (list_all supportedFilter (filters q) \<and> ordering q = None \<and> rowRange q = None)"

definition matches :: "query \<Rightarrow> row \<Rightarrow> bool" where
  "matches q r = list_all (\<lambda>f. holds f r) (filters q)"

text \<open>\<open>SET\<close> of an update: each column of the payload is overwritten or added.\<close>

fun assign :: "row \<Rightarrow> row \<Rightarrow> row" where
  "assign r [] = r"
| "assign r ((k, v) # p) = assign (AList.update k v r) p"

definition project :: "string option \<Rightarrow> row \<Rightarrow> row" where
  "project cols r =
     (case cols of
        None \<Rightarrow> r
      | Some c \<Rightarrow> (case map_of r c of None \<Rightarrow> r | Some v \<Rightarrow> [(c, v)]))"

text \<open>
  Modelled from the spec: the store enforces the uniqueness of a legal page's slug. A write
  that would leave two legal pages with the same non-null slug is refused with the store's
  error for a violated unique constraint.
\<close>

definition slugs :: "row list \<Rightarrow> jsvalue list" where
  "slugs rs = filter (\<lambda>v. v \<noteq> JNull) (List.map_filter (\<lambda>r. map_of r ''slug'') rs)"

definition violatesUnique :: "string \<Rightarrow> row list \<Rightarrow> bool" where
  "violatesUnique t rs = (t = ''legal_pages'' \<and> \<not> distinct (slugs rs))"

definition notSingle :: settled where
  "notSingle = refused ''JSON object requested, multiple (or no) rows returned'' ''PGRST116''"

definition duplicateKey :: settled where
  "duplicateKey = refused ''duplicate key value violates unique constraint'' ''23505''"

definition answerRows :: "query \<Rightarrow> row list \<Rightarrow> settled" where
  "answerRows q rs =
     (if singleRow q
      then (case rs of [r] \<Rightarrow> ok (DRow (project (columns q) r)) None | _ \<Rightarrow> notSingle)
      else ok (if headOnly q \<or> columns q = None then DNull else DRows (map (project (columns q)) rs))
              (if countExact q then Some (int (length rs)) else None))"

definition writeRows :: "query \<Rightarrow> db \<Rightarrow> row list \<Rightarrow> row list \<Rightarrow> settled \<times> db" where
  "writeRows q d rows' returned =
     (if singleRow q \<and> length returned \<noteq> 1 then (notSingle, d)
      else if violatesUnique (table q) rows' then (duplicateKey, d)
      else (answerRows q returned, AList.update (table q) rows' d))"

definition memoryQuery :: "query \<Rightarrow> db \<Rightarrow> settled \<times> db" where
  "memoryQuery q d =
     (let rows = tableRows d (table q) in
      if \<not> supported q then (refused ''not supported'' ''PGRST100'', d)
      else case verb q of
        Select \<Rightarrow> (answerRows q (filter (matches q) rows), d)
      | Update p \<Rightarrow>
          writeRows q d (map (\<lambda>r. if matches q r then assign r p else r) rows)
            (map (\<lambda>r. assign r p) (filter (matches q) rows))
      | Insert p \<Rightarrow> writeRows q d (rows @ [p]) [p]
      | Delete \<Rightarrow>
          writeRows q d (filter (\<lambda>r. \<not> matches q r) rows) (filter (matches q) rows))"

fun memory :: "db backend" where
  "memory (Rest q) d = memoryQuery q d"
| "memory _ d = (refused ''not supported'' ''PGRST100'', d)"


text \<open>
  \<open>refusing\<close> is the memory store behind a connection on which the next \<open>n\<close> requests fail:
  each of them is answered with an error and no data, as the client does for a request
  that timed out, and the store is not touched; later requests reach the store.
\<close>

definition timedOut :: settled where
  "timedOut = refused ''canceling statement due to statement timeout'' ''57014''"

definition refusing :: "(nat \<times> db) backend" where
  "refusing req s =
     (case fst s of
        0 \<Rightarrow> (case memory req (snd s) of (a, d') \<Rightarrow> (a, (0, d')))
      | Suc n \<Rightarrow> (timedOut, (n, snd s)))"
subsection \<open>The data-access layer as a whole\<close>




text \<open>
  What a caller can observe of a result: whether it has a payload field and whether that
  field is non-null (\<open>None\<close> when the result has no payload field at all), and the error.
\<close>

record observed =
  payloadPresent :: "bool option"
  reported :: "ApiError option"

definition observe :: "'a serviceResponse \<times> 's \<Rightarrow> observed \<times> 's" where
  "observe x = (\<lparr>payloadPresent = Some (payload (fst x) \<noteq> None), reported = error (fst x)\<rparr>, snd x)"

definition observeDelete :: "deleteResponse \<times> 's \<Rightarrow> observed \<times> 's" where
  "observeDelete x = (\<lparr>payloadPresent = None, reported = deleteError (fst x)\<rparr>, snd x)"




text \<open>
  A result carries exactly one of a non-null payload and a non-null error; a result does
  not carry both.
\<close>

definition exactlyOne :: "'a serviceResponse \<Rightarrow> bool" where
  "exactlyOne resp = ((payload resp = None) \<noteq> (error resp = None))"

definition notBoth :: "'a serviceResponse \<Rightarrow> bool" where
  "notBoth resp = (payload resp = None \<or> error resp = None)"

subsection \<open>Stats by repeated count queries: the description to compare with\<close>

text \<open>
  The description of a stats operation, independent of the code above: ask \<open>n\<close> count
  queries in order; stop at the first one that fails and report its error; otherwise
  report the counts, 0 for an absent count. \<open>tally\<close> gives the error or the counts for a
  list of answers, \<open>asked\<close> the number of queries that were sent.
\<close>

definition isFailure :: "settled \<Rightarrow> bool" where
  "isFailure a = (case a of Rejected err \<Rightarrow> True | Resolved r \<Rightarrow> r_error r \<noteq> None)"

fun tally :: "string \<Rightarrow> settled list \<Rightarrow> nat \<Rightarrow> ApiError + int list" where
  "tally fallback as 0 = Inr []"
| "tally fallback [] (Suc n) = Inl (caught fallback (ErrorInstance ''Failed to fetch''))"
| "tally fallback (Rejected err # as) (Suc n) = Inl (caught fallback err)"
| "tally fallback (Resolved r # as) (Suc n) =
     (case r_error r of
        Some e \<Rightarrow> Inl (fromStoreError e)
      | None \<Rightarrow>
          (case tally fallback as n of
             Inl e \<Rightarrow> Inl e
           | Inr cs \<Rightarrow> Inr (orZero (r_count r) # cs)))"

fun asked :: "settled list \<Rightarrow> nat \<Rightarrow> nat" where
  "asked as 0 = 0"
| "asked [] (Suc n) = 1"
| "asked (a # as) (Suc n) = (if isFailure a then 1 else 1 + asked as n)"

definition statusCounts :: "string \<Rightarrow> string list \<Rightarrow> request list" where
  "statusCounts t statuses =
     Rest (countQuery t [])
     # map (\<lambda>st. Rest (countQuery t [Eq ''status'' (JStr st)])) statuses"

definition userCounts :: "request list" where
  "userCounts =
     [Rest (countQuery ''users'' []),
      Rest (countQuery ''users'' [Eq ''is_active'' (JBool True)]),
      Rest (countQuery ''users'' [Eq ''user_type'' (JStr ''customer'')]),
      Rest (countQuery ''users'' [Eq ''user_type'' (JStr ''provider'')]),
      Rest (countQuery ''users'' [Eq ''user_type'' (JStr ''admin'')])]"

definition revenueQuery :: request where
  "revenueQuery =
     Rest (chain (fromTable ''payments'')
             [select ''amount'', addFilter (Eq ''status'' (JStr ''completed''))])"

definition statsOf :: "string list \<Rightarrow> ApiError + int list \<Rightarrow> stats serviceResponse" where
  "statsOf names t =
     (case t of
        Inl e \<Rightarrow> \<lparr>payload = None, error = Some e\<rparr>
      | Inr cs \<Rightarrow> \<lparr>payload = Some (zip names cs), error = None\<rparr>)"

definition afterAsking :: "request list \<Rightarrow> settled list \<Rightarrow> nat \<Rightarrow> script" where
  "afterAsking queries as n =
     \<lparr>answers = drop (asked as n) as, sent = take (asked as n) queries\<rparr>"

text \<open>
  The transaction stats add one more step after their five counts: the amounts of the
  completed payments are selected and summed into \<open>totalRevenue\<close>, the second entry.
\<close>

definition withRevenue :: "string \<Rightarrow> int list \<Rightarrow> settled list \<Rightarrow> stats serviceResponse" where
  "withRevenue fallback cs as =
     (case as of
        [] \<Rightarrow> failed fallback (ErrorInstance ''Failed to fetch'')
      | Rejected err # as' \<Rightarrow> failed fallback err
      | Resolved r # as' \<Rightarrow>
          (case r_error r of
             Some e \<Rightarrow> \<lparr>payload = None, error = Some (fromStoreError e)\<rparr>
           | None \<Rightarrow>
               (case totalRevenue (r_data r) of
                  Inl err \<Rightarrow> failed fallback err
                | Inr revenue \<Rightarrow>
                    \<lparr>payload = Some (zip [''total'', ''totalRevenue'', ''pending'', ''completed'',
                                           ''failed'', ''refunded'']
                                       (take 1 cs @ [revenue] @ drop 1 cs)),
                     error = None\<rparr>)))"

text \<open>The user stats derive \<open>inactive\<close> from the first two counts.\<close>

definition withInactive :: "ApiError + int list \<Rightarrow> ApiError + int list" where
  "withInactive t =
     (case t of
        Inr (total' # active # rest) \<Rightarrow> Inr (total' # active # (total' - active) # rest)
      | _ \<Rightarrow> t)"

definition fiveCounts :: "settled list" where
  "fiveCounts =
     [ok DNull (Some 9), ok DNull (Some 4), ok DNull (Some 2), ok DNull (Some 1),
      ok DNull (Some 1)]"

subsection \<open>Stored rows before and after a write\<close>

text \<open>
  \<open>outside cols r\<close> is the row \<open>r\<close> without the columns \<open>cols\<close>. \<open>onlyChanged cols i\<close> relates
  the rows of a table before and after a write: the rows correspond one to one and in
  order, a row whose \<open>id\<close> is \<open>i\<close> is the same outside \<open>cols\<close>, and every other row is the
  same.
\<close>

definition outside :: "string list \<Rightarrow> row \<Rightarrow> row" where
  "outside cols r = filter (\<lambda>kv. fst kv \<notin> set cols) r"

definition onlyChanged :: "string list \<Rightarrow> jsvalue \<Rightarrow> row list \<Rightarrow> row list \<Rightarrow> bool" where
  "onlyChanged cols i rows rows' =
     list_all2 (\<lambda>r r'. if map_of r ''id'' = Some i then outside cols r' = outside cols r else r' = r)
       rows rows'"

text \<open>The query of a status update: an update of the row with the given id.\<close>

definition updateById :: "string \<Rightarrow> row \<Rightarrow> string \<Rightarrow> string \<Rightarrow> query" where
  "updateById t p i cols =
     chain (fromTable t) [updateRows p, addFilter (Eq ''id'' (JStr i)), select cols, single]"

text \<open>The rows a status update is aimed at: those whose \<open>id\<close> is the given one.\<close>

definition targets :: "string \<Rightarrow> row \<Rightarrow> bool" where
  "targets i r = (map_of r ''id'' = Some (JStr i))"

text \<open>
  The columns a status update may write besides \<open>status\<close> and \<open>updated_at\<close>; outside them the
  targeted row stays as it is. For a company that is rejected or suspended \<open>approved_at\<close> is
  among them: the comment in the source has it cleared, the code does not send it.
\<close>

definition serviceExtraColumns :: "string \<Rightarrow> string list" where
  "serviceExtraColumns status' =
     (if status' = ''active'' \<or> status' = ''suspended'' \<or> status' = ''rejected''
         \<or> status' = ''deleted''
      then [''is_active''] else [])"

definition companyExtraColumns :: "string \<Rightarrow> string list" where
  "companyExtraColumns status' =
     (if status' = ''approved'' \<or> status' = ''rejected'' \<or> status' = ''suspended''
      then [''approved_at'', ''is_verified'']
      else [])"

text \<open>Stores used as concrete inputs below.\<close>

definition cafe :: row where
  "cafe =
     [(''id'', JStr ''b1''), (''name'', JStr ''Cafe''), (''status'', JStr ''pending''),
      (''updated_at'', JStr ''2024-01-01T00:00:00.000Z'')]"

definition bakery :: row where
  "bakery =
     [(''id'', JStr ''b2''), (''name'', JStr ''Bakery''), (''status'', JStr ''active''),
      (''updated_at'', JStr ''2024-02-02T00:00:00.000Z'')]"

definition businessesDb :: db where
  "businessesDb = [(''businesses'', [cafe, bakery])]"

definition acme :: row where
  "acme =
     [(''id'', JStr ''c1''), (''name'', JStr ''Acme''), (''status'', JStr ''pending''),
      (''is_verified'', JBool False), (''approved_at'', JNull),
      (''updated_at'', JStr ''2024-03-03T00:00:00.000Z'')]"

definition companiesDb :: db where
  "companiesDb = [(''companies'', [acme])]"

definition termsPage :: row where
  "termsPage =
     [(''id'', JStr ''p1''), (''title'', JStr ''Terms''), (''slug'', JStr ''terms''),
      (''updated_at'', JStr ''2024-01-01T00:00:00.000Z'')]"

definition untitledPage :: row where
  "untitledPage =
     [(''id'', JStr ''p2''), (''title'', JStr ''Untitled''), (''slug'', JStr ''''),
      (''updated_at'', JStr ''2024-01-01T00:00:00.000Z'')]"

definition pagesDb :: db where
  "pagesDb = [(''legal_pages'', [termsPage, untitledPage])]"

definition termsCopy :: row where
  "termsCopy =
     [(''id'', JStr ''p3''), (''title'', JStr ''Terms (copy)''), (''slug'', JStr ''terms''),
      (''updated_at'', JStr ''2024-01-01T00:00:00.000Z'')]"

definition copiedDb :: db where
  "copiedDb = [(''legal_pages'', [termsPage, termsCopy])]"

text \<open>
  The store holds at most one legal page per slug, as it enforces; a slug belongs to a page
  when that page's row carries it.
\<close>

definition slugsUnique :: "db \<Rightarrow> bool" where
  "slugsUnique d = distinct (slugs (tableRows d ''legal_pages''))"

text \<open>Inputs of the authentication service used below.\<close>

definition eve :: CreateUserInput where
  "eve = \<lparr>email = ''eve@example.com'', password = ''Passw0rd'', full_name = ''Eve'',
          user_type = ''admin''\<rparr>"

definition eveProfile :: row where
  "eveProfile = registerProfile (JStr ''u9'') eve"

definition bobProfile :: row where
  "bobProfile = [(''id'', JStr ''u2''), (''email'', JStr ''bob@example.com''),
                 (''user_type'', JStr ''customer'')]"

section \<open>Properties\<close>

subsection \<open>Slug generation\<close>

lemma toLowerChar_not_upper: "\<not> isUpperAscii (toLowerChar c)"
  by (auto simp: toLowerChar_def isUpperAscii_def isUpperLatin1_def)

lemma toLowerChar_slug: "isSlugChar c \<Longrightarrow> toLowerChar c = c"
  by (auto simp: toLowerChar_def isSlugChar_def isUpperAscii_def isUpperLatin1_def
      isLowerAscii_def isDigit_def)

lemma slugChar_not_ws: "isSlugChar c \<Longrightarrow> \<not> isWhiteSpace c"
  by (auto simp: isSlugChar_def isWhiteSpace_def isLowerAscii_def isDigit_def)

lemma slugChar_word: "isSlugChar c \<Longrightarrow> isWordChar c \<or> c = CHR ''-''"
  by (auto simp: isSlugChar_def isWordChar_def)

lemma set_replaceRuns: "set (replaceRuns P r cs) \<subseteq> set r \<union> {c \<in> set cs. \<not> P c}"
proof (induction P r cs rule: replaceRuns.induct)
  case (1 P r)
  show ?case by simp
next
  case (2 P r c cs)
  show ?case
  proof (cases "P c")
    case True
    have "set (dropWhile P cs) \<subseteq> set cs" by (rule set_dropWhileD[THEN subsetI])
    with True 2(1) show ?thesis by auto
  next
    case False
    with 2(2) show ?thesis by auto
  qed
qed

lemma replaceRuns_id: "list_all (\<lambda>c. \<not> P c) cs \<Longrightarrow> replaceRuns P r cs = cs"
  by (induction cs) auto

lemma replaceRuns_head:
  "cs = [] \<or> \<not> P (hd cs) \<Longrightarrow> replaceRuns P r cs = [] \<or> hd (replaceRuns P r cs) = hd cs"
  by (cases cs) auto

lemma dropWhile_head: "dropWhile P cs = [] \<or> \<not> P (hd (dropWhile P cs))"
  by (metis hd_dropWhile)

lemma hyphens_collapsed:
  "\<not> hasConsecutiveHyphens (replaceRuns (\<lambda>c. c = CHR ''-'') ''-'' cs)"
proof (induction "\<lambda>c. c = CHR ''-''" "''-''" cs rule: replaceRuns.induct)
  case 1
  show ?case by simp
next
  case (2 c cs)
  show ?case
  proof (cases "c = CHR ''-''")
    case True
    let ?rest = "replaceRuns (\<lambda>c. c = CHR ''-'') ''-'' (dropWhile (\<lambda>c. c = CHR ''-'') cs)"
    have ih: "\<not> hasConsecutiveHyphens ?rest" using 2(1) True by simp
    have "?rest = [] \<or> hd ?rest \<noteq> CHR ''-''"
    proof (cases "dropWhile (\<lambda>c. c = CHR ''-'') cs")
      case Nil
      show ?thesis unfolding Nil by simp
    next
      case (Cons x xs)
      have "x \<noteq> CHR ''-''"
        using hd_dropWhile[of "\<lambda>c. c = CHR ''-''" cs] unfolding Cons by simp
      then show ?thesis unfolding Cons by simp
    qed
    with ih True show ?thesis by (cases ?rest) simp_all
  next
    case False
    let ?rest = "replaceRuns (\<lambda>c. c = CHR ''-'') ''-'' cs"
    have ih: "\<not> hasConsecutiveHyphens ?rest" using 2(2) False by simp
    with False show ?thesis by (cases ?rest) simp_all
  qed
qed

lemma hyphens_id:
  "\<not> hasConsecutiveHyphens cs \<Longrightarrow> replaceRuns (\<lambda>c. c = CHR ''-'') ''-'' cs = cs"
proof (induction cs rule: hasConsecutiveHyphens.induct)
  case (1 a b cs)
  then show ?case by (cases "b = CHR ''-''") auto
qed auto

lemma trim_id: "list_all (\<lambda>c. \<not> isWhiteSpace c) s \<Longrightarrow> trim s = s"
proof -
  assume a: "list_all (\<lambda>c. \<not> isWhiteSpace c) s"
  have 1: "dropWhile isWhiteSpace s = s" using a by (cases s) auto
  have "list_all (\<lambda>c. \<not> isWhiteSpace c) (rev s)" using a by (simp add: list_all_iff)
  then have 2: "dropWhile isWhiteSpace (rev s) = rev s" by (cases "rev s") auto
  show ?thesis by (simp add: trim_def 1 2)
qed

lemma set_trim: "set (trim s) \<subseteq> set s"
proof -
  have "set (trim s) = set (dropWhile isWhiteSpace (rev (dropWhile isWhiteSpace s)))"
    by (simp add: trim_def)
  also have "\<dots> \<subseteq> set (rev (dropWhile isWhiteSpace s))"
    by (rule set_dropWhileD[THEN subsetI])
  also have "\<dots> \<subseteq> set s" using set_dropWhileD[of _ isWhiteSpace s] by auto
  finally show ?thesis .
qed

lemma generateSlug_chars: "list_all isSlugChar (generateSlug title)"
proof -
  let ?l = "trim (toLowerCase title)"
  let ?f = "filter (\<lambda>c. isWordChar c \<or> isWhiteSpace c \<or> c = CHR ''-'') ?l"
  let ?w = "replaceRuns isWhiteSpace ''-'' ?f"
  have low: "\<not> isUpperAscii c" if "c \<in> set ?l" for c
  proof -
    from that set_trim[of "toLowerCase title"] have "c \<in> set (toLowerCase title)" by auto
    then show ?thesis by (auto simp: toLowerCase_def toLowerChar_not_upper)
  qed
  have f: "isSlugChar c \<or> isWhiteSpace c" if "c \<in> set ?f" for c
    using that low[of c] by (auto simp: isSlugChar_def isWordChar_def)
  have w: "isSlugChar c" if "c \<in> set ?w" for c
  proof -
    from that set_replaceRuns[of isWhiteSpace "''-''" ?f]
    have "c = CHR ''-'' \<or> (c \<in> set ?f \<and> \<not> isWhiteSpace c)" by auto
    with f show ?thesis by (auto simp: isSlugChar_def)
  qed
  have "isSlugChar c" if "c \<in> set (generateSlug title)" for c
  proof -
    from that set_replaceRuns[of "\<lambda>c. c = CHR ''-''" "''-''" ?w]
    have "c = CHR ''-'' \<or> c \<in> set ?w" by (auto simp: generateSlug_def)
    with w show ?thesis by (auto simp: isSlugChar_def)
  qed
  then show ?thesis by (simp add: list_all_iff)
qed

lemma generateSlug_fixed:
  assumes "list_all isSlugChar s" "\<not> hasConsecutiveHyphens s"
  shows "generateSlug s = s"
proof -
  have nws: "list_all (\<lambda>c. \<not> isWhiteSpace c) s"
    using assms(1) slugChar_not_ws by (auto simp: list_all_iff)
  have 1: "toLowerCase s = s"
    using assms(1) by (auto simp: toLowerCase_def list_all_iff toLowerChar_slug intro: map_idI)
  have 2: "trim s = s" by (rule trim_id[OF nws])
  have 3: "filter (\<lambda>c. isWordChar c \<or> isWhiteSpace c \<or> c = CHR ''-'') s = s"
    using assms(1) slugChar_word by (auto simp: list_all_iff intro!: filter_True)
  have 4: "replaceRuns isWhiteSpace ''-'' s = s" by (rule replaceRuns_id[OF nws])
  show ?thesis by (simp add: generateSlug_def 1 2 3 4 hyphens_id[OF assms(2)])
qed

text \<open>
  C10: for every title, the slug consists only of lowercase letters, digits, underscores
  and hyphens, contains no white space and no two consecutive hyphens, and generating a slug
  from a slug returns it unchanged.
\<close>

theorem generateSlug_normalized_idempotent:
  "list_all isSlugChar (generateSlug title)
   \<and> list_all (\<lambda>c. \<not> isWhiteSpace c) (generateSlug title)
   \<and> \<not> hasConsecutiveHyphens (generateSlug title)
   \<and> generateSlug (generateSlug title) = generateSlug title"
proof -
  have a: "list_all isSlugChar (generateSlug title)" by (rule generateSlug_chars)
  have b: "\<not> hasConsecutiveHyphens (generateSlug title)"
    unfolding generateSlug_def by (rule hyphens_collapsed)
  have c: "list_all (\<lambda>c. \<not> isWhiteSpace c) (generateSlug title)"
    using a slugChar_not_ws by (auto simp: list_all_iff)
  from a b c generateSlug_fixed[OF a b] show ?thesis by simp
qed


theorem generateSlug_normalized_idempotent_witness:
  "generateSlug ''Terms  & Conditions'' = ''terms-conditions''
   \<and> list_all isSlugChar ''terms-conditions''
   \<and> generateSlug ''terms-conditions'' = ''terms-conditions''"
proof -
  have e: "generateSlug ''Terms  & Conditions'' = ''terms-conditions''" by code_simp
  show ?thesis
    using generateSlug_normalized_idempotent[of "''Terms  & Conditions''"] unfolding e by simp
qed

subsection \<open>Pagination hook\<close>

lemma totalPages_ceiling:
  "pageSize s \<noteq> 0 \<Longrightarrow>
   totalPages s = Some (max 1 \<lceil>real_of_int (total s) / real_of_int (pageSize s)\<rceil>)"
  by (simp add: totalPages_def Math_ceil_div_def ceiling_divide_eq_div)

lemma pageInBounds_iff:
  "pageInBounds s \<longleftrightarrow>
     1 \<le> pageSize s \<and> 1 \<le> page s \<and> page s \<le> max 1 (- ((- total s) div pageSize s))"
  by (auto simp: pageInBounds_def totalPages_def Math_ceil_div_def)

lemma applyOp_preserves:
  assumes "pageInBounds s" "admissible s op"
  shows "\<exists>s'. applyOp s s op = Some s' \<and> pageInBounds s'"
  using assms
  by (cases op)
     (auto simp: pageInBounds_iff setPage_def setPageSize_def setTotal_def nextPage_def
       prevPage_def firstPage_def lastPage_def resetPagination_def canGoNext_def canGoPrev_def
       totalPages_def Math_ceil_div_def Let_def split: if_splits option.splits)

lemma setPageSize_bounds: "pageInBounds (setPageSize s n) \<longleftrightarrow> 1 \<le> n"
  by (auto simp: pageInBounds_iff setPageSize_def)

lemma resetPagination_bounds:
  "pageInBounds (resetPagination s s) \<longleftrightarrow>
     1 \<le> initialPageSize s \<and> 1 \<le> initialPage s
     \<and> initialPage s \<le> max 1 (- ((- total s) div initialPageSize s))"
  by (auto simp: pageInBounds_iff resetPagination_def)

lemma pageNumbers_shape:
  assumes "pageInBounds s"
  shows "\<exists>a b. pageNumbers s = Some [a..b] \<and> 1 \<le> a \<and> a \<le> b \<and> b - a < 5
           \<and> totalPages s = Some (max 1 (- ((- total s) div pageSize s)))
           \<and> b \<le> max 1 (- ((- total s) div pageSize s))"
proof -
  let ?tp = "max 1 (- ((- total s) div pageSize s))"
  from assms have b: "1 \<le> pageSize s" "1 \<le> page s" "page s \<le> ?tp"
    by (simp_all add: pageInBounds_iff)
  then have tp: "totalPages s = Some ?tp" by (simp add: totalPages_def Math_ceil_div_def)
  show ?thesis
  proof (cases "?tp \<le> 5")
    case True
    then have "pageNumbers s = Some [1..?tp]"
      by (simp add: pageNumbers_def tp maxVisiblePages_def)
    with True tp show ?thesis by (intro exI[of _ 1] exI[of _ ?tp]) simp
  next
    case False
    define start where "start = max 1 (page s - 2)"
    define e where "e = min ?tp (start + 4)"
    define start' where "start' = (if e - start < 4 then max 1 (e - 4) else start)"
    have pn: "pageNumbers s = Some [start'..e]"
    proof -
      have 1: "start + maxVisiblePages - 1 = start + 4" "maxVisiblePages - 1 = 4"
        "maxVisiblePages div 2 = 2" "e - maxVisiblePages + 1 = e - 4"
        by (simp_all add: maxVisiblePages_def)
      have 2: "\<not> ?tp \<le> maxVisiblePages" using False by (simp add: maxVisiblePages_def)
      show ?thesis
        unfolding pageNumbers_def tp Let_def option.map if_not_P[OF 2] 1
          start_def[symmetric] e_def[symmetric] 1 start'_def[symmetric] ..
    qed
    have "1 \<le> start'" "start' \<le> e" "e - start' < 5" "e \<le> ?tp"
      using b False unfolding start'_def e_def start_def by (auto split: if_splits)
    with pn tp show ?thesis by (intro exI[of _ start'] exI[of _ e]) simp
  qed
qed

lemma offset_nonneg: "pageInBounds s \<Longrightarrow> 0 \<le> offset s"
  by (simp add: pageInBounds_iff offset_def)


lemma pagination_moves:
  assumes "pageInBounds s"
  shows "map_option page (setPage s s n)
           = Some (max 1 (min n (max 1 (- ((- total s) div pageSize s)))))"
    and "page (setPageSize s n) = 1"
    and "map_option page (setTotal s s t)
           = Some (min (page s) (max 1 (- ((- t) div pageSize s))))"
    and "map_option page (nextPage s s)
           = Some (if page s < max 1 (- ((- total s) div pageSize s)) then page s + 1 else page s)"
    and "page (prevPage s s) = (if 1 < page s then page s - 1 else page s)"
  using assms
  by (auto simp: pageInBounds_iff setPage_def setPageSize_def setTotal_def nextPage_def
       prevPage_def canGoNext_def canGoPrev_def totalPages_def Math_ceil_div_def Let_def)

text \<open>
  C9 (as amended): let \<open>1 \<le> page \<le> totalPages\<close> hold with \<open>pageSize \<ge> 1\<close> in the state a
  render reads, where \<open>totalPages = max 1 (ceil (total / pageSize))\<close>. Then one call of an
  operation built by that render, before any other call, returns a state in which it
  holds again, for \<open>setPage\<close>, \<open>setTotal\<close>, \<open>nextPage\<close>, \<open>prevPage\<close>, \<open>firstPage\<close> and \<open>lastPage\<close>;
  for \<open>setPageSize\<close> exactly when the new size is at least 1; for \<open>resetPagination\<close> exactly
  when the initial page size is at least 1 and the initial page lies in \<open>[1, max 1 (ceil
  (total / initialPageSize))]\<close>. In such a call \<open>setPage\<close> clamps into \<open>[1, totalPages]\<close>,
  \<open>setPageSize\<close> resets the page to 1, \<open>setTotal\<close> clamps the page down to the new number of
  pages, \<open>nextPage\<close> and \<open>prevPage\<close> move only when a next or previous page exists. The offset
  of the render is non-negative and its \<open>pageNumbers\<close> is a non-empty run of at most five
  consecutive integers inside \<open>[1, totalPages]\<close>.
\<close>

theorem usePagination_page_in_bounds:
  assumes "pageInBounds s"
  shows "totalPages s = Some (max 1 \<lceil>real_of_int (total s) / real_of_int (pageSize s)\<rceil>)
    \<and> (admissible s op \<longrightarrow> (\<exists>s'. applyOp s s op = Some s' \<and> pageInBounds s'))
    \<and> (pageInBounds (setPageSize s n) \<longleftrightarrow> 1 \<le> n)
    \<and> (pageInBounds (resetPagination s s) \<longleftrightarrow>
          1 \<le> initialPageSize s \<and> 1 \<le> initialPage s
          \<and> initialPage s
               \<le> max 1 \<lceil>real_of_int (total s) / real_of_int (initialPageSize s)\<rceil>)
    \<and> map_option page (setPage s s n)
          = Some (max 1 (min n (max 1 \<lceil>real_of_int (total s) / real_of_int (pageSize s)\<rceil>)))
    \<and> page (setPageSize s n) = 1
    \<and> map_option page (setTotal s s t)
          = Some (min (page s) (max 1 \<lceil>real_of_int t / real_of_int (pageSize s)\<rceil>))
    \<and> map_option page (nextPage s s)
          = Some (if page s < max 1 \<lceil>real_of_int (total s) / real_of_int (pageSize s)\<rceil>
                  then page s + 1 else page s)
    \<and> page (prevPage s s) = (if 1 < page s then page s - 1 else page s)
    \<and> 0 \<le> offset s
    \<and> (\<exists>a b. pageNumbers s = Some [a..b] \<and> 1 \<le> a \<and> a \<le> b \<and> b - a < 5
          \<and> b \<le> max 1 \<lceil>real_of_int (total s) / real_of_int (pageSize s)\<rceil>)"
proof -
  have ps: "pageSize s \<noteq> 0" using assms by (simp add: pageInBounds_iff)
  have c: "\<lceil>real_of_int x / real_of_int y\<rceil> = - ((- x) div y)" for x y :: int
    by (rule ceiling_divide_eq_div)
  have pn: "\<exists>a b. pageNumbers s = Some [a..b] \<and> 1 \<le> a \<and> a \<le> b \<and> b - a < 5
          \<and> b \<le> max 1 (- ((- total s) div pageSize s))"
    using pageNumbers_shape[OF assms] by blast
  show ?thesis
    unfolding c
    using totalPages_ceiling[OF ps] applyOp_preserves[OF assms, of op]
      pagination_moves[OF assms] offset_nonneg[OF assms] pn
      setPageSize_bounds[of s n] resetPagination_bounds[of s]
    unfolding c by simp
qed

theorem usePagination_page_in_bounds_witness:
  "pageInBounds \<lparr>page = 1, pageSize = 10, total = 95, initialPage = 1, initialPageSize = 10\<rparr>
   \<and> admissible \<lparr>page = 1, pageSize = 10, total = 95, initialPage = 1, initialPageSize = 10\<rparr>
        (SetPage 42)
   \<and> applyOp \<lparr>page = 1, pageSize = 10, total = 95, initialPage = 1, initialPageSize = 10\<rparr>
        \<lparr>page = 1, pageSize = 10, total = 95, initialPage = 1, initialPageSize = 10\<rparr>
        (SetPage 42)
      = Some \<lparr>page = 10, pageSize = 10, total = 95, initialPage = 1, initialPageSize = 10\<rparr>
   \<and> pageInBounds \<lparr>page = 10, pageSize = 10, total = 95, initialPage = 1, initialPageSize = 10\<rparr>"
proof -
  let ?s = "\<lparr>page = 1, pageSize = 10, total = 95, initialPage = 1, initialPageSize = 10\<rparr>"
  have h: "pageInBounds ?s" by code_simp
  have a: "admissible ?s (SetPage 42)" by simp
  have e: "applyOp ?s ?s (SetPage 42)
    = Some \<lparr>page = 10, pageSize = 10, total = 95, initialPage = 1, initialPageSize = 10\<rparr>"
    by code_simp
  from usePagination_page_in_bounds[OF h, of "SetPage 42", THEN conjunct2, THEN conjunct1] a
  obtain s' where "applyOp ?s ?s (SetPage 42) = Some s'" "pageInBounds s'" by blast
  with e h a show ?thesis by simp
qed

text \<open>
  The claim as first stated, with every operation of the hook and no condition on the
  calls. First, \<open>resetPagination\<close> puts the page back to \<open>initialPage\<close> without clamping: a
  hook created on page 3 of 100 rows, whose total then drops to 0, is on page 1 of 1; after
  \<open>resetPagination\<close> it is on page 3 of 1. Second, the guards of \<open>nextPage\<close> and \<open>prevPage\<close>
  are those of the render while the updater works on the latest state: on page 9 of 10,
  two calls of the same \<open>nextPage\<close> reach page 11 of 10, and on page 2, two calls of the
  same \<open>prevPage\<close> reach page 0.
\<close>

theorem page_leaves_bounds:
  "pageInBounds (usePagination (Some 3) None (Some 100))
   \<and> setTotal (usePagination (Some 3) None (Some 100))
        (usePagination (Some 3) None (Some 100)) 0
       = Some \<lparr>page = 1, pageSize = 10, total = 0, initialPage = 3, initialPageSize = 10\<rparr>
   \<and> pageInBounds \<lparr>page = 1, pageSize = 10, total = 0, initialPage = 3, initialPageSize = 10\<rparr>
   \<and> applyOp \<lparr>page = 1, pageSize = 10, total = 0, initialPage = 3, initialPageSize = 10\<rparr>
        \<lparr>page = 1, pageSize = 10, total = 0, initialPage = 3, initialPageSize = 10\<rparr>
        ResetPagination
       = Some \<lparr>page = 3, pageSize = 10, total = 0, initialPage = 3, initialPageSize = 10\<rparr>
   \<and> totalPages \<lparr>page = 3, pageSize = 10, total = 0, initialPage = 3, initialPageSize = 10\<rparr>
       = Some 1
   \<and> \<not> pageInBounds
         \<lparr>page = 3, pageSize = 10, total = 0, initialPage = 3, initialPageSize = 10\<rparr>
   \<and> pageInBounds \<lparr>page = 9, pageSize = 10, total = 95, initialPage = 1, initialPageSize = 10\<rparr>
   \<and> calls \<lparr>page = 9, pageSize = 10, total = 95, initialPage = 1, initialPageSize = 10\<rparr>
        \<lparr>page = 9, pageSize = 10, total = 95, initialPage = 1, initialPageSize = 10\<rparr>
        [NextPage, NextPage]
       = Some \<lparr>page = 11, pageSize = 10, total = 95, initialPage = 1, initialPageSize = 10\<rparr>
   \<and> totalPages \<lparr>page = 11, pageSize = 10, total = 95, initialPage = 1, initialPageSize = 10\<rparr>
       = Some 10
   \<and> \<not> pageInBounds
         \<lparr>page = 11, pageSize = 10, total = 95, initialPage = 1, initialPageSize = 10\<rparr>
   \<and> pageInBounds \<lparr>page = 2, pageSize = 10, total = 95, initialPage = 1, initialPageSize = 10\<rparr>
   \<and> calls \<lparr>page = 2, pageSize = 10, total = 95, initialPage = 1, initialPageSize = 10\<rparr>
        \<lparr>page = 2, pageSize = 10, total = 95, initialPage = 1, initialPageSize = 10\<rparr>
        [PrevPage, PrevPage]
       = Some \<lparr>page = 0, pageSize = 10, total = 95, initialPage = 1, initialPageSize = 10\<rparr>
   \<and> \<not> pageInBounds
         \<lparr>page = 0, pageSize = 10, total = 95, initialPage = 1, initialPageSize = 10\<rparr>"
  by code_simp
subsection \<open>Retry helper\<close>

declare retryLoop.simps [simp del]

lemma retryLoop_success:
  assumes "\<forall>j. attempt \<le> j \<and> j < k \<longrightarrow> isl (operation j)"
    and "operation k = Inr v" and "attempt \<le> k" and "int k \<le> maxRetries"
  shows "retryLoop operation maxRetries delay backoff attempt lastError ws
         = \<lparr>outcome = Inr v, invocations = k + 1,
            waits = ws @ map (waitTime delay backoff) [attempt..<k]\<rparr>"
  using assms
proof (induction "k - attempt" arbitrary: attempt lastError ws)
  case 0
  then have "attempt = k" by simp
  with 0 show ?case by (simp add: retryLoop.simps[of _ _ _ _ k])
next
  case (Suc d)
  then have lt: "attempt < k" by simp
  with Suc.prems obtain e where e: "operation attempt = Inl e"
    by (cases "operation attempt") auto
  have step: "retryLoop operation maxRetries delay backoff attempt lastError ws
      = retryLoop operation maxRetries delay backoff (attempt + 1) (asError e)
          (ws @ [waitTime delay backoff attempt])"
    using lt Suc.prems(4) e by (simp add: retryLoop.simps[of _ _ _ _ attempt])
  have "retryLoop operation maxRetries delay backoff (attempt + 1) (asError e)
          (ws @ [waitTime delay backoff attempt])
        = \<lparr>outcome = Inr v, invocations = k + 1,
            waits = (ws @ [waitTime delay backoff attempt])
                    @ map (waitTime delay backoff) [attempt + 1..<k]\<rparr>"
    using Suc.hyps(2) Suc.prems lt by (intro Suc.hyps(1)) auto
  with step lt show ?case by (simp add: upt_conv_Cons)
qed

lemma retryLoop_exhausted:
  assumes "\<forall>j. attempt \<le> j \<and> int j \<le> maxRetries \<longrightarrow> isl (operation j)"
    and "int attempt \<le> maxRetries"
  shows "retryLoop operation maxRetries delay backoff attempt lastError ws
         = \<lparr>outcome = Inl (asError (projl (operation (nat maxRetries)))),
            invocations = nat maxRetries + 1,
            waits = ws @ map (waitTime delay backoff) [attempt..<nat maxRetries]\<rparr>"
  using assms
proof (induction "nat maxRetries - attempt" arbitrary: attempt lastError ws)
  case 0
  then have eq: "int attempt = maxRetries" by simp
  with 0 obtain e where e: "operation attempt = Inl e"
    by (cases "operation attempt") auto
  from eq have n: "nat maxRetries = attempt" by simp
  show ?case using eq e by (simp add: retryLoop.simps[of _ _ _ _ attempt] n)
next
  case (Suc d)
  then have lt: "int attempt < maxRetries" by simp
  with Suc.prems obtain e where e: "operation attempt = Inl e"
    by (cases "operation attempt") auto
  have step: "retryLoop operation maxRetries delay backoff attempt lastError ws
      = retryLoop operation maxRetries delay backoff (attempt + 1) (asError e)
          (ws @ [waitTime delay backoff attempt])"
    using lt e by (simp add: retryLoop.simps[of _ _ _ _ attempt])
  have "retryLoop operation maxRetries delay backoff (attempt + 1) (asError e)
          (ws @ [waitTime delay backoff attempt])
        = \<lparr>outcome = Inl (asError (projl (operation (nat maxRetries)))),
            invocations = nat maxRetries + 1,
            waits = (ws @ [waitTime delay backoff attempt])
                    @ map (waitTime delay backoff) [attempt + 1..<nat maxRetries]\<rparr>"
    using Suc.hyps(2) Suc.prems lt by (intro Suc.hyps(1)) auto
  moreover have "attempt < nat maxRetries" using lt by simp
  ultimately show ?case using step by (simp add: upt_conv_Cons)
qed

lemma retryLoop_invocations:
  "int attempt \<le> maxRetries + 1 \<Longrightarrow>
   invocations (retryLoop operation maxRetries delay backoff attempt lastError ws)
     \<le> nat (maxRetries + 1)"
proof (induction operation maxRetries delay backoff attempt lastError ws rule: retryLoop.induct)
  case (1 operation maxRetries delay backoff attempt lastError ws)
  show ?case
  proof (cases "int attempt \<le> maxRetries")
    case False
    with 1(2) show ?thesis by (simp add: retryLoop.simps[of _ _ _ _ attempt])
  next
    case True
    show ?thesis
    proof (cases "operation attempt")
      case (Inr v)
      with True show ?thesis by (simp add: retryLoop.simps[of _ _ _ _ attempt])
    next
      case (Inl e)
      show ?thesis
      proof (cases "int attempt = maxRetries")
        case True
        with Inl show ?thesis by (simp add: retryLoop.simps[of _ _ _ _ attempt])
      next
        case False
        with True Inl 1(1)[OF True Inl False] show ?thesis
          by (simp add: retryLoop.simps[of _ _ _ _ attempt])
      qed
    qed
  qed
qed


lemma first_success:
  assumes "\<not> (\<forall>j. int j \<le> maxRetries \<longrightarrow> isl (operation j))"
  obtains k v where "int k \<le> maxRetries" "\<forall>j<k. isl (operation j)" "operation k = Inr v"
proof -
  from assms obtain j where j: "int j \<le> maxRetries \<and> \<not> isl (operation j)" by blast
  define k where "k = (LEAST j. \<not> isl (operation j))"
  have nk: "\<not> isl (operation k)" unfolding k_def using j by (metis (mono_tags) LeastI)
  have le: "k \<le> j" unfolding k_def using j by (simp add: Least_le)
  have before: "\<forall>i<k. isl (operation i)" unfolding k_def using not_less_Least by blast
  from nk obtain v where "operation k = Inr v" by (cases "operation k") auto
  moreover have "int k \<le> maxRetries" using le j by linarith
  ultimately show thesis using before that by blast
qed

text \<open>
  C7 (as amended): for an integer \<open>maxRetries \<ge> 0\<close>, \<open>retryOperation\<close> invokes \<open>operation\<close> at
  most \<open>maxRetries + 1\<close> times; it resolves with the first successful result; if every one
  of the \<open>maxRetries + 1\<close> invocations throws, it rejects with the value thrown by the last
  invocation when that value is an \<open>Error\<close>, and with a new \<open>Error('Unknown error')\<close>
  otherwise; the wait before the \<open>k\<close>-th retry is \<open>delay * 2^(k-1)\<close> with backoff and
  \<open>delay\<close> without.
\<close>

theorem retryOperation_contract:
  assumes "0 \<le> maxRetries"
  shows "invocations (retryOperation operation maxRetries delay backoff) \<le> nat maxRetries + 1
    \<and> (\<forall>k v. int k \<le> maxRetries \<and> (\<forall>j<k. isl (operation j)) \<and> operation k = Inr v \<longrightarrow>
          outcome (retryOperation operation maxRetries delay backoff) = Inr v
          \<and> invocations (retryOperation operation maxRetries delay backoff) = k + 1)
    \<and> ((\<forall>j. int j \<le> maxRetries \<longrightarrow> isl (operation j)) \<longrightarrow>
          invocations (retryOperation operation maxRetries delay backoff) = nat maxRetries + 1
          \<and> (\<forall>m. operation (nat maxRetries) = Inl (ErrorInstance m) \<longrightarrow>
                outcome (retryOperation operation maxRetries delay backoff)
                  = Inl (ErrorInstance m))
          \<and> (\<forall>e. operation (nat maxRetries) = Inl e \<and> (\<forall>m. e \<noteq> ErrorInstance m) \<longrightarrow>
                outcome (retryOperation operation maxRetries delay backoff)
                  = Inl (ErrorInstance ''Unknown error'')))
    \<and> waits (retryOperation operation maxRetries delay backoff)
        = map (\<lambda>k. if backoff then delay * 2 ^ k else delay)
            [0..<invocations (retryOperation operation maxRetries delay backoff) - 1]"
proof -
  let ?r = "retryOperation operation maxRetries delay backoff"
  have w: "waitTime delay backoff = (\<lambda>k. if backoff then delay * 2 ^ k else delay)"
    by (auto simp: waitTime_def)
  have succ: "outcome ?r = Inr v \<and> invocations ?r = k + 1
      \<and> waits ?r = map (waitTime delay backoff) [0..<k]"
    if "int k \<le> maxRetries" "\<forall>j<k. isl (operation j)" "operation k = Inr v" for k v
    using retryLoop_success[of 0 k operation v maxRetries delay backoff Undefined "[]"] that
    by (simp add: retryOperation_def)
  have fail: "outcome ?r = Inl (asError (projl (operation (nat maxRetries))))
      \<and> invocations ?r = nat maxRetries + 1
      \<and> waits ?r = map (waitTime delay backoff) [0..<nat maxRetries]"
    if "\<forall>j. int j \<le> maxRetries \<longrightarrow> isl (operation j)"
    using retryLoop_exhausted[of 0 maxRetries operation delay backoff Undefined "[]"] that assms
    by (simp add: retryOperation_def)
  have bound: "invocations ?r \<le> nat maxRetries + 1"
    using retryLoop_invocations[of 0 maxRetries operation delay backoff Undefined "[]"] assms
    by (simp add: retryOperation_def nat_add_distrib)
  have ws: "waits ?r = map (waitTime delay backoff) [0..<invocations ?r - 1]"
  proof (cases "\<forall>j. int j \<le> maxRetries \<longrightarrow> isl (operation j)")
    case True
    from fail[OF True] show ?thesis by simp
  next
    case False
    from first_success[OF False] obtain k v where
      "int k \<le> maxRetries" "\<forall>j<k. isl (operation j)" "operation k = Inr v" by blast
    from succ[OF this] show ?thesis by simp
  qed
  have last: "outcome ?r = Inl (ErrorInstance m)"
    if "\<forall>j. int j \<le> maxRetries \<longrightarrow> isl (operation j)"
      "operation (nat maxRetries) = Inl (ErrorInstance m)" for m
    using fail[OF that(1)] that(2) by (simp add: asError_def)
  have unknown: "outcome ?r = Inl (ErrorInstance ''Unknown error'')"
    if "\<forall>j. int j \<le> maxRetries \<longrightarrow> isl (operation j)"
      "operation (nat maxRetries) = Inl e" "\<forall>m. e \<noteq> ErrorInstance m" for e
    using fail[OF that(1)] that(2,3) by (cases e) (simp_all add: asError_def)
  show ?thesis
    using bound succ fail last unknown ws unfolding w by blast
qed

theorem retryOperation_contract_witness:
  "(0::int) \<le> 3
   \<and> int 2 \<le> 3 \<and> isl (failsTwice 0) \<and> isl (failsTwice 1) \<and> failsTwice 2 = Inr 7
   \<and> retryOperation failsTwice 3 1000 True
       = \<lparr>outcome = Inr 7, invocations = 3, waits = [1000, 2000]\<rparr>"
proof -
  have h: "(0::int) \<le> 3" by simp
  have f: "int 2 \<le> 3 \<and> (\<forall>j<2. isl (failsTwice j)) \<and> failsTwice 2 = Inr 7"
    by (simp add: failsTwice_def)
  have u: "[0..<2] = [0, Suc 0]" by (simp add: upt_rec)
  note t = retryOperation_contract[OF h, of failsTwice 1000 True]
  from t have "int 2 \<le> 3 \<and> (\<forall>j<2. isl (failsTwice j)) \<and> failsTwice 2 = Inr 7 \<longrightarrow>
      outcome (retryOperation failsTwice 3 1000 True) = Inr 7
      \<and> invocations (retryOperation failsTwice 3 1000 True) = 2 + 1"
    by blast
  with f have o: "outcome (retryOperation failsTwice 3 1000 True) = Inr 7"
    and i: "invocations (retryOperation failsTwice 3 1000 True) = 3"
    by simp_all
  from t have "waits (retryOperation failsTwice 3 1000 True)
      = map (\<lambda>k. if True then 1000 * 2 ^ k else 1000)
          [0..<invocations (retryOperation failsTwice 3 1000 True) - 1]"
    by blast
  then have "waits (retryOperation failsTwice 3 1000 True) = [1000, 2000]"
    unfolding i by (simp add: u)
  with o i have "outcome (retryOperation failsTwice 3 1000 True) = Inr 7
      \<and> invocations (retryOperation failsTwice 3 1000 True) = 3
      \<and> waits (retryOperation failsTwice 3 1000 True) = [1000, 2000]"
    by simp
  then have "retryOperation failsTwice 3 1000 True
      = \<lparr>outcome = Inr 7, invocations = 3, waits = [1000, 2000]\<rparr>"
    by (cases "retryOperation failsTwice 3 1000 True") simp
  moreover have "isl (failsTwice 0) \<and> isl (failsTwice 1)" by (simp add: failsTwice_def)
  ultimately show ?thesis using h f by blast
qed

text \<open>
  The claim as first stated says the rejection carries the error of the last invocation.
  An operation that always rejects with the string \<open>'boom'\<close> makes \<open>retryOperation\<close> reject
  with \<open>Error('Unknown error')\<close> instead.
\<close>

theorem retryOperation_replaces_non_error:
  "rejectsWithString 2 = Inl (OtherValue ''boom'')
   \<and> retryOperation rejectsWithString 2 1000 True
       = \<lparr>outcome = Inl (ErrorInstance ''Unknown error''), invocations = 3,
          waits = [1000, 2000]\<rparr>
   \<and> outcome (retryOperation rejectsWithString 2 1000 True) \<noteq> rejectsWithString 2"
  by code_simp

subsection \<open>Status types\<close>

text \<open>
  C5 (as amended): a business status is one of pending, active, rejected, suspended, removed,
  deleted; a service status is one of pending, active, rejected, suspended, deleted,
  requestDeletion, that is the business statuses without removed, plus requestDeletion; a
  transaction status is one of pending, completed, failed, refunded, cancelled, processing.
\<close>

theorem status_types:
  "set BusinessStatus
     = {''pending'', ''active'', ''rejected'', ''suspended'', ''removed'', ''deleted''}
   \<and> set ServiceStatus
     = {''pending'', ''active'', ''rejected'', ''suspended'', ''deleted'', ''requestDeletion''}
   \<and> set ServiceStatus = (set BusinessStatus - {''removed''}) \<union> {''requestDeletion''}
   \<and> set TransactionStatus
     = {''pending'', ''completed'', ''failed'', ''refunded'', ''cancelled'', ''processing''}
   \<and> distinct BusinessStatus \<and> distinct ServiceStatus \<and> distinct TransactionStatus"
proof -
  have 1: "set BusinessStatus
     = {''pending'', ''active'', ''rejected'', ''suspended'', ''removed'', ''deleted''}"
    by (simp add: BusinessStatus_def)
  have 2: "set ServiceStatus
     = {''pending'', ''active'', ''rejected'', ''suspended'', ''deleted'', ''requestDeletion''}"
    by (simp add: ServiceStatus_def)
  have 3: "set ServiceStatus = (set BusinessStatus - {''removed''}) \<union> {''requestDeletion''}"
    by (simp add: BusinessStatus_def ServiceStatus_def insert_Diff_if insert_commute)
  have 4: "set TransactionStatus
     = {''pending'', ''completed'', ''failed'', ''refunded'', ''cancelled'', ''processing''}"
    by (simp add: TransactionStatus_def)
  have 5: "distinct BusinessStatus" by (simp add: BusinessStatus_def)
  have 6: "distinct ServiceStatus" by (simp add: ServiceStatus_def)
  have 7: "distinct TransactionStatus" by (simp add: TransactionStatus_def)
  from 1 2 3 4 5 6 7 show ?thesis by blast
qed

text \<open>
  The claim as first stated makes the service statuses the business statuses plus
  requestDeletion; \<open>'removed'\<close> is a business status and not a service status.
\<close>

theorem service_status_lacks_removed:
  "''removed'' \<in> set BusinessStatus
   \<and> ''removed'' \<notin> set ServiceStatus
   \<and> set ServiceStatus \<noteq> set BusinessStatus \<union> {''requestDeletion''}"
proof -
  have 1: "''removed'' \<in> set BusinessStatus" by (simp add: BusinessStatus_def)
  have 2: "''removed'' \<notin> set ServiceStatus" by (simp add: ServiceStatus_def)
  from 1 2 have "set ServiceStatus \<noteq> set BusinessStatus \<union> {''requestDeletion''}" by blast
  with 1 2 show ?thesis by blast
qed

subsection \<open>Awaiting the store\<close>

lemma await_Resolved:
  "be req s = (Resolved r, s') \<Longrightarrow> await be req k s = k r s'"
  by (simp add: await_def)

lemma await_Rejected:
  "be req s = (Rejected err, s') \<Longrightarrow> await be req k s = (Inl err, s')"
  by (simp add: await_def)

lemma tryCatch_await_return:
  "tryCatch (await be req (\<lambda>r. returnA (f r))) h s =
     (case be req s of
        (Rejected err, s') \<Rightarrow> (h err, s')
      | (Resolved r, s') \<Rightarrow> (f r, s'))"
  by (simp add: tryCatch_def await_def returnA_def split: prod.splits settled.splits)

lemma scripted_sent_one:
  "sent (snd (tryCatch (await scripted req (\<lambda>r. returnA (f r))) h \<lparr>answers = as, sent = []\<rparr>))
     = [req]"
  by (cases as) (simp_all add: tryCatch_await_return scripted_def split: settled.splits)

lemma listResult_ok:
  "r_error r = None \<Longrightarrow> size' \<noteq> 0 \<Longrightarrow>
   listResult pg size' r =
     \<lparr>payload = Some \<lparr>pr_data = r_data r, pr_total = orZero (r_count r), pr_page = pg,
                       pr_pageSize = size',
                       pr_totalPages = Some \<lceil>real_of_int (orZero (r_count r)) / real_of_int size'\<rceil>\<rparr>,
      error = None\<rparr>"
  by (simp add: listResult_def orZero_def Math_ceil_div_def ceiling_divide_eq_div Let_def)

lemma rowRange_chain_last:
  "rowRange (chain q (steps @ [rangeRows a b])) = Some (a, b)"
  by (simp add: chain_def rangeRows_def)

lemma getBusinessesQuery_range:
  "b_page p = Some pg \<Longrightarrow> b_pageSize p = Some sz \<Longrightarrow>
   rowRange (getBusinessesQuery p) = Some ((pg - 1) * sz, (pg - 1) * sz + sz - 1)"
  unfolding getBusinessesQuery_def Let_def
  by (simp add: orDefault_def chain_def rangeRows_def)

lemma getBusinesses_ok:
  "be (Rest (getBusinessesQuery p)) s = (Resolved r, s') \<Longrightarrow> r_error r = None \<Longrightarrow>
   b_page p = Some pg \<Longrightarrow> b_pageSize p = Some sz \<Longrightarrow> sz \<noteq> 0 \<Longrightarrow>
   getBusinesses be p s =
     (\<lparr>payload = Some \<lparr>pr_data = r_data r, pr_total = orZero (r_count r), pr_page = pg,
                        pr_pageSize = sz,
                        pr_totalPages = Some \<lceil>real_of_int (orZero (r_count r)) / real_of_int sz\<rceil>\<rparr>,
       error = None\<rparr>, s')"
  by (simp add: getBusinesses_def tryCatch_await_return listResult_ok orDefault_def)

lemma getBusinesses_sent:
  "sent (snd (getBusinesses scripted p \<lparr>answers = as, sent = []\<rparr>)) = [Rest (getBusinessesQuery p)]"
  unfolding getBusinesses_def by (rule scripted_sent_one)

lemma getServicesQuery_range:
  "s_page p = Some pg \<Longrightarrow> s_pageSize p = Some sz \<Longrightarrow>
   rowRange (getServicesQuery p) = Some ((pg - 1) * sz, (pg - 1) * sz + sz - 1)"
  unfolding getServicesQuery_def Let_def
  by (simp add: orDefault_def chain_def rangeRows_def)

lemma getServices_ok:
  "be (Rest (getServicesQuery p)) s = (Resolved r, s') \<Longrightarrow> r_error r = None \<Longrightarrow>
   s_page p = Some pg \<Longrightarrow> s_pageSize p = Some sz \<Longrightarrow> sz \<noteq> 0 \<Longrightarrow>
   getServices be p s =
     (\<lparr>payload = Some \<lparr>pr_data = r_data r, pr_total = orZero (r_count r), pr_page = pg,
                        pr_pageSize = sz,
                        pr_totalPages = Some \<lceil>real_of_int (orZero (r_count r)) / real_of_int sz\<rceil>\<rparr>,
       error = None\<rparr>, s')"
  by (simp add: getServices_def tryCatch_await_return listResult_ok orDefault_def)

lemma getServices_sent:
  "sent (snd (getServices scripted p \<lparr>answers = as, sent = []\<rparr>)) = [Rest (getServicesQuery p)]"
  unfolding getServices_def by (rule scripted_sent_one)

lemma getTransactionsQuery_range:
  "t_page p = Some pg \<Longrightarrow> t_pageSize p = Some sz \<Longrightarrow>
   rowRange (getTransactionsQuery p) = Some ((pg - 1) * sz, (pg - 1) * sz + sz - 1)"
  unfolding getTransactionsQuery_def Let_def
  by (simp add: orDefault_def chain_def rangeRows_def)

lemma getTransactions_ok:
  "be (Rest (getTransactionsQuery p)) s = (Resolved r, s') \<Longrightarrow> r_error r = None \<Longrightarrow>
   t_page p = Some pg \<Longrightarrow> t_pageSize p = Some sz \<Longrightarrow> sz \<noteq> 0 \<Longrightarrow>
   getTransactions be p s =
     (\<lparr>payload = Some \<lparr>pr_data = r_data r, pr_total = orZero (r_count r), pr_page = pg,
                        pr_pageSize = sz,
                        pr_totalPages = Some \<lceil>real_of_int (orZero (r_count r)) / real_of_int sz\<rceil>\<rparr>,
       error = None\<rparr>, s')"
  by (simp add: getTransactions_def tryCatch_await_return listResult_ok orDefault_def)

lemma getTransactions_sent:
  "sent (snd (getTransactions scripted p \<lparr>answers = as, sent = []\<rparr>)) = [Rest (getTransactionsQuery p)]"
  unfolding getTransactions_def by (rule scripted_sent_one)

lemma getCompaniesQuery_range:
  "c_page p = Some pg \<Longrightarrow> c_pageSize p = Some sz \<Longrightarrow>
   rowRange (getCompaniesQuery p) = Some ((pg - 1) * sz, (pg - 1) * sz + sz - 1)"
  unfolding getCompaniesQuery_def Let_def
  by (simp add: orDefault_def chain_def rangeRows_def)

lemma getCompanies_ok:
  "be (Rest (getCompaniesQuery p)) s = (Resolved r, s') \<Longrightarrow> r_error r = None \<Longrightarrow>
   c_page p = Some pg \<Longrightarrow> c_pageSize p = Some sz \<Longrightarrow> sz \<noteq> 0 \<Longrightarrow>
   getCompanies be p s =
     (\<lparr>payload = Some \<lparr>pr_data = r_data r, pr_total = orZero (r_count r), pr_page = pg,
                        pr_pageSize = sz,
                        pr_totalPages = Some \<lceil>real_of_int (orZero (r_count r)) / real_of_int sz\<rceil>\<rparr>,
       error = None\<rparr>, s')"
  by (simp add: getCompanies_def tryCatch_await_return listResult_ok orDefault_def)

lemma getCompanies_sent:
  "sent (snd (getCompanies scripted p \<lparr>answers = as, sent = []\<rparr>)) = [Rest (getCompaniesQuery p)]"
  unfolding getCompanies_def by (rule scripted_sent_one)

lemma getUsersQuery_range:
  "u_page p = Some pg \<Longrightarrow> u_pageSize p = Some sz \<Longrightarrow>
   rowRange (getUsersQuery p) = Some ((pg - 1) * sz, (pg - 1) * sz + sz - 1)"
  unfolding getUsersQuery_def Let_def
  by (simp add: orDefault_def chain_def rangeRows_def)

lemma getUsers_ok:
  "be (Rest (getUsersQuery p)) s = (Resolved r, s') \<Longrightarrow> r_error r = None \<Longrightarrow>
   u_page p = Some pg \<Longrightarrow> u_pageSize p = Some sz \<Longrightarrow> sz \<noteq> 0 \<Longrightarrow>
   getUsers be p s =
     (\<lparr>payload = Some \<lparr>pr_data = r_data r, pr_total = orZero (r_count r), pr_page = pg,
                        pr_pageSize = sz,
                        pr_totalPages = Some \<lceil>real_of_int (orZero (r_count r)) / real_of_int sz\<rceil>\<rparr>,
       error = None\<rparr>, s')"
  by (simp add: getUsers_def tryCatch_await_return listResult_ok orDefault_def)

lemma getUsers_sent:
  "sent (snd (getUsers scripted p \<lparr>answers = as, sent = []\<rparr>)) = [Rest (getUsersQuery p)]"
  unfolding getUsers_def by (rule scripted_sent_one)

text \<open>
  C4: for every page and page size of at least 1, \<open>getBusinesses\<close>, \<open>getServices\<close> and
  \<open>getTransactions\<close> (and \<open>getCompanies\<close> and \<open>getUsers\<close> alike) send one query, whose
  range runs from \<open>(page - 1) * pageSize\<close> through \<open>(page - 1) * pageSize + pageSize - 1\<close>,
  and, when the store answers without an error, report \<open>total\<close> as the store's count (0 when
  the count is absent) and \<open>totalPages = ceil (total / pageSize)\<close>.
\<close>

theorem list_operations_paginate_alike:
  assumes "1 \<le> pg" "1 \<le> sz"
    and "b_page pb = Some pg" "b_pageSize pb = Some sz"
    and "s_page ps = Some pg" "s_pageSize ps = Some sz"
    and "t_page pt = Some pg" "t_pageSize pt = Some sz"
    and "c_page pc = Some pg" "c_pageSize pc = Some sz"
    and "u_page pu = Some pg" "u_pageSize pu = Some sz"
  shows "rowRange (getBusinessesQuery pb) = Some ((pg - 1) * sz, (pg - 1) * sz + sz - 1)
    \<and> sent (snd (getBusinesses scripted pb \<lparr>answers = as, sent = []\<rparr>)) = [Rest (getBusinessesQuery pb)]
    \<and> (\<forall>r s s'. be (Rest (getBusinessesQuery pb)) s = (Resolved r, s') \<and> r_error r = None \<longrightarrow>
          getBusinesses be pb s =
            (\<lparr>payload = Some \<lparr>pr_data = r_data r, pr_total = orZero (r_count r), pr_page = pg,
                               pr_pageSize = sz,
                               pr_totalPages =
                                 Some \<lceil>real_of_int (orZero (r_count r)) / real_of_int sz\<rceil>\<rparr>,
              error = None\<rparr>, s'))
    \<and> rowRange (getServicesQuery ps) = Some ((pg - 1) * sz, (pg - 1) * sz + sz - 1)
    \<and> sent (snd (getServices scripted ps \<lparr>answers = as, sent = []\<rparr>)) = [Rest (getServicesQuery ps)]
    \<and> (\<forall>r s s'. be (Rest (getServicesQuery ps)) s = (Resolved r, s') \<and> r_error r = None \<longrightarrow>
          getServices be ps s =
            (\<lparr>payload = Some \<lparr>pr_data = r_data r, pr_total = orZero (r_count r), pr_page = pg,
                               pr_pageSize = sz,
                               pr_totalPages =
                                 Some \<lceil>real_of_int (orZero (r_count r)) / real_of_int sz\<rceil>\<rparr>,
              error = None\<rparr>, s'))
    \<and> rowRange (getTransactionsQuery pt) = Some ((pg - 1) * sz, (pg - 1) * sz + sz - 1)
    \<and> sent (snd (getTransactions scripted pt \<lparr>answers = as, sent = []\<rparr>)) = [Rest (getTransactionsQuery pt)]
    \<and> (\<forall>r s s'. be (Rest (getTransactionsQuery pt)) s = (Resolved r, s') \<and> r_error r = None \<longrightarrow>
          getTransactions be pt s =
            (\<lparr>payload = Some \<lparr>pr_data = r_data r, pr_total = orZero (r_count r), pr_page = pg,
                               pr_pageSize = sz,
                               pr_totalPages =
                                 Some \<lceil>real_of_int (orZero (r_count r)) / real_of_int sz\<rceil>\<rparr>,
              error = None\<rparr>, s'))
    \<and> rowRange (getCompaniesQuery pc) = Some ((pg - 1) * sz, (pg - 1) * sz + sz - 1)
    \<and> sent (snd (getCompanies scripted pc \<lparr>answers = as, sent = []\<rparr>)) = [Rest (getCompaniesQuery pc)]
    \<and> (\<forall>r s s'. be (Rest (getCompaniesQuery pc)) s = (Resolved r, s') \<and> r_error r = None \<longrightarrow>
          getCompanies be pc s =
            (\<lparr>payload = Some \<lparr>pr_data = r_data r, pr_total = orZero (r_count r), pr_page = pg,
                               pr_pageSize = sz,
                               pr_totalPages =
                                 Some \<lceil>real_of_int (orZero (r_count r)) / real_of_int sz\<rceil>\<rparr>,
              error = None\<rparr>, s'))
    \<and> rowRange (getUsersQuery pu) = Some ((pg - 1) * sz, (pg - 1) * sz + sz - 1)
    \<and> sent (snd (getUsers scripted pu \<lparr>answers = as, sent = []\<rparr>)) = [Rest (getUsersQuery pu)]
    \<and> (\<forall>r s s'. be (Rest (getUsersQuery pu)) s = (Resolved r, s') \<and> r_error r = None \<longrightarrow>
          getUsers be pu s =
            (\<lparr>payload = Some \<lparr>pr_data = r_data r, pr_total = orZero (r_count r), pr_page = pg,
                               pr_pageSize = sz,
                               pr_totalPages =
                                 Some \<lceil>real_of_int (orZero (r_count r)) / real_of_int sz\<rceil>\<rparr>,
              error = None\<rparr>, s'))"
proof -
  have nz: "sz \<noteq> 0" using assms(2) by simp
  note a = assms(3-)
  have q0: "rowRange (getBusinessesQuery pb) = Some ((pg - 1) * sz, (pg - 1) * sz + sz - 1)"
    by (rule getBusinessesQuery_range) (simp_all add: a)
  have s0: "sent (snd (getBusinesses scripted pb \<lparr>answers = as, sent = []\<rparr>)) = [Rest (getBusinessesQuery pb)]"
    by (rule getBusinesses_sent)
  have r0: "getBusinesses be pb s =
            (\<lparr>payload = Some \<lparr>pr_data = r_data r, pr_total = orZero (r_count r), pr_page = pg,
                               pr_pageSize = sz,
                               pr_totalPages =
                                 Some \<lceil>real_of_int (orZero (r_count r)) / real_of_int sz\<rceil>\<rparr>,
              error = None\<rparr>, s')"
    if "be (Rest (getBusinessesQuery pb)) s = (Resolved r, s') \<and> r_error r = None" for r s s'
    using that by (intro getBusinesses_ok) (simp_all add: a nz)
  have q1: "rowRange (getServicesQuery ps) = Some ((pg - 1) * sz, (pg - 1) * sz + sz - 1)"
    by (rule getServicesQuery_range) (simp_all add: a)
  have s1: "sent (snd (getServices scripted ps \<lparr>answers = as, sent = []\<rparr>)) = [Rest (getServicesQuery ps)]"
    by (rule getServices_sent)
  have r1: "getServices be ps s =
            (\<lparr>payload = Some \<lparr>pr_data = r_data r, pr_total = orZero (r_count r), pr_page = pg,
                               pr_pageSize = sz,
                               pr_totalPages =
                                 Some \<lceil>real_of_int (orZero (r_count r)) / real_of_int sz\<rceil>\<rparr>,
              error = None\<rparr>, s')"
    if "be (Rest (getServicesQuery ps)) s = (Resolved r, s') \<and> r_error r = None" for r s s'
    using that by (intro getServices_ok) (simp_all add: a nz)
  have q2: "rowRange (getTransactionsQuery pt) = Some ((pg - 1) * sz, (pg - 1) * sz + sz - 1)"
    by (rule getTransactionsQuery_range) (simp_all add: a)
  have s2: "sent (snd (getTransactions scripted pt \<lparr>answers = as, sent = []\<rparr>)) = [Rest (getTransactionsQuery pt)]"
    by (rule getTransactions_sent)
  have r2: "getTransactions be pt s =
            (\<lparr>payload = Some \<lparr>pr_data = r_data r, pr_total = orZero (r_count r), pr_page = pg,
                               pr_pageSize = sz,
                               pr_totalPages =
                                 Some \<lceil>real_of_int (orZero (r_count r)) / real_of_int sz\<rceil>\<rparr>,
              error = None\<rparr>, s')"
    if "be (Rest (getTransactionsQuery pt)) s = (Resolved r, s') \<and> r_error r = None" for r s s'
    using that by (intro getTransactions_ok) (simp_all add: a nz)
  have q3: "rowRange (getCompaniesQuery pc) = Some ((pg - 1) * sz, (pg - 1) * sz + sz - 1)"
    by (rule getCompaniesQuery_range) (simp_all add: a)
  have s3: "sent (snd (getCompanies scripted pc \<lparr>answers = as, sent = []\<rparr>)) = [Rest (getCompaniesQuery pc)]"
    by (rule getCompanies_sent)
  have r3: "getCompanies be pc s =
            (\<lparr>payload = Some \<lparr>pr_data = r_data r, pr_total = orZero (r_count r), pr_page = pg,
                               pr_pageSize = sz,
                               pr_totalPages =
                                 Some \<lceil>real_of_int (orZero (r_count r)) / real_of_int sz\<rceil>\<rparr>,
              error = None\<rparr>, s')"
    if "be (Rest (getCompaniesQuery pc)) s = (Resolved r, s') \<and> r_error r = None" for r s s'
    using that by (intro getCompanies_ok) (simp_all add: a nz)
  have q4: "rowRange (getUsersQuery pu) = Some ((pg - 1) * sz, (pg - 1) * sz + sz - 1)"
    by (rule getUsersQuery_range) (simp_all add: a)
  have s4: "sent (snd (getUsers scripted pu \<lparr>answers = as, sent = []\<rparr>)) = [Rest (getUsersQuery pu)]"
    by (rule getUsers_sent)
  have r4: "getUsers be pu s =
            (\<lparr>payload = Some \<lparr>pr_data = r_data r, pr_total = orZero (r_count r), pr_page = pg,
                               pr_pageSize = sz,
                               pr_totalPages =
                                 Some \<lceil>real_of_int (orZero (r_count r)) / real_of_int sz\<rceil>\<rparr>,
              error = None\<rparr>, s')"
    if "be (Rest (getUsersQuery pu)) s = (Resolved r, s') \<and> r_error r = None" for r s s'
    using that by (intro getUsers_ok) (simp_all add: a nz)
  show ?thesis
    using q0 s0 r0 q1 s1 r1 q2 s2 r2 q3 s3 r3 q4 s4 r4 by blast
qed


theorem list_operations_paginate_alike_witness:
  "(1::int) \<le> 3 \<and> (1::int) \<le> 20
   \<and> rowRange (getBusinessesQuery
        \<lparr>b_page = Some 3, b_pageSize = Some 20, b_sortBy = None, b_sortOrder = None,
         b_status = Some ''active'', b_categoryId = None, b_companyId = None,
         b_search = None\<rparr>) = Some (40, 59)
   \<and> map_option pr_totalPages (payload (fst (getBusinesses scripted
        \<lparr>b_page = Some 3, b_pageSize = Some 20, b_sortBy = None, b_sortOrder = None,
         b_status = Some ''active'', b_categoryId = None, b_companyId = None,
         b_search = None\<rparr>
        \<lparr>answers = [ok (DRows []) (Some 41)], sent = []\<rparr>))) = Some (Some 3)"
proof -
  let ?pb = "\<lparr>b_page = Some 3, b_pageSize = Some 20, b_sortBy = None, b_sortOrder = None,
         b_status = Some ''active'', b_categoryId = None, b_companyId = None,
         b_search = None\<rparr>"
  let ?ps = "\<lparr>s_page = Some 3, s_pageSize = Some 20, s_sortBy = None, s_sortOrder = None,
         s_status = None, s_categoryId = None, s_businessId = None, s_search = None\<rparr>"
  let ?pt = "\<lparr>t_page = Some 3, t_pageSize = Some 20, t_sortBy = None, t_sortOrder = None,
         t_status = None, t_paymentProvider = None, t_dateFrom = None, t_dateTo = None,
         t_search = None\<rparr>"
  let ?pc = "\<lparr>c_page = Some 3, c_pageSize = Some 20, c_sortBy = None, c_sortOrder = None,
         c_status = None, c_categoryId = None, c_search = None\<rparr>"
  let ?pu = "\<lparr>u_page = Some 3, u_pageSize = Some 20, u_sortBy = None, u_sortOrder = None,
         u_userType = None, u_isActive = None, u_search = None\<rparr>"
  let ?st = "\<lparr>answers = [ok (DRows []) (Some 41)], sent = []\<rparr>"
  let ?r = "\<lparr>r_data = DRows [], r_error = None, r_count = Some 41\<rparr>"
  have h1: "(1::int) \<le> 3" and h2: "(1::int) \<le> 20" by simp_all
  have b: "b_page ?pb = Some 3" "b_pageSize ?pb = Some 20" by simp_all
  have s: "s_page ?ps = Some 3" "s_pageSize ?ps = Some 20" by simp_all
  have t: "t_page ?pt = Some 3" "t_pageSize ?pt = Some 20" by simp_all
  have c: "c_page ?pc = Some 3" "c_pageSize ?pc = Some 20" by simp_all
  have u: "u_page ?pu = Some 3" "u_pageSize ?pu = Some 20" by simp_all
  note t = list_operations_paginate_alike[OF h1 h2 b s t c u, of "[]" scripted]
  have run: "scripted (Rest (getBusinessesQuery ?pb)) ?st
      = (Resolved ?r, \<lparr>answers = [], sent = [Rest (getBusinessesQuery ?pb)]\<rparr>)"
    by (simp add: scripted_def ok_def)
  from t have range: "rowRange (getBusinessesQuery ?pb) = Some ((3 - 1) * 20, (3 - 1) * 20 + 20 - 1)"
    by simp
  have e: "r_error ?r = None" by simp
  note resp = t[THEN conjunct2, THEN conjunct2, THEN conjunct1, rule_format,
      OF conjI[OF run e]]
  have "map_option pr_totalPages (payload (fst (getBusinesses scripted ?pb ?st)))
      = Some (Some \<lceil>real_of_int 41 / real_of_int 20\<rceil>)"
    unfolding resp by (simp add: orZero_def)
  moreover have "\<lceil>real_of_int 41 / real_of_int 20\<rceil> = (3::int)"
    by (simp add: ceiling_divide_eq_div)
  ultimately show ?thesis using range by simp
qed

subsection \<open>Stats\<close>

lemma counting_scripted:
  "counting scripted t fs k \<lparr>answers = as, sent = xs\<rparr>
     = (case as of
          [] \<Rightarrow> (Inl (ErrorInstance ''Failed to fetch''),
                 \<lparr>answers = [], sent = xs @ [Rest (countQuery t fs)]\<rparr>)
        | Rejected err # as' \<Rightarrow>
            (Inl err, \<lparr>answers = as', sent = xs @ [Rest (countQuery t fs)]\<rparr>)
        | Resolved r # as' \<Rightarrow>
            (case r_error r of
               Some e \<Rightarrow> (Inr \<lparr>payload = None, error = Some (fromStoreError e)\<rparr>,
                          \<lparr>answers = as', sent = xs @ [Rest (countQuery t fs)]\<rparr>)
             | None \<Rightarrow> k (r_count r) \<lparr>answers = as', sent = xs @ [Rest (countQuery t fs)]\<rparr>))"
  by (simp add: counting_def await_def scripted_def returnA_def
      split: list.splits settled.splits option.splits)

lemma five: "(5::nat) = Suc (Suc (Suc (Suc (Suc 0))))" by simp

lemma six: "(6::nat) = Suc (Suc (Suc (Suc (Suc (Suc 0)))))" by simp

lemma getBusinessStats_tally:
  "getBusinessStats scripted \<lparr>answers = as, sent = []\<rparr>
     = (statsOf [''total'', ''active'', ''pending'', ''suspended'', ''rejected'']
          (tally ''Failed to fetch business stats'' as 5),
        afterAsking
          (statusCounts ''businesses'' [''active'', ''pending'', ''suspended'', ''rejected''])
          as 5)"
  unfolding getBusinessStats_def five
  by (simp add: tryCatch_def counting_scripted statsOf_def afterAsking_def statusCounts_def
      isFailure_def returnA_def failed_def
      split: list.splits settled.splits option.splits)

lemma getServiceStats_tally:
  "getServiceStats scripted \<lparr>answers = as, sent = []\<rparr>
     = (statsOf [''total'', ''active'', ''pending'', ''suspended'', ''rejected'', ''requestDeletion'']
          (tally ''Failed to fetch service stats'' as 6),
        afterAsking
          (statusCounts ''services'' [''active'', ''pending'', ''suspended'', ''rejected'', ''requestDeletion''])
          as 6)"
  unfolding getServiceStats_def six
  by (simp add: tryCatch_def counting_scripted statsOf_def afterAsking_def statusCounts_def
      isFailure_def returnA_def failed_def
      split: list.splits settled.splits option.splits)

lemma getCompanyStats_tally:
  "getCompanyStats scripted \<lparr>answers = as, sent = []\<rparr>
     = (statsOf [''total'', ''pending'', ''approved'', ''rejected'', ''suspended'']
          (tally ''Failed to fetch company stats'' as 5),
        afterAsking
          (statusCounts ''companies'' [''pending'', ''approved'', ''rejected'', ''suspended''])
          as 5)"
  unfolding getCompanyStats_def five
  by (simp add: tryCatch_def counting_scripted statsOf_def afterAsking_def statusCounts_def
      isFailure_def returnA_def failed_def
      split: list.splits settled.splits option.splits)

lemma getUserStats_tally:
  "getUserStats scripted \<lparr>answers = as, sent = []\<rparr>
     = (statsOf [''total'', ''active'', ''inactive'', ''customers'', ''providers'', ''admins'']
          (withInactive (tally ''Failed to fetch user stats'' as 5)),
        afterAsking userCounts as 5)"
  unfolding getUserStats_def five
  by (simp add: tryCatch_def counting_scripted statsOf_def withInactive_def afterAsking_def userCounts_def
      isFailure_def returnA_def failed_def
      split: list.splits settled.splits option.splits)

lemma getTransactionStats_tally:
  "getTransactionStats scripted \<lparr>answers = as, sent = []\<rparr>
     = (case tally ''Failed to fetch transaction stats'' as 5 of
          Inl e \<Rightarrow>
            (\<lparr>payload = None, error = Some e\<rparr>,
             afterAsking
               (statusCounts ''payments'' [''pending'', ''completed'', ''failed'', ''refunded''])
               as 5)
        | Inr cs \<Rightarrow>
            (withRevenue ''Failed to fetch transaction stats'' cs (drop 5 as),
             \<lparr>answers = drop 6 as,
              sent = statusCounts ''payments'' [''pending'', ''completed'', ''failed'', ''refunded'']
                     @ [revenueQuery]\<rparr>))"
  unfolding getTransactionStats_def five
  by (simp add: tryCatch_def counting_scripted afterAsking_def statusCounts_def withRevenue_def
      revenueQuery_def isFailure_def returnA_def throwA_def failed_def await_def scripted_def six
      split: list.splits settled.splits option.splits sum.splits)


text \<open>
  C8 (as amended): each stats operation sends a fixed sequence of count queries, one for
  the total and one for each filter of a fixed list, stops at the first query that fails
  and then returns null stats with that query's error, and otherwise returns the counts
  with 0 for an absent count. The filters are: for businesses the statuses active, pending,
  suspended, rejected; for services these and requestDeletion; for companies pending,
  approved, rejected, suspended; for transactions pending, completed, failed, refunded,
  followed by a query for the amounts of the completed payments, summed into
  \<open>totalRevenue\<close>; for users \<open>is_active\<close> and the three user types, with \<open>inactive\<close> the
  difference of the first two counts.
\<close>

theorem stats_by_count_queries:
  "getBusinessStats scripted \<lparr>answers = as, sent = []\<rparr>
     = (statsOf [''total'', ''active'', ''pending'', ''suspended'', ''rejected'']
          (tally ''Failed to fetch business stats'' as 5),
        afterAsking
          (statusCounts ''businesses'' [''active'', ''pending'', ''suspended'', ''rejected''])
          as 5)
   \<and> getServiceStats scripted \<lparr>answers = as, sent = []\<rparr>
     = (statsOf [''total'', ''active'', ''pending'', ''suspended'', ''rejected'',
                 ''requestDeletion'']
          (tally ''Failed to fetch service stats'' as 6),
        afterAsking
          (statusCounts ''services''
             [''active'', ''pending'', ''suspended'', ''rejected'', ''requestDeletion''])
          as 6)
   \<and> getCompanyStats scripted \<lparr>answers = as, sent = []\<rparr>
     = (statsOf [''total'', ''pending'', ''approved'', ''rejected'', ''suspended'']
          (tally ''Failed to fetch company stats'' as 5),
        afterAsking
          (statusCounts ''companies'' [''pending'', ''approved'', ''rejected'', ''suspended''])
          as 5)
   \<and> getUserStats scripted \<lparr>answers = as, sent = []\<rparr>
     = (statsOf [''total'', ''active'', ''inactive'', ''customers'', ''providers'', ''admins'']
          (withInactive (tally ''Failed to fetch user stats'' as 5)),
        afterAsking userCounts as 5)
   \<and> getTransactionStats scripted \<lparr>answers = as, sent = []\<rparr>
     = (case tally ''Failed to fetch transaction stats'' as 5 of
          Inl e \<Rightarrow>
            (\<lparr>payload = None, error = Some e\<rparr>,
             afterAsking
               (statusCounts ''payments'' [''pending'', ''completed'', ''failed'', ''refunded''])
               as 5)
        | Inr cs \<Rightarrow>
            (withRevenue ''Failed to fetch transaction stats'' cs (drop 5 as),
             \<lparr>answers = drop 6 as,
              sent = statusCounts ''payments'' [''pending'', ''completed'', ''failed'', ''refunded'']
                     @ [revenueQuery]\<rparr>))"
  using getBusinessStats_tally[of as] getServiceStats_tally[of as] getCompanyStats_tally[of as]
    getUserStats_tally[of as] getTransactionStats_tally[of as]
  by (intro conjI)

theorem stats_by_count_queries_witness:
  "getBusinessStats scripted
     \<lparr>answers = [ok DNull (Some 7), ok DNull None, refused ''timeout'' ''57014'',
                 ok DNull (Some 1)],
      sent = []\<rparr>
   = (\<lparr>payload = None,
       error = Some \<lparr>message = ''timeout'', code = Some ''57014'', status = None\<rparr>\<rparr>,
      \<lparr>answers = [ok DNull (Some 1)],
       sent = [Rest (countQuery ''businesses'' []),
               Rest (countQuery ''businesses'' [Eq ''status'' (JStr ''active'')]),
               Rest (countQuery ''businesses'' [Eq ''status'' (JStr ''pending'')])]\<rparr>)"
proof -
  let ?as = "[ok DNull (Some 7), ok DNull None, refused ''timeout'' ''57014'', ok DNull (Some 1)]"
  have t: "tally ''Failed to fetch business stats'' ?as 5
      = Inl \<lparr>message = ''timeout'', code = Some ''57014'', status = None\<rparr>"
    by (simp add: five ok_def refused_def fromStoreError_def)
  have a: "asked ?as 5 = 3"
    by (simp add: five ok_def refused_def isFailure_def)
  show ?thesis
    using stats_by_count_queries[of ?as, THEN conjunct1]
    by (simp add: t a statsOf_def afterAsking_def statusCounts_def)
qed

text \<open>
  The claim as first stated asks for one count query per status of the entity's status
  type. \<open>'removed'\<close> and \<open>'deleted'\<close> are business statuses; when all five queries of the
  business stats succeed, none of them counts either status and the stats have no entry
  for them.
\<close>

theorem business_stats_skip_removed:
  "''removed'' \<in> set BusinessStatus
   \<and> getBusinessStats scripted \<lparr>answers = fiveCounts, sent = []\<rparr>
     = (\<lparr>payload = Some [(''total'', 9), (''active'', 4), (''pending'', 2), (''suspended'', 1),
                         (''rejected'', 1)],
         error = None\<rparr>,
        \<lparr>answers = [],
         sent = statusCounts ''businesses'' [''active'', ''pending'', ''suspended'', ''rejected'']\<rparr>)
   \<and> Rest (countQuery ''businesses'' [Eq ''status'' (JStr ''removed'')])
       \<notin> set (statusCounts ''businesses'' [''active'', ''pending'', ''suspended'', ''rejected''])"
proof -
  have 1: "''removed'' \<in> set BusinessStatus" by (simp add: BusinessStatus_def)
  have 2: "getBusinessStats scripted \<lparr>answers = fiveCounts, sent = []\<rparr>
     = (\<lparr>payload = Some [(''total'', 9), (''active'', 4), (''pending'', 2), (''suspended'', 1),
                         (''rejected'', 1)],
         error = None\<rparr>,
        \<lparr>answers = [],
         sent = statusCounts ''businesses'' [''active'', ''pending'', ''suspended'', ''rejected'']\<rparr>)"
  proof -
    have t: "tally ''Failed to fetch business stats'' fiveCounts 5 = Inr [9, 4, 2, 1, 1]"
      by (simp add: five fiveCounts_def ok_def orZero_def)
    have a: "asked fiveCounts 5 = 5"
      by (simp add: five fiveCounts_def ok_def isFailure_def)
    have d: "drop 5 fiveCounts = []" by (simp add: fiveCounts_def)
    show ?thesis
      unfolding getBusinessStats_tally
      by (simp add: t a d statsOf_def afterAsking_def statusCounts_def)
  qed
  have 3: "Rest (countQuery ''businesses'' [Eq ''status'' (JStr ''removed'')])
       \<notin> set (statusCounts ''businesses'' [''active'', ''pending'', ''suspended'', ''rejected''])"
    by (simp add: statusCounts_def countQuery_def chain_def addFilter_def selectCount_def
        fromTable_def)
  from 1 2 3 show ?thesis by blast
qed

subsection \<open>Results of the data-access layer\<close>























lemma exactlyOne_notBoth: "exactlyOne r \<Longrightarrow> notBoth r"
  by (auto simp: exactlyOne_def notBoth_def)

lemma observe_notBoth:
  "notBoth (fst x) \<Longrightarrow>
   (reported (fst (observe x)) \<noteq> None \<longrightarrow> payloadPresent (fst (observe x)) \<noteq> Some True)
   \<and> payloadPresent (fst (observe x)) \<noteq> None"
  by (auto simp: observe_def notBoth_def)

lemma observe_exactlyOne:
  "exactlyOne (fst x) \<Longrightarrow>
   (payloadPresent (fst (observe x)) = Some True) \<noteq> (reported (fst (observe x)) \<noteq> None)"
  by (auto simp: observe_def exactlyOne_def)

lemma observeDelete_shape:
  "payloadPresent (fst (observeDelete x)) = None"
  by (simp add: observeDelete_def)




























subsection \<open>Status updates on stored rows\<close>

lemma outside_update:
  "k \<in> set cols \<Longrightarrow> outside cols (AList.update k v r) = outside cols r"
  by (induction r) (auto simp: outside_def)

lemma outside_assign:
  "set (map fst p) \<subseteq> set cols \<Longrightarrow> outside cols (assign r p) = outside cols r"
  by (induction r p rule: assign.induct) (auto simp: outside_update)

lemma onlyChanged_refl: "onlyChanged cols i rows rows"
  by (simp add: onlyChanged_def list_all2_same)

lemma onlyChanged_map:
  assumes "\<And>r. r \<in> set rows \<Longrightarrow> map_of r ''id'' \<noteq> Some i \<Longrightarrow> f r = r"
    and "\<And>r. r \<in> set rows \<Longrightarrow> outside cols (f r) = outside cols r"
  shows "onlyChanged cols i rows (map f rows)"
  unfolding onlyChanged_def list_all2_map2
  by (rule list_all2_same[THEN iffD2]) (auto simp: assms)

lemma tableRows_update_same: "tableRows (AList.update t rs d) t = rs"
  by (simp add: tableRows_def update_conv')

lemma tableRows_update_other: "t' \<noteq> t \<Longrightarrow> tableRows (AList.update t rs d) t' = tableRows d t'"
  by (simp add: tableRows_def update_conv')

lemma updateById_fields:
  "table (updateById t p i cols) = t" "verb (updateById t p i cols) = Update p"
  "filters (updateById t p i cols) = [Eq ''id'' (JStr i)]"
  "supported (updateById t p i cols)" "singleRow (updateById t p i cols)"
  "columns (updateById t p i cols) = Some cols"
  by (simp_all add: updateById_def chain_def fromTable_def updateRows_def addFilter_def
      select_def single_def supported_def)

lemma matches_updateById:
  "matches (updateById t p i cols) r = (map_of r ''id'' = Some (JStr i))"
  by (simp add: matches_def updateById_fields)

lemma matches_targets: "matches (updateById t p i cols) = targets i"
  by (rule ext) (simp add: matches_updateById targets_def)

text \<open>What an update by id leaves alone on the memory store.\<close>

lemma memory_update_frame:
  assumes "set (map fst p) \<subseteq> set changed"
  shows "onlyChanged changed (JStr i) (tableRows d t)
           (tableRows (snd (memoryQuery (updateById t p i cols) d)) t)
         \<and> (\<forall>t'. t' \<noteq> t \<longrightarrow>
               tableRows (snd (memoryQuery (updateById t p i cols) d)) t' = tableRows d t')"
proof -
  let ?q = "updateById t p i cols"
  let ?rows' = "map (\<lambda>r. if matches ?q r then assign r p else r) (tableRows d t)"
  have cases: "snd (memoryQuery ?q d) = d \<or> snd (memoryQuery ?q d) = AList.update t ?rows' d"
    by (simp add: memoryQuery_def writeRows_def updateById_fields Let_def)
  have oc: "onlyChanged changed (JStr i) (tableRows d t) ?rows'"
    by (rule onlyChanged_map) (auto simp: matches_updateById outside_assign[OF assms])
  from cases show ?thesis
  proof
    assume "snd (memoryQuery ?q d) = d"
    then show ?thesis by (simp add: onlyChanged_refl)
  next
    assume "snd (memoryQuery ?q d) = AList.update t ?rows' d"
    then show ?thesis using oc by (simp add: tableRows_update_same tableRows_update_other)
  qed
qed

text \<open>What it writes, when exactly one row has the id.\<close>

lemma memory_update_effect:
  assumes "t \<noteq> ''legal_pages''" "filter (targets i) (tableRows d t) = [r]"
  shows "memoryQuery (updateById t p i cols) d
     = (ok (DRow (project (Some cols) (assign r p))) None,
        AList.update t (map (\<lambda>x. if targets i x then assign r p else x) (tableRows d t)) d)"
proof -
  have only: "x = r" if "x \<in> set (tableRows d t)" "targets i x" for x
  proof -
    from that have "x \<in> set (filter (targets i) (tableRows d t))" by simp
    then show ?thesis unfolding assms(2) by simp
  qed
  have rows': "map (\<lambda>x. if targets i x then assign x p else x) (tableRows d t)
      = map (\<lambda>x. if targets i x then assign r p else x) (tableRows d t)"
    by (rule map_cong) (auto dest: only)
  show ?thesis
    by (simp add: memoryQuery_def Let_def updateById_fields matches_targets writeRows_def
        assms violatesUnique_def answerRows_def rows')
qed

lemma status_update_effect:
  assumes "t \<noteq> ''legal_pages''" "filter (targets i) (tableRows d t) = [r]"
  shows "tryCatch (await memory (Rest (updateById t p i cols)) (\<lambda>r. returnA (dataResult r))) h d
     = (\<lparr>payload = Some (DRow (project (Some cols) (assign r p))), error = None\<rparr>,
        AList.update t (map (\<lambda>x. if targets i x then assign r p else x) (tableRows d t)) d)"
  by (simp add: tryCatch_await_return memory_update_effect[OF assms] ok_def dataResult_def
      nullable_def)

lemma snd_tryCatch_await:
  "snd (tryCatch (await memory (Rest q) (\<lambda>r. returnA (f r))) h d) = snd (memoryQuery q d)"
  by (simp add: tryCatch_def await_def returnA_def split: prod.splits settled.splits)

lemma updateBusinessStatus_store:
  "snd (updateBusinessStatus memory i st now d)
     = snd (memoryQuery (updateById ''businesses'' (updateBusinessStatusPayload st now) i
                           businessColumns) d)"
  unfolding updateBusinessStatus_def updateById_def by (rule snd_tryCatch_await)

lemma updateServiceStatus_store:
  "snd (updateServiceStatus memory i st now d)
     = snd (memoryQuery (updateById ''services'' (updateServiceStatusPayload st now) i
                           serviceColumns) d)"
  unfolding updateServiceStatus_def updateById_def by (rule snd_tryCatch_await)

lemma updateCompanyStatus_store:
  "snd (updateCompanyStatus memory i st now now2 d)
     = snd (memoryQuery (updateById ''companies'' (updateCompanyStatusPayload st now now2) i
                           companyColumns) d)"
  unfolding updateCompanyStatus_def updateById_def by (rule snd_tryCatch_await)

lemma business_columns:
  "map fst (updateBusinessStatusPayload st now) = [''status'', ''updated_at'']"
  by (simp add: updateBusinessStatusPayload_def)

lemma service_columns:
  "map fst (updateServiceStatusPayload st now) = [''status'', ''updated_at''] @ serviceExtraColumns st"
  by (simp add: updateServiceStatusPayload_def serviceExtraColumns_def)

lemma company_columns:
  "set (map fst (updateCompanyStatusPayload st now now2))
     \<subseteq> set ([''status'', ''updated_at''] @ companyExtraColumns st)"
  by (simp add: updateCompanyStatusPayload_def companyExtraColumns_def Let_def)

text \<open>The values the payloads carry.\<close>

lemma business_values:
  "map_of (assign r (updateBusinessStatusPayload st now)) ''status'' = Some (JStr st)"
  "map_of (assign r (updateBusinessStatusPayload st now)) ''updated_at'' = Some (JStr now)"
  by (simp_all add: updateBusinessStatusPayload_def update_conv')

lemma service_values:
  "map_of (assign r (updateServiceStatusPayload st now)) ''status'' = Some (JStr st)"
  "map_of (assign r (updateServiceStatusPayload st now)) ''updated_at'' = Some (JStr now)"
  "st = ''active'' \<Longrightarrow>
     map_of (assign r (updateServiceStatusPayload st now)) ''is_active'' = Some (JBool True)"
  "st = ''suspended'' \<or> st = ''rejected'' \<or> st = ''deleted'' \<Longrightarrow>
     map_of (assign r (updateServiceStatusPayload st now)) ''is_active'' = Some (JBool False)"
  by (auto simp: updateServiceStatusPayload_def update_conv')

lemma company_values:
  "map_of (assign r (updateCompanyStatusPayload st now now2)) ''status'' = Some (JStr st)"
  "map_of (assign r (updateCompanyStatusPayload st now now2)) ''updated_at'' = Some (JStr now)"
  "st = ''approved'' \<Longrightarrow>
     map_of (assign r (updateCompanyStatusPayload st now now2)) ''approved_at'' = Some (JStr now2)
     \<and> map_of (assign r (updateCompanyStatusPayload st now now2)) ''is_verified''
         = Some (JBool True)"
  "st = ''rejected'' \<or> st = ''suspended'' \<Longrightarrow>
     map_of (assign r (updateCompanyStatusPayload st now now2)) ''is_verified''
       = Some (JBool False)"
  by (auto simp: updateCompanyStatusPayload_def update_conv' Let_def)

text \<open>The request of each status update, whatever the store answers.\<close>

lemma updateBusinessStatus_sent:
  "sent (snd (updateBusinessStatus scripted i st now \<lparr>answers = as, sent = []\<rparr>))
     = [Rest (updateById ''businesses'' [(''status'', JStr st), (''updated_at'', JStr now)] i
                businessColumns)]"
  unfolding updateBusinessStatus_def updateById_def updateBusinessStatusPayload_def
  by (rule scripted_sent_one)

lemma updateServiceStatus_sent:
  "sent (snd (updateServiceStatus scripted i st now \<lparr>answers = as, sent = []\<rparr>))
     = [Rest (updateById ''services''
                ([(''status'', JStr st), (''updated_at'', JStr now)]
                 @ (if st = ''active'' then [(''is_active'', JBool True)]
                    else if st = ''suspended'' \<or> st = ''rejected'' \<or> st = ''deleted''
                    then [(''is_active'', JBool False)] else []))
                i serviceColumns)]"
  unfolding updateServiceStatus_def updateById_def updateServiceStatusPayload_def
  by (rule scripted_sent_one)

lemma updateCompanyStatus_sent:
  "sent (snd (updateCompanyStatus scripted i st now now2 \<lparr>answers = as, sent = []\<rparr>))
     = [Rest (updateById ''companies'' (updateCompanyStatusPayload st now now2) i
                companyColumns)]"
  unfolding updateCompanyStatus_def updateById_def by (rule scripted_sent_one)

lemma business_effect:
  assumes "filter (targets i) (tableRows d ''businesses'') = [r]"
  shows "\<exists>r'. updateBusinessStatus memory i st now d
           = (\<lparr>payload = Some (DRow (project (Some businessColumns) r')), error = None\<rparr>,
              AList.update ''businesses''
                (map (\<lambda>x. if targets i x then r' else x) (tableRows d ''businesses'')) d)
         \<and> map_of r' ''status'' = Some (JStr st)
         \<and> map_of r' ''updated_at'' = Some (JStr now)
         \<and> outside [''status'', ''updated_at''] r' = outside [''status'', ''updated_at''] r"
proof -
  let ?p = "updateBusinessStatusPayload st now"
  have e: "updateBusinessStatus memory i st now d
      = (\<lparr>payload = Some (DRow (project (Some businessColumns) (assign r ?p))), error = None\<rparr>,
         AList.update ''businesses''
           (map (\<lambda>x. if targets i x then assign r ?p else x) (tableRows d ''businesses'')) d)"
    unfolding updateBusinessStatus_def updateById_def[symmetric]
    by (rule status_update_effect[OF _ assms]) simp
  have o: "outside [''status'', ''updated_at''] (assign r ?p)
      = outside [''status'', ''updated_at''] r"
    by (rule outside_assign) (simp add: business_columns)
  from e o business_values[of r st now] show ?thesis by blast
qed

lemma service_effect:
  assumes "filter (targets i) (tableRows d ''services'') = [r]"
  shows "\<exists>r'. updateServiceStatus memory i st now d
           = (\<lparr>payload = Some (DRow (project (Some serviceColumns) r')), error = None\<rparr>,
              AList.update ''services''
                (map (\<lambda>x. if targets i x then r' else x) (tableRows d ''services'')) d)
         \<and> map_of r' ''status'' = Some (JStr st)
         \<and> map_of r' ''updated_at'' = Some (JStr now)
         \<and> (st = ''active'' \<longrightarrow> map_of r' ''is_active'' = Some (JBool True))
         \<and> (st = ''suspended'' \<or> st = ''rejected'' \<or> st = ''deleted'' \<longrightarrow>
               map_of r' ''is_active'' = Some (JBool False))
         \<and> outside ([''status'', ''updated_at''] @ serviceExtraColumns st) r'
             = outside ([''status'', ''updated_at''] @ serviceExtraColumns st) r"
proof -
  let ?p = "updateServiceStatusPayload st now"
  have e: "updateServiceStatus memory i st now d
      = (\<lparr>payload = Some (DRow (project (Some serviceColumns) (assign r ?p))), error = None\<rparr>,
         AList.update ''services''
           (map (\<lambda>x. if targets i x then assign r ?p else x) (tableRows d ''services'')) d)"
    unfolding updateServiceStatus_def updateById_def[symmetric]
    by (rule status_update_effect[OF _ assms]) simp
  have o: "outside ([''status'', ''updated_at''] @ serviceExtraColumns st) (assign r ?p)
      = outside ([''status'', ''updated_at''] @ serviceExtraColumns st) r"
    by (rule outside_assign) (simp add: service_columns)
  from e o service_values[where r=r and st=st and now=now] show ?thesis by blast
qed

lemma company_effect:
  assumes "filter (targets i) (tableRows d ''companies'') = [r]"
  shows "\<exists>r'. updateCompanyStatus memory i st now now2 d
           = (\<lparr>payload = Some (DRow (project (Some companyColumns) r')), error = None\<rparr>,
              AList.update ''companies''
                (map (\<lambda>x. if targets i x then r' else x) (tableRows d ''companies'')) d)
         \<and> map_of r' ''status'' = Some (JStr st)
         \<and> map_of r' ''updated_at'' = Some (JStr now)
         \<and> (st = ''approved'' \<longrightarrow>
               map_of r' ''approved_at'' = Some (JStr now2)
               \<and> map_of r' ''is_verified'' = Some (JBool True))
         \<and> (st = ''rejected'' \<or> st = ''suspended'' \<longrightarrow>
               map_of r' ''is_verified'' = Some (JBool False))
         \<and> outside ([''status'', ''updated_at''] @ companyExtraColumns st) r'
             = outside ([''status'', ''updated_at''] @ companyExtraColumns st) r"
proof -
  let ?p = "updateCompanyStatusPayload st now now2"
  have e: "updateCompanyStatus memory i st now now2 d
      = (\<lparr>payload = Some (DRow (project (Some companyColumns) (assign r ?p))), error = None\<rparr>,
         AList.update ''companies''
           (map (\<lambda>x. if targets i x then assign r ?p else x) (tableRows d ''companies'')) d)"
    unfolding updateCompanyStatus_def updateById_def[symmetric]
    by (rule status_update_effect[OF _ assms]) simp
  have o: "outside ([''status'', ''updated_at''] @ companyExtraColumns st) (assign r ?p)
      = outside ([''status'', ''updated_at''] @ companyExtraColumns st) r"
    by (rule outside_assign) (rule company_columns)
  from e o company_values[where r=r and st=st and now=now and ?now2.0=now2] show ?thesis by blast
qed

lemma business_frame:
  "onlyChanged [''status'', ''updated_at''] (JStr i) (tableRows d ''businesses'')
         (tableRows (snd (updateBusinessStatus memory i st now d)) ''businesses'')
   \<and> (\<forall>t. t \<noteq> ''businesses'' \<longrightarrow>
          tableRows (snd (updateBusinessStatus memory i st now d)) t = tableRows d t)"
  unfolding updateBusinessStatus_store
  by (rule memory_update_frame) (simp add: business_columns)

lemma service_frame:
  "onlyChanged ([''status'', ''updated_at''] @ serviceExtraColumns st) (JStr i)
         (tableRows d ''services'')
         (tableRows (snd (updateServiceStatus memory i st now d)) ''services'')
   \<and> (\<forall>t. t \<noteq> ''services'' \<longrightarrow>
          tableRows (snd (updateServiceStatus memory i st now d)) t = tableRows d t)"
  unfolding updateServiceStatus_store
  by (rule memory_update_frame) (simp add: service_columns)

lemma company_frame:
  "onlyChanged ([''status'', ''updated_at''] @ companyExtraColumns st) (JStr i)
         (tableRows d ''companies'')
         (tableRows (snd (updateCompanyStatus memory i st now now2 d)) ''companies'')
   \<and> (\<forall>t. t \<noteq> ''companies'' \<longrightarrow>
          tableRows (snd (updateCompanyStatus memory i st now now2 d)) t = tableRows d t)"
  unfolding updateCompanyStatus_store
  by (rule memory_update_frame) (rule company_columns)

lemma company_request:
  "\<exists>p. sent (snd (updateCompanyStatus scripted i st now now2 \<lparr>answers = as, sent = []\<rparr>))
          = [Rest (updateById ''companies'' p i companyColumns)]
       \<and> set (map fst p) \<subseteq> set ([''status'', ''updated_at''] @ companyExtraColumns st)
       \<and> map_of p ''status'' = Some (JStr st)
       \<and> map_of p ''updated_at'' = Some (JStr now)
       \<and> (st = ''approved'' \<longrightarrow>
             p = [(''status'', JStr st), (''updated_at'', JStr now),
                  (''approved_at'', JStr now2), (''is_verified'', JBool True)])
       \<and> (st = ''rejected'' \<or> st = ''suspended'' \<longrightarrow>
             map_of p ''is_verified'' = Some (JBool False))
       \<and> (st \<noteq> ''approved'' \<and> st \<noteq> ''rejected'' \<and> st \<noteq> ''suspended'' \<longrightarrow>
             p = [(''status'', JStr st), (''updated_at'', JStr now)])"
proof -
  let ?p = "updateCompanyStatusPayload st now now2"
  have "map_of ?p ''status'' = Some (JStr st)" "map_of ?p ''updated_at'' = Some (JStr now)"
    "st = ''approved'' \<longrightarrow>
       ?p = [(''status'', JStr st), (''updated_at'', JStr now),
             (''approved_at'', JStr now2), (''is_verified'', JBool True)]"
    "st = ''rejected'' \<or> st = ''suspended'' \<longrightarrow> map_of ?p ''is_verified'' = Some (JBool False)"
    "st \<noteq> ''approved'' \<and> st \<noteq> ''rejected'' \<and> st \<noteq> ''suspended'' \<longrightarrow>
       ?p = [(''status'', JStr st), (''updated_at'', JStr now)]"
    by (auto simp: updateCompanyStatusPayload_def Let_def)
  with updateCompanyStatus_sent[of i st now now2 as] company_columns[of st now now2]
  show ?thesis by blast
qed

text \<open>
  C2 (as amended): a status update sends one request, an update of the rows with the given
  id, and writes more than the status. \<open>updateBusinessStatus\<close> sends \<open>status\<close> and
  \<open>updated_at\<close>; \<open>updateServiceStatus\<close> sends \<open>is_active\<close> as well, true for active and false
  for suspended, rejected or deleted; \<open>updateCompanyStatus\<close> sends \<open>approved_at\<close> and
  \<open>is_verified = true\<close> as well for approved, \<open>is_verified = false\<close> for rejected or
  suspended, and no column other than \<open>status\<close>, \<open>updated_at\<close>, \<open>approved_at\<close> and
  \<open>is_verified\<close>. On the store kept in memory, the rows of the table stay in place, a row
  with the given id is unchanged outside the columns named for its entity, and every other
  row and table is unchanged. When exactly one row has the id, the update succeeds, returns
  that row, and the stored row carries the new status, the time in \<open>updated_at\<close> and the
  values above. What a rejected or suspended company's \<open>approved_at\<close> becomes is not part of
  the statement.
\<close>

theorem status_updates_write_few_columns:
  "sent (snd (updateBusinessStatus scripted i st now \<lparr>answers = as, sent = []\<rparr>))
     = [Rest (updateById ''businesses'' [(''status'', JStr st), (''updated_at'', JStr now)] i
                businessColumns)]
   \<and> (onlyChanged [''status'', ''updated_at''] (JStr i) (tableRows d ''businesses'')
         (tableRows (snd (updateBusinessStatus memory i st now d)) ''businesses'')
       \<and> (\<forall>t. t \<noteq> ''businesses'' \<longrightarrow>
             tableRows (snd (updateBusinessStatus memory i st now d)) t = tableRows d t))
   \<and> (filter (targets i) (tableRows d ''businesses'') = [rb] \<longrightarrow>
         (\<exists>r'. updateBusinessStatus memory i st now d
                 = (\<lparr>payload = Some (DRow (project (Some businessColumns) r')), error = None\<rparr>,
                    AList.update ''businesses''
                      (map (\<lambda>x. if targets i x then r' else x) (tableRows d ''businesses'')) d)
              \<and> map_of r' ''status'' = Some (JStr st)
              \<and> map_of r' ''updated_at'' = Some (JStr now)
              \<and> outside [''status'', ''updated_at''] r'
                  = outside [''status'', ''updated_at''] rb))
   \<and> sent (snd (updateServiceStatus scripted i st now \<lparr>answers = as, sent = []\<rparr>))
       = [Rest (updateById ''services''
                  ([(''status'', JStr st), (''updated_at'', JStr now)]
                   @ (if st = ''active'' then [(''is_active'', JBool True)]
                      else if st = ''suspended'' \<or> st = ''rejected'' \<or> st = ''deleted''
                      then [(''is_active'', JBool False)] else []))
                  i serviceColumns)]
   \<and> (onlyChanged ([''status'', ''updated_at''] @ serviceExtraColumns st) (JStr i)
         (tableRows d ''services'')
         (tableRows (snd (updateServiceStatus memory i st now d)) ''services'')
       \<and> (\<forall>t. t \<noteq> ''services'' \<longrightarrow>
             tableRows (snd (updateServiceStatus memory i st now d)) t = tableRows d t))
   \<and> (filter (targets i) (tableRows d ''services'') = [rs] \<longrightarrow>
         (\<exists>r'. updateServiceStatus memory i st now d
                 = (\<lparr>payload = Some (DRow (project (Some serviceColumns) r')), error = None\<rparr>,
                    AList.update ''services''
                      (map (\<lambda>x. if targets i x then r' else x) (tableRows d ''services'')) d)
              \<and> map_of r' ''status'' = Some (JStr st)
              \<and> map_of r' ''updated_at'' = Some (JStr now)
              \<and> (st = ''active'' \<longrightarrow> map_of r' ''is_active'' = Some (JBool True))
              \<and> (st = ''suspended'' \<or> st = ''rejected'' \<or> st = ''deleted'' \<longrightarrow>
                    map_of r' ''is_active'' = Some (JBool False))
              \<and> outside ([''status'', ''updated_at''] @ serviceExtraColumns st) r'
                  = outside ([''status'', ''updated_at''] @ serviceExtraColumns st) rs))
   \<and> (\<exists>p. sent (snd (updateCompanyStatus scripted i st now now2 \<lparr>answers = as, sent = []\<rparr>))
             = [Rest (updateById ''companies'' p i companyColumns)]
          \<and> set (map fst p) \<subseteq> set ([''status'', ''updated_at''] @ companyExtraColumns st)
          \<and> map_of p ''status'' = Some (JStr st)
          \<and> map_of p ''updated_at'' = Some (JStr now)
          \<and> (st = ''approved'' \<longrightarrow>
                p = [(''status'', JStr st), (''updated_at'', JStr now),
                     (''approved_at'', JStr now2), (''is_verified'', JBool True)])
          \<and> (st = ''rejected'' \<or> st = ''suspended'' \<longrightarrow>
                map_of p ''is_verified'' = Some (JBool False))
          \<and> (st \<noteq> ''approved'' \<and> st \<noteq> ''rejected'' \<and> st \<noteq> ''suspended'' \<longrightarrow>
                p = [(''status'', JStr st), (''updated_at'', JStr now)]))
   \<and> (onlyChanged ([''status'', ''updated_at''] @ companyExtraColumns st) (JStr i)
         (tableRows d ''companies'')
         (tableRows (snd (updateCompanyStatus memory i st now now2 d)) ''companies'')
       \<and> (\<forall>t. t \<noteq> ''companies'' \<longrightarrow>
             tableRows (snd (updateCompanyStatus memory i st now now2 d)) t = tableRows d t))
   \<and> (filter (targets i) (tableRows d ''companies'') = [rc] \<longrightarrow>
         (\<exists>r'. updateCompanyStatus memory i st now now2 d
                 = (\<lparr>payload = Some (DRow (project (Some companyColumns) r')), error = None\<rparr>,
                    AList.update ''companies''
                      (map (\<lambda>x. if targets i x then r' else x) (tableRows d ''companies'')) d)
              \<and> map_of r' ''status'' = Some (JStr st)
              \<and> map_of r' ''updated_at'' = Some (JStr now)
              \<and> (st = ''approved'' \<longrightarrow>
                    map_of r' ''approved_at'' = Some (JStr now2)
                    \<and> map_of r' ''is_verified'' = Some (JBool True))
              \<and> (st = ''rejected'' \<or> st = ''suspended'' \<longrightarrow>
                    map_of r' ''is_verified'' = Some (JBool False))
              \<and> outside ([''status'', ''updated_at''] @ companyExtraColumns st) r'
                  = outside ([''status'', ''updated_at''] @ companyExtraColumns st) rc))"
proof (intro conjI)
  show "sent (snd (updateBusinessStatus scripted i st now \<lparr>answers = as, sent = []\<rparr>))
     = [Rest (updateById ''businesses'' [(''status'', JStr st), (''updated_at'', JStr now)] i
                businessColumns)]"
    by (rule updateBusinessStatus_sent)
  show "onlyChanged [''status'', ''updated_at''] (JStr i) (tableRows d ''businesses'')
         (tableRows (snd (updateBusinessStatus memory i st now d)) ''businesses'')"
    by (rule business_frame[THEN conjunct1])
  show "\<forall>t. t \<noteq> ''businesses'' \<longrightarrow>
             tableRows (snd (updateBusinessStatus memory i st now d)) t = tableRows d t"
    by (rule business_frame[THEN conjunct2])
  show "filter (targets i) (tableRows d ''businesses'') = [rb] \<longrightarrow>
         (\<exists>r'. updateBusinessStatus memory i st now d
                 = (\<lparr>payload = Some (DRow (project (Some businessColumns) r')), error = None\<rparr>,
                    AList.update ''businesses''
                      (map (\<lambda>x. if targets i x then r' else x) (tableRows d ''businesses'')) d)
              \<and> map_of r' ''status'' = Some (JStr st)
              \<and> map_of r' ''updated_at'' = Some (JStr now)
              \<and> outside [''status'', ''updated_at''] r'
                  = outside [''status'', ''updated_at''] rb)"
    by (rule impI) (rule business_effect)
  show "sent (snd (updateServiceStatus scripted i st now \<lparr>answers = as, sent = []\<rparr>))
       = [Rest (updateById ''services''
                  ([(''status'', JStr st), (''updated_at'', JStr now)]
                   @ (if st = ''active'' then [(''is_active'', JBool True)]
                      else if st = ''suspended'' \<or> st = ''rejected'' \<or> st = ''deleted''
                      then [(''is_active'', JBool False)] else []))
                  i serviceColumns)]"
    by (rule updateServiceStatus_sent)
  show "onlyChanged ([''status'', ''updated_at''] @ serviceExtraColumns st) (JStr i)
         (tableRows d ''services'')
         (tableRows (snd (updateServiceStatus memory i st now d)) ''services'')"
    by (rule service_frame[THEN conjunct1])
  show "\<forall>t. t \<noteq> ''services'' \<longrightarrow>
             tableRows (snd (updateServiceStatus memory i st now d)) t = tableRows d t"
    by (rule service_frame[THEN conjunct2])
  show "filter (targets i) (tableRows d ''services'') = [rs] \<longrightarrow>
         (\<exists>r'. updateServiceStatus memory i st now d
                 = (\<lparr>payload = Some (DRow (project (Some serviceColumns) r')), error = None\<rparr>,
                    AList.update ''services''
                      (map (\<lambda>x. if targets i x then r' else x) (tableRows d ''services'')) d)
              \<and> map_of r' ''status'' = Some (JStr st)
              \<and> map_of r' ''updated_at'' = Some (JStr now)
              \<and> (st = ''active'' \<longrightarrow> map_of r' ''is_active'' = Some (JBool True))
              \<and> (st = ''suspended'' \<or> st = ''rejected'' \<or> st = ''deleted'' \<longrightarrow>
                    map_of r' ''is_active'' = Some (JBool False))
              \<and> outside ([''status'', ''updated_at''] @ serviceExtraColumns st) r'
                  = outside ([''status'', ''updated_at''] @ serviceExtraColumns st) rs)"
    by (rule impI) (rule service_effect)
  show "\<exists>p. sent (snd (updateCompanyStatus scripted i st now now2 \<lparr>answers = as, sent = []\<rparr>))
             = [Rest (updateById ''companies'' p i companyColumns)]
          \<and> set (map fst p) \<subseteq> set ([''status'', ''updated_at''] @ companyExtraColumns st)
          \<and> map_of p ''status'' = Some (JStr st)
          \<and> map_of p ''updated_at'' = Some (JStr now)
          \<and> (st = ''approved'' \<longrightarrow>
                p = [(''status'', JStr st), (''updated_at'', JStr now),
                     (''approved_at'', JStr now2), (''is_verified'', JBool True)])
          \<and> (st = ''rejected'' \<or> st = ''suspended'' \<longrightarrow>
                map_of p ''is_verified'' = Some (JBool False))
          \<and> (st \<noteq> ''approved'' \<and> st \<noteq> ''rejected'' \<and> st \<noteq> ''suspended'' \<longrightarrow>
                p = [(''status'', JStr st), (''updated_at'', JStr now)])"
    by (rule company_request)
  show "onlyChanged ([''status'', ''updated_at''] @ companyExtraColumns st) (JStr i)
         (tableRows d ''companies'')
         (tableRows (snd (updateCompanyStatus memory i st now now2 d)) ''companies'')"
    by (rule company_frame[THEN conjunct1])
  show "\<forall>t. t \<noteq> ''companies'' \<longrightarrow>
             tableRows (snd (updateCompanyStatus memory i st now now2 d)) t = tableRows d t"
    by (rule company_frame[THEN conjunct2])
  show "filter (targets i) (tableRows d ''companies'') = [rc] \<longrightarrow>
         (\<exists>r'. updateCompanyStatus memory i st now now2 d
                 = (\<lparr>payload = Some (DRow (project (Some companyColumns) r')), error = None\<rparr>,
                    AList.update ''companies''
                      (map (\<lambda>x. if targets i x then r' else x) (tableRows d ''companies'')) d)
              \<and> map_of r' ''status'' = Some (JStr st)
              \<and> map_of r' ''updated_at'' = Some (JStr now)
              \<and> (st = ''approved'' \<longrightarrow>
                    map_of r' ''approved_at'' = Some (JStr now2)
                    \<and> map_of r' ''is_verified'' = Some (JBool True))
              \<and> (st = ''rejected'' \<or> st = ''suspended'' \<longrightarrow>
                    map_of r' ''is_verified'' = Some (JBool False))
              \<and> outside ([''status'', ''updated_at''] @ companyExtraColumns st) r'
                  = outside ([''status'', ''updated_at''] @ companyExtraColumns st) rc)"
    by (rule impI) (rule company_effect)
qed

theorem status_updates_write_few_columns_witness:
  "filter (targets ''b1'') (tableRows businessesDb ''businesses'') = [cafe]
   \<and> updateBusinessStatus memory ''b1'' ''active'' ''2025-06-01T12:00:00.000Z'' businessesDb
       = (\<lparr>payload = Some (DRow [(''id'', JStr ''b1''), (''name'', JStr ''Cafe''),
                                  (''status'', JStr ''active''),
                                  (''updated_at'', JStr ''2025-06-01T12:00:00.000Z'')]),
           error = None\<rparr>,
          [(''businesses'',
            [[(''id'', JStr ''b1''), (''name'', JStr ''Cafe''), (''status'', JStr ''active''),
              (''updated_at'', JStr ''2025-06-01T12:00:00.000Z'')], bakery])])
   \<and> ''users'' \<noteq> ''businesses''
   \<and> tableRows (snd (updateBusinessStatus memory ''b1'' ''active'' ''2025-06-01T12:00:00.000Z''
                        businessesDb)) ''users''
       = tableRows businessesDb ''users''
   \<and> filter (targets ''c1'') (tableRows companiesDb ''companies'') = [acme]
   \<and> updateCompanyStatus memory ''c1'' ''approved'' ''2025-06-01T12:00:00.000Z''
         ''2025-06-01T12:00:00.001Z'' companiesDb
       = (\<lparr>payload = Some (DRow [(''id'', JStr ''c1''), (''name'', JStr ''Acme''),
                                  (''status'', JStr ''approved''),
                                  (''is_verified'', JBool True),
                                  (''approved_at'', JStr ''2025-06-01T12:00:00.001Z''),
                                  (''updated_at'', JStr ''2025-06-01T12:00:00.000Z'')]),
           error = None\<rparr>,
          [(''companies'',
            [[(''id'', JStr ''c1''), (''name'', JStr ''Acme''), (''status'', JStr ''approved''),
              (''is_verified'', JBool True),
              (''approved_at'', JStr ''2025-06-01T12:00:00.001Z''),
              (''updated_at'', JStr ''2025-06-01T12:00:00.000Z'')]])])"
proof -
  let ?now = "''2025-06-01T12:00:00.000Z''"
  let ?now2 = "''2025-06-01T12:00:00.001Z''"
  have hb: "filter (targets ''b1'') (tableRows businessesDb ''businesses'') = [cafe]"
    by code_simp
  have hc: "filter (targets ''c1'') (tableRows companiesDb ''companies'') = [acme]"
    by code_simp
  have n: "''users'' \<noteq> ''businesses''" by simp
  have eb: "updateBusinessStatus memory ''b1'' ''active'' ?now businessesDb
       = (\<lparr>payload = Some (DRow [(''id'', JStr ''b1''), (''name'', JStr ''Cafe''),
                                  (''status'', JStr ''active''), (''updated_at'', JStr ?now)]),
           error = None\<rparr>,
          [(''businesses'',
            [[(''id'', JStr ''b1''), (''name'', JStr ''Cafe''), (''status'', JStr ''active''),
              (''updated_at'', JStr ?now)], bakery])])"
    by code_simp
  have ec: "updateCompanyStatus memory ''c1'' ''approved'' ?now ?now2 companiesDb
       = (\<lparr>payload = Some (DRow [(''id'', JStr ''c1''), (''name'', JStr ''Acme''),
                                  (''status'', JStr ''approved''),
                                  (''is_verified'', JBool True),
                                  (''approved_at'', JStr ?now2),
                                  (''updated_at'', JStr ?now)]),
           error = None\<rparr>,
          [(''companies'',
            [[(''id'', JStr ''c1''), (''name'', JStr ''Acme''), (''status'', JStr ''approved''),
              (''is_verified'', JBool True), (''approved_at'', JStr ?now2),
              (''updated_at'', JStr ?now)]])])"
    by code_simp
  note tb = status_updates_write_few_columns
      [where i="''b1''" and st="''active''" and now="?now" and d=businessesDb and rb=cafe]
  note tc = status_updates_write_few_columns
      [where i="''c1''" and st="''approved''" and now="?now" and ?now2.0="?now2"
         and d=companiesDb and rc=acme]
  from tb[THEN conjunct2, THEN conjunct2, THEN conjunct1, rule_format, OF hb]
  obtain rb' where b: "map_of rb' ''status'' = Some (JStr ''active'')"
    and b': "updateBusinessStatus memory ''b1'' ''active'' ?now businessesDb
       = (\<lparr>payload = Some (DRow (project (Some businessColumns) rb')), error = None\<rparr>,
          AList.update ''businesses''
            (map (\<lambda>x. if targets ''b1'' x then rb' else x)
               (tableRows businessesDb ''businesses'')) businessesDb)"
    by blast
  have u: "tableRows (snd (updateBusinessStatus memory ''b1'' ''active'' ?now businessesDb))
             ''users'' = tableRows businessesDb ''users''"
    by (rule tb[THEN conjunct2, THEN conjunct1, THEN conjunct2, rule_format, OF n])
  from tc[THEN conjunct2, THEN conjunct2, THEN conjunct2, THEN conjunct2, THEN conjunct2,
          THEN conjunct2, THEN conjunct2, THEN conjunct2, rule_format, OF hc]
  obtain rc' where c: "map_of rc' ''is_verified'' = Some (JBool True)"
    by blast
  from hb eb n u hc ec b b' c show ?thesis by (intro conjI)
qed

text \<open>
  The claim as first stated has the status update change the status field alone. The
  stored \<open>updated_at\<close> of the targeted row changes with it.
\<close>

theorem status_update_touches_updated_at:
  "tableRows businessesDb ''businesses''
     = [[(''id'', JStr ''b1''), (''name'', JStr ''Cafe''), (''status'', JStr ''pending''),
         (''updated_at'', JStr ''2024-01-01T00:00:00.000Z'')], bakery]
   \<and> updateBusinessStatus memory ''b1'' ''active'' ''2025-06-01T12:00:00.000Z'' businessesDb
     = (\<lparr>payload = Some (DRow [(''id'', JStr ''b1''), (''name'', JStr ''Cafe''),
                                (''status'', JStr ''active''),
                                (''updated_at'', JStr ''2025-06-01T12:00:00.000Z'')]),
         error = None\<rparr>,
        [(''businesses'',
          [[(''id'', JStr ''b1''), (''name'', JStr ''Cafe''), (''status'', JStr ''active''),
            (''updated_at'', JStr ''2025-06-01T12:00:00.000Z'')], bakery])])"
  by code_simp
subsection \<open>Slug uniqueness of legal pages\<close>

lemma slugs_Cons:
  "slugs (r # rs) =
     (case map_of r ''slug'' of
        None \<Rightarrow> slugs rs
      | Some v \<Rightarrow> if v = JNull then slugs rs else v # slugs rs)"
  by (simp add: slugs_def map_filter_simps split: option.splits)

lemma slug_in_slugs:
  "r \<in> set rs \<Longrightarrow> map_of r ''slug'' = Some (JStr s) \<Longrightarrow> JStr s \<in> set (slugs rs)"
  by (induction rs) (auto simp: slugs_Cons split: option.splits)

lemma distinct_slugs_tail: "distinct (slugs (r # rs)) \<Longrightarrow> distinct (slugs rs)"
  by (auto simp: slugs_Cons split: option.splits if_splits)

lemma unique_slug_row:
  assumes "distinct (slugs rs)" "r \<in> set rs" "map_of r ''slug'' = Some (JStr s)"
  shows "filter (\<lambda>x. map_of x ''slug'' = Some (JStr s)) rs = [r]"
  using assms
proof (induction rs)
  case Nil
  then show ?case by simp
next
  case (Cons x xs)
  show ?case
  proof (cases "map_of x ''slug'' = Some (JStr s)")
    case True
    with Cons.prems(1) have notin: "JStr s \<notin> set (slugs xs)"
      by (simp add: slugs_Cons)
    then have none: "filter (\<lambda>x. map_of x ''slug'' = Some (JStr s)) xs = []"
      using slug_in_slugs[of _ xs s] by (auto simp: filter_empty_conv)
    have "r = x"
    proof (rule ccontr)
      assume "r \<noteq> x"
      with Cons.prems(2) have "r \<in> set xs" by simp
      with Cons.prems(3) notin slug_in_slugs[of r xs s] show False by simp
    qed
    with True none show ?thesis by simp
  next
    case False
    with Cons.prems have "r \<in> set xs" by auto
    with Cons.IH[OF distinct_slugs_tail[OF Cons.prems(1)] _ Cons.prems(3)] False
    show ?thesis by simp
  qed
qed

text \<open>The two lookups that precede a write, on the memory store.\<close>

lemma create_lookup:
  assumes "slugsUnique d" "r \<in> set (tableRows d ''legal_pages'')"
    "map_of r ''slug'' = Some (JStr s)"
  shows "memoryQuery (chain (fromTable ''legal_pages'')
                        [select ''id'', addFilter (Eq ''slug'' (JStr s)), single]) d
         = (ok (DRow (project (Some ''id'') r)) None, d)"
proof -
  let ?q = "chain (fromTable ''legal_pages'')
              [select ''id'', addFilter (Eq ''slug'' (JStr s)), single]"
  have q: "table ?q = ''legal_pages''" "verb ?q = Select" "supported ?q" "singleRow ?q"
    "columns ?q = Some ''id''" "filters ?q = [Eq ''slug'' (JStr s)]"
    by (simp_all add: chain_def fromTable_def select_def addFilter_def single_def supported_def)
  have m: "matches ?q = (\<lambda>x. map_of x ''slug'' = Some (JStr s))"
    by (rule ext) (simp add: matches_def q)
  have f: "filter (matches ?q) (tableRows d ''legal_pages'') = [r]"
    unfolding m using assms by (intro unique_slug_row) (simp_all add: slugsUnique_def)
  show ?thesis
    by (simp add: memoryQuery_def q f answerRows_def Let_def)
qed

lemma update_lookup:
  assumes "slugsUnique d" "r \<in> set (tableRows d ''legal_pages'')"
    "map_of r ''slug'' = Some (JStr s)" "map_of r ''id'' = Some v" "v \<noteq> JNull" "v \<noteq> JStr i"
  shows "memoryQuery (chain (fromTable ''legal_pages'')
                        [select ''id'', addFilter (Eq ''slug'' (JStr s)),
                         addFilter (Neq ''id'' (JStr i)), single]) d
         = (ok (DRow (project (Some ''id'') r)) None, d)"
proof -
  let ?q = "chain (fromTable ''legal_pages'')
              [select ''id'', addFilter (Eq ''slug'' (JStr s)),
               addFilter (Neq ''id'' (JStr i)), single]"
  have q: "table ?q = ''legal_pages''" "verb ?q = Select" "supported ?q" "singleRow ?q"
    "columns ?q = Some ''id''" "filters ?q = [Eq ''slug'' (JStr s), Neq ''id'' (JStr i)]"
    by (simp_all add: chain_def fromTable_def select_def addFilter_def single_def supported_def)
  have m: "filter (matches ?q) rs
      = filter (holds (Neq ''id'' (JStr i))) (filter (\<lambda>x. map_of x ''slug'' = Some (JStr s)) rs)"
    for rs
    by (induction rs) (simp_all add: matches_def q)
  have "filter (\<lambda>x. map_of x ''slug'' = Some (JStr s)) (tableRows d ''legal_pages'') = [r]"
    using assms(1-3) by (intro unique_slug_row) (simp_all add: slugsUnique_def)
  then have f: "filter (matches ?q) (tableRows d ''legal_pages'') = [r]"
    unfolding m using assms(4-6) by simp
  show ?thesis
    by (simp add: memoryQuery_def q f answerRows_def Let_def)
qed

lemma createLegalPage_taken:
  assumes "slugsUnique d" "r \<in> set (tableRows d ''legal_pages'')"
    "map_of r ''slug'' = Some (JStr (new_slug inp))"
  shows "createLegalPage memory inp d = (\<lparr>payload = None, error = Some slugTaken\<rparr>, d)"
  unfolding createLegalPage_def
  by (simp add: tryCatch_def await_def create_lookup[OF assms] ok_def returnA_def)

lemma updateLegalPage_taken:
  assumes "slugsUnique d" "upd_slug inp = Some s" "s \<noteq> []"
    "r \<in> set (tableRows d ''legal_pages'')" "map_of r ''slug'' = Some (JStr s)"
    "map_of r ''id'' = Some v" "v \<noteq> JNull" "v \<noteq> JStr i"
  shows "updateLegalPage memory i inp now d = (\<lparr>payload = None, error = Some slugTaken\<rparr>, d)"
  unfolding updateLegalPage_def
  by (simp add: tryCatch_def await_def truthy_def orDefault_def assms(2,3)
      update_lookup[OF assms(1,4,5,6,7,8)] ok_def returnA_def)

text \<open>The memory store keeps the slugs unique, whatever is asked of it.\<close>

lemma writeRows_unique:
  "slugsUnique d \<Longrightarrow> slugsUnique (snd (writeRows q d rows' returned))"
  by (auto simp: writeRows_def slugsUnique_def violatesUnique_def tableRows_def update_conv')

lemma memory_keeps_slugs_unique: "slugsUnique d \<Longrightarrow> slugsUnique (snd (memory req d))"
  by (cases req)
     (auto simp: memoryQuery_def Let_def writeRows_unique split: verb.splits)

lemma await_memory_unique:
  assumes "\<And>r s'. slugsUnique s' \<Longrightarrow> slugsUnique (snd (k r s'))" "slugsUnique d"
  shows "slugsUnique (snd (await memory req k d))"
proof (cases "memory req d")
  case (Pair a d')
  have u: "slugsUnique d'" using memory_keeps_slugs_unique[OF assms(2), of req] Pair by simp
  show ?thesis
    using Pair u assms(1) by (cases a) (simp_all add: await_def)
qed

lemma tryCatch_unique:
  "slugsUnique (snd (body d)) \<Longrightarrow> slugsUnique (snd (tryCatch body h d))"
  by (cases "body d") (auto simp: tryCatch_def split: sum.splits)

lemma createLegalPage_keeps_slugs_unique:
  "slugsUnique d \<Longrightarrow> slugsUnique (snd (createLegalPage memory inp d))"
  unfolding createLegalPage_def
  by (intro tryCatch_unique await_memory_unique) (simp_all add: returnA_def await_memory_unique)

lemma updateLegalPage_keeps_slugs_unique:
  "slugsUnique d \<Longrightarrow> slugsUnique (snd (updateLegalPage memory i inp now d))"
  unfolding updateLegalPage_def updateLegalPageWrite_def
  by (cases "truthy (upd_slug inp)")
     (auto intro!: tryCatch_unique await_memory_unique simp: returnA_def)


text \<open>
  C3 (as amended): on a store that holds at most one legal page per slug and answers the
  lookup that precedes the write, \<open>createLegalPage\<close> returns a null page and the error
  \<open>A legal page with this slug already exists\<close> whenever a legal page with the requested
  slug exists, and \<open>updateLegalPage\<close> returns the same whenever a non-empty slug is supplied
  that belongs to a legal page with another id; in both cases nothing is written and the
  store is as before.
\<close>

theorem legal_page_slug_is_checked:
  assumes "slugsUnique d"
  shows "(\<forall>r. r \<in> set (tableRows d ''legal_pages'')
             \<and> map_of r ''slug'' = Some (JStr (new_slug inp)) \<longrightarrow>
           createLegalPage memory inp d
             = (\<lparr>payload = None,
                 error = Some \<lparr>message = ''A legal page with this slug already exists'',
                               code = None, status = None\<rparr>\<rparr>, d))
    \<and> (\<forall>r s v. upd_slug u = Some s \<and> s \<noteq> [] \<and> r \<in> set (tableRows d ''legal_pages'')
             \<and> map_of r ''slug'' = Some (JStr s)
             \<and> map_of r ''id'' = Some v \<and> v \<noteq> JNull \<and> v \<noteq> JStr i \<longrightarrow>
           updateLegalPage memory i u now d
             = (\<lparr>payload = None,
                 error = Some \<lparr>message = ''A legal page with this slug already exists'',
                               code = None, status = None\<rparr>\<rparr>, d))"
  using createLegalPage_taken[OF assms, of _ inp] updateLegalPage_taken[OF assms, of u _ _ _ i now]
  unfolding slugTaken_def by blast

theorem legal_page_slug_is_checked_witness:
  "slugsUnique pagesDb
   \<and> termsPage \<in> set (tableRows pagesDb ''legal_pages'')
   \<and> map_of termsPage ''slug'' = Some (JStr ''terms'')
   \<and> map_of termsPage ''id'' = Some (JStr ''p1'')
   \<and> createLegalPage memory
         \<lparr>new_title = ''Terms of use'', new_slug = ''terms'', new_page_type = ''terms'',
          new_content = ''...''\<rparr> pagesDb
       = (\<lparr>payload = None,
           error = Some \<lparr>message = ''A legal page with this slug already exists'',
                         code = None, status = None\<rparr>\<rparr>, pagesDb)
   \<and> updateLegalPage memory ''p2''
         \<lparr>upd_title = None, upd_slug = Some ''terms'', upd_content = None,
          upd_is_active = None\<rparr> ''2025-06-01T12:00:00.000Z'' pagesDb
       = (\<lparr>payload = None,
           error = Some \<lparr>message = ''A legal page with this slug already exists'',
                         code = None, status = None\<rparr>\<rparr>, pagesDb)"
proof -
  let ?inp = "\<lparr>new_title = ''Terms of use'', new_slug = ''terms'', new_page_type = ''terms'',
          new_content = ''...''\<rparr>"
  let ?u = "\<lparr>upd_title = None, upd_slug = Some ''terms'', upd_content = None,
          upd_is_active = None\<rparr>"
  have h: "slugsUnique pagesDb" by code_simp
  have m: "termsPage \<in> set (tableRows pagesDb ''legal_pages'')"
    by (simp add: pagesDb_def tableRows_def)
  have s: "map_of termsPage ''slug'' = Some (JStr ''terms'')"
    and i: "map_of termsPage ''id'' = Some (JStr ''p1'')"
    by (simp_all add: termsPage_def)
  note t = legal_page_slug_is_checked[OF h, of ?inp ?u "''p2''" "''2025-06-01T12:00:00.000Z''"]
  have c: "createLegalPage memory ?inp pagesDb
       = (\<lparr>payload = None,
           error = Some \<lparr>message = ''A legal page with this slug already exists'',
                         code = None, status = None\<rparr>\<rparr>, pagesDb)"
    using t[THEN conjunct1, rule_format, of termsPage] m s by simp
  have u: "updateLegalPage memory ''p2'' ?u ''2025-06-01T12:00:00.000Z'' pagesDb
       = (\<lparr>payload = None,
           error = Some \<lparr>message = ''A legal page with this slug already exists'',
                         code = None, status = None\<rparr>\<rparr>, pagesDb)"
    using t[THEN conjunct2, rule_format, of "''terms''" termsPage "JStr ''p1''"] m s i by simp
  from h m s i c u show ?thesis by simp
qed

text \<open>
  The claim as first stated has the error of the uniqueness check returned whenever the
  page exists. The functions read only \<open>data\<close> of the lookup (\<open>const { data: existing }\<close>),
  not its error, so a lookup that fails looks like a slug that is free: the write is sent
  and its outcome is what the caller gets. Here the page \<open>p1\<close> has the slug \<open>terms\<close> and
  the lookup times out: \<open>createLegalPage\<close> and \<open>updateLegalPage\<close> go on to the write and
  return the store's own refusal of it, not the error of the check. With answers given one
  by one, the requests sent are the lookup and then the insert, and the answer to the
  insert is returned. The same happens on rows where two pages carry the slug, since
  \<open>single\<close> then answers the lookup with an error.
\<close>

theorem refused_lookup_is_not_checked:
  "slugsUnique pagesDb
   \<and> termsPage \<in> set (tableRows pagesDb ''legal_pages'')
   \<and> map_of termsPage ''slug'' = Some (JStr ''terms'')
   \<and> map_of termsPage ''id'' = Some (JStr ''p1'')
   \<and> createLegalPage refusing
         \<lparr>new_title = ''Terms of use'', new_slug = ''terms'', new_page_type = ''terms'',
          new_content = ''...''\<rparr> (Suc 0, pagesDb)
       = (\<lparr>payload = None,
           error = Some \<lparr>message = ''duplicate key value violates unique constraint'',
                         code = Some ''23505'', status = None\<rparr>\<rparr>, (0, pagesDb))
   \<and> updateLegalPage refusing ''p2''
         \<lparr>upd_title = None, upd_slug = Some ''terms'', upd_content = None,
          upd_is_active = None\<rparr> ''2025-06-01T12:00:00.000Z'' (Suc 0, pagesDb)
       = (\<lparr>payload = None,
           error = Some \<lparr>message = ''duplicate key value violates unique constraint'',
                         code = Some ''23505'', status = None\<rparr>\<rparr>, (0, pagesDb))
   \<and> createLegalPage scripted
         \<lparr>new_title = ''Terms of use'', new_slug = ''terms'', new_page_type = ''terms'',
          new_content = ''...''\<rparr>
         \<lparr>answers = [timedOut, ok (DRow [(''id'', JStr ''p9''), (''slug'', JStr ''terms'')]) None],
          sent = []\<rparr>
       = (\<lparr>payload = Some (DRow [(''id'', JStr ''p9''), (''slug'', JStr ''terms'')]),
           error = None\<rparr>,
          \<lparr>answers = [],
           sent = [Rest (chain (fromTable ''legal_pages'')
                           [select ''id'', addFilter (Eq ''slug'' (JStr ''terms'')), single]),
                   Rest (chain (fromTable ''legal_pages'')
                           [insertRow [(''title'', JStr ''Terms of use''),
                                       (''slug'', JStr ''terms''),
                                       (''page_type'', JStr ''terms''),
                                       (''content'', JStr ''...''),
                                       (''is_active'', JBool True)],
                            select ''*'', single])]\<rparr>)
   \<and> \<not> slugsUnique copiedDb
   \<and> termsPage \<in> set (tableRows copiedDb ''legal_pages'')
   \<and> createLegalPage memory
         \<lparr>new_title = ''Terms of use'', new_slug = ''terms'', new_page_type = ''terms'',
          new_content = ''...''\<rparr> copiedDb
       = (\<lparr>payload = None,
           error = Some \<lparr>message = ''duplicate key value violates unique constraint'',
                         code = Some ''23505'', status = None\<rparr>\<rparr>, copiedDb)"
  by code_simp

text \<open>
  An empty slug is outside the statement above. \<open>if (input.slug)\<close> does not hold for the
  empty string, so \<open>updateLegalPage\<close> skips the lookup that its comment (\<open>If updating slug,
  check uniqueness\<close>) announces and that \<open>createLegalPage\<close> makes for every slug: the update
  is the only request sent. Here page \<open>p2\<close> has the empty slug and it is supplied for page
  \<open>p1\<close>.
\<close>

lemma empty_slug_skips_lookup:
  "slugsUnique pagesDb
   \<and> untitledPage \<in> set (tableRows pagesDb ''legal_pages'')
   \<and> map_of untitledPage ''slug'' = Some (JStr '''')
   \<and> map_of untitledPage ''id'' = Some (JStr ''p2'')
   \<and> updateLegalPage memory ''p1''
         \<lparr>upd_title = None, upd_slug = Some '''', upd_content = None, upd_is_active = None\<rparr>
         ''2025-06-01T12:00:00.000Z'' pagesDb
       = (\<lparr>payload = None,
           error = Some \<lparr>message = ''duplicate key value violates unique constraint'',
                         code = Some ''23505'', status = None\<rparr>\<rparr>, pagesDb)
   \<and> sent (snd (updateLegalPage scripted ''p1''
         \<lparr>upd_title = None, upd_slug = Some '''', upd_content = None, upd_is_active = None\<rparr>
         ''2025-06-01T12:00:00.000Z'' \<lparr>answers = [], sent = []\<rparr>))
       = [Rest (updateById ''legal_pages''
                  [(''slug'', JStr ''''), (''updated_at'', JStr ''2025-06-01T12:00:00.000Z'')]
                  ''p1'' ''*'')]"
  by code_simp
subsection \<open>Login and registration\<close>

text \<open>
  \<open>login\<close> returns a user only if the profile it fetched is a row whose \<open>user_type\<close> is
  \<open>'admin'\<close>, and then without an error.
\<close>

lemma userTypeOf_admin:
  "userTypeOf d = Inr (JStr ''admin'') \<Longrightarrow>
   \<exists>userData. d = DRow userData \<and> field userData ''user_type'' = JStr ''admin''"
  by (cases d) (simp_all add: userTypeOf_def)

lemma login_admin_only:
  assumes "user (fst (login be e p s)) = Some d"
  shows "(\<exists>userData. d = DRow userData \<and> field userData ''user_type'' = JStr ''admin'')
         \<and> sessionError (fst (login be e p s)) = None"
  using assms userTypeOf_admin
  unfolding login_def tryCatch_def await_def returnA_def throwA_def noSession_def
  by (auto split: prod.splits settled.splits option.splits sum.splits if_splits)

lemma login_denies_non_admin:
  assumes "be (SignInWithPassword e p) s = (Resolved auth, s1)" "r_error auth = None"
    "r_data auth = DAuth (Some authUser) authSession"
    "be (Rest (chain (fromTable ''users'')
                 [select ''*'', addFilter (Eq ''id'' (field authUser ''id'')), single])) s1
       = (Resolved profile, s2)"
    "r_error profile = None" "r_data profile = DRow userData"
    "field userData ''user_type'' \<noteq> JStr ''admin''"
    "be SignOut s2 = (Resolved out, s3)"
  shows "login be e p s
         = (\<lparr>session = None, user = None,
             sessionError = Some \<lparr>message = ''Access denied. Admin privileges required.'',
                                  code = None, status = None\<rparr>\<rparr>, s3)"
  unfolding login_def
  by (simp add: tryCatch_def await_def assms authDataOf_def userTypeOf_def returnA_def
      noSession_def plainError_def)

text \<open>
  C1, the part on \<open>register\<close>: the claim has registration succeed only under the
  authenticated-admin check. \<open>register\<close> makes no such check. Called with nobody signed in,
  for a new admin account, it sends the sign-up and the insert of the profile, nothing
  else, and returns the new admin's profile without an error. (A non-admin who logs in is
  denied and signed out, as the claim says of \<open>login\<close>.)
\<close>

theorem register_makes_no_admin_check:
  "register scripted eve
     \<lparr>answers = [ok (DAuth (Some [(''id'', JStr ''u9'')]) None) None, ok (DRow eveProfile) None],
      sent = []\<rparr>
   = (\<lparr>payload = Some (DRow eveProfile), error = None\<rparr>,
      \<lparr>answers = [],
       sent = [SignUp ''eve@example.com'' ''Passw0rd''
                 [(''full_name'', JStr ''Eve''), (''user_type'', JStr ''admin'')],
               Rest (chain (fromTable ''users'')
                       [insertRow (registerProfile (JStr ''u9'') eve), select ''*'',
                        single])]\<rparr>)
   \<and> field eveProfile ''user_type'' = JStr ''admin''
   \<and> login scripted ''bob@example.com'' ''pw''
       \<lparr>answers = [ok (DAuth (Some [(''id'', JStr ''u2'')]) None) None,
                   ok (DRow bobProfile) None, ok DNull None],
        sent = []\<rparr>
     = (\<lparr>session = None, user = None,
         sessionError = Some \<lparr>message = ''Access denied. Admin privileges required.'',
                              code = None, status = None\<rparr>\<rparr>,
        \<lparr>answers = [],
         sent = [SignInWithPassword ''bob@example.com'' ''pw'',
                 Rest (chain (fromTable ''users'')
                         [select ''*'', addFilter (Eq ''id'' (JStr ''u2'')), single]),
                 SignOut]\<rparr>)"
  by code_simp

end
